theory Spec2Isabelle
  imports Main "HOL-Library.Sublist" "HOL-Library.Multiset" "HOL-Library.AList"
begin

section \<open>Strings and JavaScript values\<close>

text \<open>
  JavaScript strings are modelled as \<open>string\<close>. \<open>s.includes(pat)\<close> is substring
  containment: some suffix of \<open>s\<close> starts with \<open>pat\<close>.
\<close>

fun str_includes :: "string \<Rightarrow> string \<Rightarrow> bool" where
  "str_includes [] pat = (pat = [])"
| "str_includes (c # cs) pat = (prefix pat (c # cs) \<or> str_includes cs pat)"


text \<open>
  A value handed to a function that expects a string: a string, or anything else
  (\<open>undefined\<close>, \<open>null\<close>, a number, an object), for which \<open>typeof v !== 'string'\<close>.
\<close>

datatype js_value = JString string | JOther

section \<open>embeds.js: the language parameter of VK embed URLs\<close>

text \<open>
  \<^verbatim>\<open>
  function addVkLanguageParam(embedUrl) {
      if (!embedUrl || typeof embedUrl !== 'string') return embedUrl;
      if (embedUrl.includes('vk.com/video_ext.php') || embedUrl.includes('vkvideo.ru/video_ext.php')) {
          if (embedUrl.includes('lang=')) return embedUrl;
          const separator = embedUrl.includes('?') ? '&' : '?';
          return `${embedUrl}${separator}lang=en`;
      }
      return embedUrl;
  }
  \<close>
  The empty string is falsy, so it is returned by the first test.
\<close>

definition isVkEmbedUrl :: "string \<Rightarrow> bool" where
  "isVkEmbedUrl embedUrl =
     (str_includes embedUrl ''vk.com/video_ext.php'' \<or> str_includes embedUrl ''vkvideo.ru/video_ext.php'')"

definition separator :: "string \<Rightarrow> string" where
  "separator embedUrl = (if str_includes embedUrl ''?'' then ''&'' else ''?'')"

fun addVkLanguageParam :: "js_value \<Rightarrow> js_value" where
  "addVkLanguageParam JOther = JOther"
| "addVkLanguageParam (JString embedUrl) =
     (if embedUrl = [] then JString embedUrl
      else if isVkEmbedUrl embedUrl then
        (if str_includes embedUrl ''lang='' then JString embedUrl
         else JString (embedUrl @ separator embedUrl @ ''lang=en''))
      else JString embedUrl)"

text \<open>
  The query parameters of a URL, as a URL parser gives them: the query is what stands
  after the first \<open>?\<close> and before the first \<open>#\<close>; \<open>&\<close> separates its parameters, and
  the first \<open>=\<close> of a parameter separates its name from its value. The program never
  parses a URL; the parameters are what its test for the text \<open>lang=\<close> is measured
  against.
\<close>

definition url_query :: "string \<Rightarrow> string" where
  "url_query u = drop 1 (dropWhile (\<lambda>c. c \<noteq> CHR ''?'') (takeWhile (\<lambda>c. c \<noteq> CHR ''#'') u))"

fun split_on :: "char \<Rightarrow> string \<Rightarrow> string list" where
  "split_on c [] = [[]]"
| "split_on c (x # xs) =
     (if x = c then [] # split_on c xs
      else (case split_on c xs of [] \<Rightarrow> [[x]] | p # ps \<Rightarrow> (x # p) # ps))"

definition name_value :: "string \<Rightarrow> string \<times> string" where
  "name_value p = (takeWhile (\<lambda>c. c \<noteq> CHR ''='') p, drop 1 (dropWhile (\<lambda>c. c \<noteq> CHR ''='') p))"

definition query_params :: "string \<Rightarrow> (string \<times> string) list" where
  "query_params u = map name_value (filter (\<lambda>p. p \<noteq> []) (split_on CHR ''&'' (url_query u)))"

definition language_params :: "string \<Rightarrow> string list" where
  "language_params u = map snd (filter (\<lambda>(name, v). name = ''lang'') (query_params u))"

section \<open>Iframes and the browser\<close>

text \<open>
  An iframe element with the attributes the program reads and writes. \<open>src_attr\<close> is the
  \<open>src\<close> content attribute (\<open>None\<close>: absent) and \<open>original_src\<close> the
  \<open>data-original-src\<close> attribute the program keeps for restoring a blanked source. The
  other attributes are strings, empty when absent. \<open>pending_src\<close> is no attribute: it
  is the source that a timer set on this very element will assign once it fires
  (\<open>setTimeout(() => { newIframe.src = originalSrc; }, 10)\<close>).
\<close>

record iframe =
  src_attr :: "string option"
  original_src :: "string option"
  ifr_id :: string
  ifr_width :: string
  ifr_height :: string
  ifr_frameBorder :: string
  ifr_allow :: string
  ifr_title :: string
  ifr_style :: string
  ifr_scrolling :: string
  ifr_allowFullscreen :: bool
  pending_src :: "string option"

text \<open>
  What the program does not own: \<open>resolve\<close> is the browser's parsing of a \<open>src\<close>
  attribute against the document (the value \<open>iframe.src\<close> reads back), \<open>href\<close> is
  \<open>window.location.href\<close>; \<open>twitch_sdk\<close> says whether the Twitch SDK is loaded and
  whether \<open>new Twitch.Embed\<close> returns, \<open>twitch_iframe\<close> is the iframe the SDK then puts
  into its container, and \<open>twitch_player\<close> whether \<open>getPlayer().pause()\<close> returns.
  \<open>mixcloud_sdk\<close> does the same for \<open>Mixcloud.PlayerWidget\<close>, which returns
  \<open>mixcloud_widget\<close>: a widget has a \<open>pause\<close> function that returns or throws, or has
  none, and \<open>w_paused\<close> records that it was paused.
\<close>

datatype sdk = SdkMissing | SdkThrows | SdkOk

datatype pause_fn = NoPause | PauseThrows | PauseOk

record widget =
  w_pause :: pause_fn
  w_paused :: bool

record browser =
  resolve :: "string \<Rightarrow> string"
  href :: string
  twitch_sdk :: sdk
  twitch_iframe :: "string \<Rightarrow> iframe"
  twitch_player :: bool
  mixcloud_sdk :: sdk
  mixcloud_widget :: widget
  encodeURIComponent :: "string \<Rightarrow> string"

text \<open>\<open>iframe.src\<close>: the empty string when the attribute is absent, else the resolved URL.\<close>

definition src_of :: "browser \<Rightarrow> iframe \<Rightarrow> string" where
  "src_of b f = (case src_attr f of None \<Rightarrow> [] | Some a \<Rightarrow> resolve b a)"

text \<open>JavaScript truthiness of a string, and of the result of \<open>getAttribute\<close>.\<close>

definition truthy :: "string \<Rightarrow> bool" where
  "truthy s = (s \<noteq> [])"

definition truthy_attr :: "string option \<Rightarrow> bool" where
  "truthy_attr a = (case a of None \<Rightarrow> False | Some s \<Rightarrow> truthy s)"

text \<open>\<open>a || b\<close> on strings.\<close>

definition or_else :: "string \<Rightarrow> string \<Rightarrow> string" where
  "or_else a b = (if truthy a then a else b)"

section \<open>stream-controls.js: the stream tabs\<close>

text \<open>
  The part of the page \<open>switchStream\<close> and \<open>unloadStream\<close> touch. An element that
  \<open>getElementById\<close> may not find is an option; for the tabs, players and chat panel the
  value is whether the element carries the class \<open>active\<close>. \<open>kickEmbed\<close> and
  \<open>twitchEmbedDiv\<close> are the iframes inside \<open>#kick-embed\<close> and \<open>#twitch-embed\<close>.
  \<open>twitchEmbed\<close> is the module variable of embeds.js (the channel of the embed object),
  \<open>twitchPauses\<close> counts the \<open>pause()\<close> calls that reached the player, and \<open>calls\<close>
  records every call of \<open>unloadStream\<close> and \<open>initTwitchEmbed\<close>, newest first.
\<close>

datatype call = UnloadStream string | InitTwitchEmbed string

record stream_page =
  activeStream :: string
  kickTab :: "bool option"
  twitchTab :: "bool option"
  kickPlayer :: "bool option"
  twitchPlayer :: "bool option"
  twitchChat :: "bool option"
  kickEmbed :: "iframe list option"
  twitchEmbedDiv :: "iframe list option"
  twitchEmbed :: "string option"
  twitchPauses :: nat
  calls :: "call list"

text \<open>\<open>container.querySelector('iframe')\<close>: the first iframe, if any.\<close>

definition first_iframe :: "iframe list option \<Rightarrow> iframe option" where
  "first_iframe c = (case c of None \<Rightarrow> None | Some [] \<Rightarrow> None | Some (f # fs) \<Rightarrow> Some f)"

definition set_first_iframe :: "iframe \<Rightarrow> iframe list option \<Rightarrow> iframe list option" where
  "set_first_iframe g c = (case c of None \<Rightarrow> None | Some [] \<Rightarrow> Some [] | Some (f # fs) \<Rightarrow> Some (g # fs))"

text \<open>
  \<^verbatim>\<open>
  function pauseTwitchEmbed() {
      if (twitchEmbed) {
          try { const player = twitchEmbed.getPlayer(); if (player) player.pause(); }
          catch (error) { console.warn(...); }
      }
  }
  \<close>
\<close>

definition pauseTwitchEmbed :: "browser \<Rightarrow> stream_page \<Rightarrow> stream_page" where
  "pauseTwitchEmbed b p =
     (if twitchEmbed p \<noteq> None \<and> twitch_player b then p\<lparr>twitchPauses := Suc (twitchPauses p)\<rparr> else p)"

text \<open>
  \<^verbatim>\<open>
  export function unloadStream(stream) {
      if (stream === 'twitch') {
          pauseTwitchEmbed();
          const twitchContainer = document.getElementById('twitch-embed');
          if (twitchContainer) { twitchContainer.innerHTML = ''; twitchEmbed = null; }
      } else if (stream === 'kick') {
          const kickIframe = document.querySelector('#kick-embed iframe');
          if (kickIframe && kickIframe.src) {
              kickIframe.setAttribute('data-original-src', kickIframe.src);
              kickIframe.src = '';
          }
      }
  }
  \<close>
\<close>

definition unloadStream :: "browser \<Rightarrow> string \<Rightarrow> stream_page \<Rightarrow> stream_page" where
  "unloadStream b stream p0 =
     (let p = p0\<lparr>calls := UnloadStream stream # calls p0\<rparr> in
      if stream = ''twitch'' then
        (let q = pauseTwitchEmbed b p in
         case twitchEmbedDiv q of
           None \<Rightarrow> q
         | Some fs \<Rightarrow> q\<lparr>twitchEmbedDiv := Some [], twitchEmbed := None\<rparr>)
      else if stream = ''kick'' then
        (case first_iframe (kickEmbed p) of
           None \<Rightarrow> p
         | Some kickIframe \<Rightarrow>
             if truthy (src_of b kickIframe) then
               p\<lparr>kickEmbed := set_first_iframe
                    (kickIframe\<lparr>original_src := Some (src_of b kickIframe), src_attr := Some []\<rparr>)
                    (kickEmbed p)\<rparr>
             else p)
      else p)"

text \<open>
  \<^verbatim>\<open>
  export function initTwitchEmbed(channel, containerId, options = {}) {
      const container = document.getElementById(containerId);
      if (!container) { console.warn(...); return; }
      if (typeof Twitch === 'undefined' || !Twitch.Embed) { console.error(...); return; }
      try {
          ...
          twitchEmbed = new Twitch.Embed(containerId, embedOptions);
          ...
      } catch (error) { console.error(...); }
  }
  \<close>
  Here for the container \<open>twitch-embed\<close>, the only one the program passes.
\<close>

definition initTwitchEmbed :: "browser \<Rightarrow> string \<Rightarrow> stream_page \<Rightarrow> stream_page" where
  "initTwitchEmbed b channel p0 =
     (let p = p0\<lparr>calls := InitTwitchEmbed channel # calls p0\<rparr> in
      case twitchEmbedDiv p of
        None \<Rightarrow> p
      | Some fs \<Rightarrow>
          (case twitch_sdk b of
             SdkMissing \<Rightarrow> p
           | SdkThrows \<Rightarrow> p
           | SdkOk \<Rightarrow> p\<lparr>twitchEmbedDiv := Some (fs @ [twitch_iframe b channel]),
                         twitchEmbed := Some channel\<rparr>))"

text \<open>
  \<^verbatim>\<open>
  export function switchStream(stream) {
      if (stream !== 'kick' && stream !== 'twitch') { console.warn(...); return; }
      if (activeStream === stream) return;
      const kickTab = ..., twitchTab = ..., kickPlayer = ..., twitchPlayer = ...;
      if (!kickTab || !twitchTab || !kickPlayer || !twitchPlayer) return;
      if (activeStream) unloadStream(activeStream);
      const twitchChat = document.getElementById('twitch-chat');
      if (stream === 'kick') {
          kickTab.classList.add('active');      twitchTab.classList.remove('active');
          kickPlayer.classList.add('active');   twitchPlayer.classList.remove('active');
          if (twitchChat) twitchChat.classList.add('active');
          const kickIframe = document.querySelector('#kick-embed iframe');
          if (kickIframe) {
              const originalSrc = kickIframe.getAttribute('data-original-src');
              if (originalSrc && (!kickIframe.src || kickIframe.src === '')) {
                  kickIframe.src = originalSrc;
              } else if (!kickIframe.src || kickIframe.src === '' || !kickIframe.src.includes('kick.com')) {
                  kickIframe.src = `https://player.kick.com/${kickChannel}`;   // kickChannel = 'flukie'
              }
          }
      } else {
          twitchTab.classList.add('active');    kickTab.classList.remove('active');
          twitchPlayer.classList.add('active'); kickPlayer.classList.remove('active');
          if (twitchChat) twitchChat.classList.add('active'); else console.warn(...);
          const twitchContainer = document.getElementById('twitch-embed');
          if (twitchContainer) {
              const twitchIframe = twitchContainer.querySelector('iframe');
              if (!twitchIframe || !twitchIframe.src) initTwitchEmbed('flukie', 'twitch-embed', {...});
          }
      }
      activeStream = stream;
  }
  \<close>
\<close>

definition mark_chat :: "bool option \<Rightarrow> bool option" where
  "mark_chat c = (case c of None \<Rightarrow> None | Some a \<Rightarrow> Some True)"

definition reloadKick :: "browser \<Rightarrow> stream_page \<Rightarrow> stream_page" where
  "reloadKick b p =
     (case first_iframe (kickEmbed p) of
        None \<Rightarrow> p
      | Some kickIframe \<Rightarrow>
          if truthy_attr (original_src kickIframe) \<and> \<not> truthy (src_of b kickIframe) then
            p\<lparr>kickEmbed := set_first_iframe (kickIframe\<lparr>src_attr := original_src kickIframe\<rparr>) (kickEmbed p)\<rparr>
          else if \<not> truthy (src_of b kickIframe) \<or> \<not> str_includes (src_of b kickIframe) ''kick.com'' then
            p\<lparr>kickEmbed := set_first_iframe
                 (kickIframe\<lparr>src_attr := Some ''https://player.kick.com/flukie''\<rparr>) (kickEmbed p)\<rparr>
          else p)"

definition reloadTwitch :: "browser \<Rightarrow> stream_page \<Rightarrow> stream_page" where
  "reloadTwitch b p =
     (case twitchEmbedDiv p of
        None \<Rightarrow> p
      | Some fs \<Rightarrow>
          (case first_iframe (Some fs) of
             None \<Rightarrow> initTwitchEmbed b ''flukie'' p
           | Some twitchIframe \<Rightarrow>
               if \<not> truthy (src_of b twitchIframe) then initTwitchEmbed b ''flukie'' p else p))"

definition switchStream :: "browser \<Rightarrow> string \<Rightarrow> stream_page \<Rightarrow> stream_page" where
  "switchStream b stream p =
     (if stream \<noteq> ''kick'' \<and> stream \<noteq> ''twitch'' then p
      else if activeStream p = stream then p
      else if kickTab p = None \<or> twitchTab p = None \<or> kickPlayer p = None \<or> twitchPlayer p = None
        then p
      else
        (let p1 = (if truthy (activeStream p) then unloadStream b (activeStream p) p else p) in
         if stream = ''kick'' then
           (let p2 = p1\<lparr>kickTab := Some True, twitchTab := Some False,
                         kickPlayer := Some True, twitchPlayer := Some False,
                         twitchChat := mark_chat (twitchChat p1)\<rparr>;
                p3 = reloadKick b p2
            in p3\<lparr>activeStream := stream\<rparr>)
         else
           (let p2 = p1\<lparr>twitchTab := Some True, kickTab := Some False,
                         twitchPlayer := Some True, kickPlayer := Some False,
                         twitchChat := mark_chat (twitchChat p1)\<rparr>;
                p3 = reloadTwitch b p2
            in p3\<lparr>activeStream := stream\<rparr>)))"

definition getActiveStream :: "stream_page \<Rightarrow> string" where
  "getActiveStream p = activeStream p"

text \<open>
  The module starts with \<open>let activeStream = 'kick'\<close>, whatever the page holds. A run of
  calls threads the page through \<open>switchStream\<close>, one argument after the other.
\<close>

definition module_start :: "stream_page \<Rightarrow> stream_page" where
  "module_start p = p\<lparr>activeStream := ''kick''\<rparr>"

definition switchStream_run :: "browser \<Rightarrow> string list \<Rightarrow> stream_page \<Rightarrow> stream_page" where
  "switchStream_run b streams p = foldl (\<lambda>q stream. switchStream b stream q) p streams"

text \<open>A browser and a page to run the stream tabs on: Kick is showing, the Twitch tab is idle.\<close>

definition plain_iframe :: "string \<Rightarrow> iframe" where
  "plain_iframe s =
     \<lparr>src_attr = Some s, original_src = None, ifr_id = [], ifr_width = ''100%'',
      ifr_height = ''100%'', ifr_frameBorder = ''0'', ifr_allow = [], ifr_title = [],
      ifr_style = [], ifr_scrolling = [], ifr_allowFullscreen = True, pending_src = None\<rparr>"

definition example_browser :: browser where
  "example_browser =
     \<lparr>resolve = (\<lambda>s. if s = [] then ''https://example.org/'' else s),
      href = ''https://example.org/#live-streams'',
      twitch_sdk = SdkOk,
      twitch_iframe = (\<lambda>channel. plain_iframe (''https://embed.twitch.tv/?channel='' @ channel)),
      twitch_player = True,
      mixcloud_sdk = SdkOk,
      mixcloud_widget = \<lparr>w_pause = PauseOk, w_paused = False\<rparr>,
      encodeURIComponent = (\<lambda>s. s)\<rparr>"

definition example_stream_page :: stream_page where
  "example_stream_page =
     \<lparr>activeStream = ''kick'',
      kickTab = Some True, twitchTab = Some False,
      kickPlayer = Some True, twitchPlayer = Some False,
      twitchChat = Some True,
      kickEmbed = Some [(plain_iframe ''https://player.kick.com/flukie'')
                          \<lparr>original_src := Some ''https://player.kick.com/flukie''\<rparr>],
      twitchEmbedDiv = Some [],
      twitchEmbed = None,
      twitchPauses = 0,
      calls = []\<rparr>"

section \<open>config.js: the configuration loader\<close>

text \<open>
  A parsed JSON document. An object is the list of its properties; \<open>data.audio\<close> reads
  the property of that name, and is \<open>undefined\<close> (here \<open>None\<close>) on an object without
  it and on every value that is not an object. Numbers are kept as integers: only
  whether a number is zero is ever asked.
\<close>

datatype json = JNull | JBool bool | JNum int | JStr string | JArr "json list" | JObj "(string \<times> json) list"

fun json_truthy :: "json \<Rightarrow> bool" where
  "json_truthy JNull = False"
| "json_truthy (JBool v) = v"
| "json_truthy (JNum n) = (n \<noteq> 0)"
| "json_truthy (JStr s) = (s \<noteq> [])"
| "json_truthy (JArr xs) = True"
| "json_truthy (JObj kvs) = True"

text \<open>\<open>typeof data === 'object'\<close> holds of \<open>null\<close>, of arrays and of objects.\<close>

fun typeof_object :: "json \<Rightarrow> bool" where
  "typeof_object JNull = True"
| "typeof_object (JArr xs) = True"
| "typeof_object (JObj kvs) = True"
| "typeof_object v = False"

fun property :: "json \<Rightarrow> string \<Rightarrow> json option" where
  "property (JObj kvs) name = map_of kvs name"
| "property v name = None"

fun isArray :: "json option \<Rightarrow> bool" where
  "isArray (Some (JArr xs)) = True"
| "isArray v = False"

text \<open>
  What one \<open>fetch\<close> of \<open>data/archives.json\<close> can bring: a rejected promise, or a
  response with its \<open>ok\<close> flag, its status text and the outcome of \<open>response.json()\<close>
  (\<open>None\<close> when the body is not JSON). The errors are the values thrown.
\<close>

datatype fetch_result = FetchRejected | FetchResponse bool string "json option"

datatype config_error =
    NetworkError
  | FailedToLoad string
  | MalformedJson
  | InvalidFormat string

text \<open>
  The module's two variables, and the number of fetches issued so far. \<open>network\<close> is
  what the network answers to the fetch with that number.
\<close>

record config_module =
  configData :: "json option"
  configError :: "config_error option"
  fetches :: nat

type_synonym network = "nat \<Rightarrow> fetch_result"

text \<open>
  The body of the \<open>try\<close> block of \<open>loadConfig\<close>, from the response on:
  \<^verbatim>\<open>
  if (!response.ok) throw new Error(`Failed to load configuration: ...`);
  const data = await response.json();
  if (!data || typeof data !== 'object') throw new Error('Invalid configuration format: expected an object');
  if (!Array.isArray(data.audio)) throw new Error('Invalid configuration format: audio must be an array');
  if (!Array.isArray(data.video)) throw new Error('Invalid configuration format: video must be an array');
  \<close>
\<close>

definition fetch_and_validate :: "fetch_result \<Rightarrow> config_error + json" where
  "fetch_and_validate r =
     (case r of
        FetchRejected \<Rightarrow> Inl NetworkError
      | FetchResponse ok status body \<Rightarrow>
          if \<not> ok then Inl (FailedToLoad status)
          else (case body of
                  None \<Rightarrow> Inl MalformedJson
                | Some data \<Rightarrow>
                    if \<not> json_truthy data \<or> \<not> typeof_object data
                      then Inl (InvalidFormat ''expected an object'')
                    else if \<not> isArray (property data ''audio'')
                      then Inl (InvalidFormat ''audio must be an array'')
                    else if \<not> isArray (property data ''video'')
                      then Inl (InvalidFormat ''video must be an array'')
                    else Inr data))"

text \<open>
  The configuration document as the interface has it: a JSON object whose \<open>audio\<close>
  and \<open>video\<close> properties are arrays. It is what the three tests of the \<open>try\<close>
  block are measured against.
\<close>

fun valid_configuration :: "json \<Rightarrow> bool" where
  "valid_configuration (JObj kvs) =
     (case map_of kvs ''audio'' of
        Some (JArr audio) \<Rightarrow> (case map_of kvs ''video'' of Some (JArr video) \<Rightarrow> True | _ \<Rightarrow> False)
      | _ \<Rightarrow> False)"
| "valid_configuration v = False"

text \<open>
  \<^verbatim>\<open>
  export async function loadConfig() {
      if (configData) return configData;
      if (configError) throw configError;
      try {
          const response = await fetch(`data/archives.json${cacheBuster}`);
          ...
          configData = data;
          return configData;
      } catch (error) {
          configError = error;
          throw error;
      }
  }
  export function resetConfig() { configData = null; configError = null; }
  \<close>
  An async function runs up to its first \<open>await\<close> when it is called; the rest runs
  when the awaited promise has settled, and other calls can run in between.
  \<open>loadConfig\<close> is the part that runs at the call: it settles at once from one of the
  caches (\<open>Inr\<close> the value returned, \<open>Inl\<close> the value thrown), or issues a fetch and
  waits for it. \<open>loadConfig_resume\<close> is the rest, run on what the fetch brought.
  Between \<open>await fetch\<close> and \<open>await response.json()\<close> the function neither reads nor
  writes the module, so the two waits are taken as one. A thrown value is an error
  object, which is truthy; the cached document is tested for truthiness as the code
  does.
\<close>

datatype config_call = Settled "config_error + json" | AwaitsFetch nat

definition cached_data :: "config_module \<Rightarrow> json option" where
  "cached_data m = (case configData m of None \<Rightarrow> None | Some d \<Rightarrow> if json_truthy d then Some d else None)"

definition loadConfig :: "config_module \<Rightarrow> config_call \<times> config_module" where
  "loadConfig m =
     (case cached_data m of
        Some d \<Rightarrow> (Settled (Inr d), m)
      | None \<Rightarrow>
          (case configError m of
             Some e \<Rightarrow> (Settled (Inl e), m)
           | None \<Rightarrow> (AwaitsFetch (fetches m), m\<lparr>fetches := Suc (fetches m)\<rparr>)))"

definition loadConfig_resume :: "fetch_result \<Rightarrow> config_module \<Rightarrow> (config_error + json) \<times> config_module" where
  "loadConfig_resume response m =
     (case fetch_and_validate response of
        Inr data \<Rightarrow> (Inr data, m\<lparr>configData := Some data\<rparr>)
      | Inl error \<Rightarrow> (Inl error, m\<lparr>configError := Some error\<rparr>))"

definition resetConfig :: "config_module \<Rightarrow> config_module" where
  "resetConfig m = m\<lparr>configData := None, configError := None\<rparr>"

text \<open>
  \<open>await loadConfig()\<close> with nothing else running before the call settles, as
  \<open>main.js\<close> calls it, and the results of \<open>k\<close> such calls in a row, oldest first.
\<close>

definition loadConfig_awaited :: "network \<Rightarrow> config_module \<Rightarrow> (config_error + json) \<times> config_module" where
  "loadConfig_awaited net m =
     (case loadConfig m of
        (Settled r, m1) \<Rightarrow> (r, m1)
      | (AwaitsFetch n, m1) \<Rightarrow> loadConfig_resume (net n) m1)"

fun loadConfig_calls :: "network \<Rightarrow> nat \<Rightarrow> config_module \<Rightarrow> (config_error + json) list \<times> config_module" where
  "loadConfig_calls net 0 m = ([], m)"
| "loadConfig_calls net (Suc k) m =
     (let (r, m1) = loadConfig_awaited net m; (rs, m2) = loadConfig_calls net k m1 in (r # rs, m2))"

text \<open>
  Calls that overlap: a run of events, each a call of \<open>loadConfig\<close>, the arrival of
  the response to the fetch of a call that waits, or a call of \<open>resetConfig\<close>.
  \<open>waiting\<close> are the fetches waited for, \<open>outcomes\<close> what the calls have returned or
  thrown so far, in the order in which they settled.
\<close>

datatype config_event = CallLoadConfig | ResponseArrives nat | CallResetConfig

record config_run =
  config :: config_module
  waiting :: "nat list"
  outcomes :: "(config_error + json) list"

definition config_step :: "network \<Rightarrow> config_run \<Rightarrow> config_event \<Rightarrow> config_run" where
  "config_step net st ev =
     (case ev of
        CallLoadConfig \<Rightarrow>
          (case loadConfig (config st) of
             (Settled r, m) \<Rightarrow> st\<lparr>config := m, outcomes := outcomes st @ [r]\<rparr>
           | (AwaitsFetch n, m) \<Rightarrow> st\<lparr>config := m, waiting := waiting st @ [n]\<rparr>)
      | ResponseArrives n \<Rightarrow>
          if n \<in> set (waiting st) then
            (let (r, m) = loadConfig_resume (net n) (config st)
             in st\<lparr>config := m, waiting := remove1 n (waiting st), outcomes := outcomes st @ [r]\<rparr>)
          else st
      | CallResetConfig \<Rightarrow> st\<lparr>config := resetConfig (config st)\<rparr>)"

definition config_events :: "network \<Rightarrow> config_event list \<Rightarrow> config_run \<Rightarrow> config_run" where
  "config_events net evs st = foldl (config_step net) st evs"

definition module_loaded :: config_run where
  "module_loaded =
     \<lparr>config = \<lparr>configData = None, configError = None, fetches = 0\<rparr>, waiting = [], outcomes = []\<rparr>"

definition example_config :: json where
  "example_config = JObj [(''audio'', JArr []), (''video'', JArr [])]"

definition example_network :: network where
  "example_network n = (if n = 0 then FetchResponse True ''200 OK'' (Some example_config) else FetchRejected)"

definition failing_network :: network where
  "failing_network n = (if n = 0 then FetchResponse False ''404 Not Found'' None
                        else FetchResponse True ''200 OK'' (Some example_config))"

section \<open>embeds.js: creating embeds\<close>

text \<open>
  \<^verbatim>\<open>
  export function createIframeEmbed(embedUrl, containerId, options = {}) {
      const container = document.getElementById(containerId);
      if (!container) { console.warn(...); return; }
      container.innerHTML = '';
      const iframe = document.createElement('iframe');
      iframe.src = embedUrl;
      iframe.width = options.width || '100%';
      iframe.height = options.height || '100%';
      iframe.frameBorder = '0';
      iframe.scrolling = 'no';
      iframe.allowFullscreen = true;
      iframe.title = options.title || '';
      iframe.style.width = '100%'; iframe.style.height = '100%'; iframe.style.border = 'none';
      iframe.setAttribute('data-original-src', embedUrl);
      container.appendChild(iframe);
  }
  \<close>
  The container is given by the iframes inside it, \<open>None\<close> when \<open>getElementById\<close> finds
  no element of that id.
\<close>

record embed_options =
  opt_width :: string
  opt_height :: string
  opt_title :: string

definition new_iframe :: "string \<Rightarrow> embed_options \<Rightarrow> iframe" where
  "new_iframe embedUrl options =
     \<lparr>src_attr = Some embedUrl, original_src = Some embedUrl, ifr_id = [],
      ifr_width = or_else (opt_width options) ''100%'',
      ifr_height = or_else (opt_height options) ''100%'',
      ifr_frameBorder = ''0'', ifr_allow = [],
      ifr_title = or_else (opt_title options) [],
      ifr_style = ''width: 100%; height: 100%; border: none;'',
      ifr_scrolling = ''no'', ifr_allowFullscreen = True, pending_src = None\<rparr>"

definition createIframeEmbed :: "string \<Rightarrow> embed_options \<Rightarrow> iframe list option \<Rightarrow> iframe list option" where
  "createIframeEmbed embedUrl options container =
     (case container of None \<Rightarrow> None | Some children \<Rightarrow> Some [new_iframe embedUrl options])"

text \<open>
  \<open>mixcloudWidgets\<close> is a \<open>Map\<close> from widget ids to widgets. \<open>initMixcloudWidget\<close>, as
  \<open>loadArchiveItemEmbed\<close> calls it (\<open>widgetId\<close> is given and not empty):
  \<^verbatim>\<open>
  if (!container) { console.warn(...); return null; }
  if (typeof Mixcloud === 'undefined' || !Mixcloud.PlayerWidget) {
      createIframeEmbed(`https://www.mixcloud.com/widget/iframe/?feed=${encodeURIComponent(feedUrl)}`,
          containerId, { height: '120', title: 'Mixcloud Player' });
      return null;
  }
  try {
      const id = widgetId || ...;
      const iframe = document.createElement('iframe');
      iframe.width = '100%'; iframe.height = '120'; iframe.src = ...; iframe.frameBorder = '0';
      iframe.allow = 'autoplay'; iframe.id = `mixcloud-iframe-${id}`;
      container.appendChild(iframe);
      const widget = Mixcloud.PlayerWidget(iframe);
      mixcloudWidgets.set(id, widget);
      ...
  } catch (error) {
      createIframeEmbed(..., containerId, { height: '120', title: 'Mixcloud Player' });
      return null;
  }
  \<close>
\<close>

type_synonym widgets = "(string \<times> widget) list"

definition mixcloud_url :: "browser \<Rightarrow> string \<Rightarrow> string" where
  "mixcloud_url b feedUrl = ''https://www.mixcloud.com/widget/iframe/?feed='' @ encodeURIComponent b feedUrl"

definition mixcloud_iframe :: "browser \<Rightarrow> string \<Rightarrow> string \<Rightarrow> iframe" where
  "mixcloud_iframe b feedUrl widgetId =
     \<lparr>src_attr = Some (mixcloud_url b feedUrl), original_src = None,
      ifr_id = ''mixcloud-iframe-'' @ widgetId, ifr_width = ''100%'', ifr_height = ''120'',
      ifr_frameBorder = ''0'', ifr_allow = ''autoplay'', ifr_title = [], ifr_style = [],
      ifr_scrolling = [], ifr_allowFullscreen = False, pending_src = None\<rparr>"

definition mixcloud_fallback :: embed_options where
  "mixcloud_fallback = \<lparr>opt_width = [], opt_height = ''120'', opt_title = ''Mixcloud Player''\<rparr>"

definition initMixcloudWidget ::
    "browser \<Rightarrow> string \<Rightarrow> string \<Rightarrow> iframe list option \<Rightarrow> widgets \<Rightarrow> iframe list option \<times> widgets" where
  "initMixcloudWidget b feedUrl widgetId container ws =
     (case container of
        None \<Rightarrow> (None, ws)
      | Some children \<Rightarrow>
          (case mixcloud_sdk b of
             SdkMissing \<Rightarrow> (createIframeEmbed (mixcloud_url b feedUrl) mixcloud_fallback container, ws)
           | SdkThrows \<Rightarrow>
               (createIframeEmbed (mixcloud_url b feedUrl) mixcloud_fallback
                  (Some (children @ [mixcloud_iframe b feedUrl widgetId])), ws)
           | SdkOk \<Rightarrow>
               (Some (children @ [mixcloud_iframe b feedUrl widgetId]),
                AList.update widgetId (mixcloud_widget b) ws)))"

text \<open>
  \<^verbatim>\<open>
  export function initLiveStreams(kickChannel, twitchChannel) {
      createIframeEmbed(`https://player.kick.com/${kickChannel}`, 'kick-embed',
          { width: '1280', height: '720', title: 'Kick.com Live Stream' });
      initTwitchEmbed(twitchChannel, 'twitch-embed', { width: 1280, height: 720 });
  }
  \<close>
\<close>

definition kick_options :: embed_options where
  "kick_options = \<lparr>opt_width = ''1280'', opt_height = ''720'', opt_title = ''Kick.com Live Stream''\<rparr>"

definition initLiveStreams :: "browser \<Rightarrow> string \<Rightarrow> string \<Rightarrow> stream_page \<Rightarrow> stream_page" where
  "initLiveStreams b kickChannel twitchChannel p =
     initTwitchEmbed b twitchChannel
       (p\<lparr>kickEmbed := createIframeEmbed (''https://player.kick.com/'' @ kickChannel) kick_options (kickEmbed p)\<rparr>)"

section \<open>embeds.js: archive items, their order and their year groups\<close>

text \<open>
  One entry of the configuration's \<open>audio\<close> or \<open>video\<close> array. \<open>key\<close> is empty when
  the entry has none. \<open>created_time\<close> holds the milliseconds since the epoch that
  \<open>new Date(item.created_time)\<close> yields, \<open>None\<close> when the field is missing or empty
  (falsy); strings that are no dates are not modelled.
\<close>

record archive_item =
  platform :: string
  title :: string
  url :: string
  embedUrl :: string
  key :: string
  created_time :: "int option"

text \<open>
  \<open>Array.prototype.sort\<close> with a comparison function, as the language standard fixes
  it for a consistent comparison: a stable sort. It is rendered as insertion from the
  right, which puts an element before the first one it does not compare greater than.
\<close>

fun insert_sorted :: "('a \<Rightarrow> 'a \<Rightarrow> int) \<Rightarrow> 'a \<Rightarrow> 'a list \<Rightarrow> 'a list" where
  "insert_sorted cmp x [] = [x]"
| "insert_sorted cmp x (y # ys) =
     (if cmp x y \<le> 0 then x # y # ys else y # insert_sorted cmp x ys)"

definition js_sort :: "('a \<Rightarrow> 'a \<Rightarrow> int) \<Rightarrow> 'a list \<Rightarrow> 'a list" where
  "js_sort cmp xs = foldr (insert_sorted cmp) xs []"

text \<open>
  \<^verbatim>\<open>
  const sortedArchives = [...audioArchives].sort((a, b) => {
      const dateA = a.created_time ? new Date(a.created_time) : new Date(0);
      const dateB = b.created_time ? new Date(b.created_time) : new Date(0);
      return dateB - dateA; // Descending order (newest first)
  });
  \<close>
\<close>

definition date_of :: "archive_item \<Rightarrow> int" where
  "date_of a = (case created_time a of None \<Rightarrow> 0 | Some t \<Rightarrow> t)"

definition newest_first :: "archive_item \<Rightarrow> archive_item \<Rightarrow> int" where
  "newest_first a b = date_of b - date_of a"

definition sortedArchives :: "archive_item list \<Rightarrow> archive_item list" where
  "sortedArchives audioArchives = js_sort newest_first audioArchives"

text \<open>Some occurrence of \<open>a\<close> in the list comes before some occurrence of \<open>b\<close>.\<close>

fun placed_before :: "'a list \<Rightarrow> 'a \<Rightarrow> 'a \<Rightarrow> bool" where
  "placed_before [] a b = False"
| "placed_before (x # xs) a b = ((x = a \<and> b \<in> set xs) \<or> placed_before xs a b)"

text \<open>
  \<^verbatim>\<open>
  globalArchivesByYear = new Map();
  sortedArchives.forEach(item => {
      const year = item.created_time ? new Date(item.created_time).getFullYear() : 'Unknown';
      if (!globalArchivesByYear.has(year)) globalArchivesByYear.set(year, []);
      globalArchivesByYear.get(year).push(item);
  });
  const years = Array.from(globalArchivesByYear.keys()).sort((a, b) => {
      if (a === 'Unknown') return 1;
      if (b === 'Unknown') return -1;
      return b - a; // Descending order (newest first)
  });
  \<close>
  A \<open>Map\<close> keeps its keys in insertion order: it is a list of pairs. \<open>getFullYear\<close>
  depends on the time zone of the browser and is a parameter, \<open>year_of\<close>.
\<close>

datatype year_key = Year int | Unknown

type_synonym year_map = "(year_key \<times> archive_item list) list"

definition yearOf :: "(int \<Rightarrow> int) \<Rightarrow> archive_item \<Rightarrow> year_key" where
  "yearOf year_of item = (case created_time item of None \<Rightarrow> Unknown | Some t \<Rightarrow> Year (year_of t))"

fun push_item :: "year_key \<Rightarrow> archive_item \<Rightarrow> year_map \<Rightarrow> year_map" where
  "push_item year item [] = [(year, [item])]"
| "push_item year item ((y, items) # m) =
     (if y = year then (y, items @ [item]) # m else (y, items) # push_item year item m)"

definition archivesByYear :: "(int \<Rightarrow> int) \<Rightarrow> archive_item list \<Rightarrow> year_map" where
  "archivesByYear year_of sortedItems =
     foldl (\<lambda>m item. push_item (yearOf year_of item) item m) [] sortedItems"

fun newest_year_first :: "year_key \<Rightarrow> year_key \<Rightarrow> int" where
  "newest_year_first Unknown b = 1"
| "newest_year_first (Year a) Unknown = - 1"
| "newest_year_first (Year a) (Year b) = b - a"

definition yearOrder :: "year_map \<Rightarrow> year_key list" where
  "yearOrder m = js_sort newest_year_first (map fst m)"

text \<open>The order the year groups are to have: later years first, \<open>Unknown\<close> after every year.\<close>

fun year_before :: "year_key \<Rightarrow> year_key \<Rightarrow> bool" where
  "year_before (Year a) (Year b) = (b < a)"
| "year_before (Year a) Unknown = True"
| "year_before Unknown b = False"

definition example_item :: "string \<Rightarrow> int option \<Rightarrow> archive_item" where
  "example_item name t =
     \<lparr>platform = ''hearthis'', title = name, url = ''https://hearthis.at/'' @ name,
      embedUrl = ''https://app.hearthis.at/embed/'' @ name, key = name, created_time = t\<rparr>"

section \<open>embeds.js: the audio archive page\<close>

text \<open>
  The elements \<open>loadAudioArchives\<close> builds. An archive item (\<open>.archive-item\<close>) holds its
  data, the flag \<open>data-embed-loaded\<close>, the classes \<open>highlighted\<close> and
  \<open>archive-item-placeholder\<close>, and one \<open>.archive-embed\<close> element, which is where all
  iframes of the item are. A year group (\<open>.audio-year-section\<close>) holds its year, the
  class \<open>loaded\<close>, and the flag \<open>data-loaded\<close> and the items of its
  \<open>.audio-year-content\<close>. \<open>data-year\<close> is the text of the year; reading it back with
  \<open>parseInt\<close> gives the key again, so the key itself is kept.
\<close>

record embed_div =
  ed_id :: string
  ed_placeholder :: bool
  ed_iframes :: "iframe list"

record item_div =
  audioKey :: "string option"
  archiveData :: "archive_item option"
  embedLoaded :: string
  highlighted :: bool
  item_placeholder :: bool
  embedDiv :: "embed_div option"

record year_section =
  ys_year :: year_key
  ys_index :: nat
  ys_loaded_class :: bool
  ys_loaded :: string
  ys_items :: "item_div list"

text \<open>
  The page: which ids \<open>getElementById\<close> finds a section for, the live stream part, the
  audio archive container with its year groups (the archive items of the document are
  those of the year groups), the module variables \<open>globalArchivesByYear\<close> and
  \<open>mixcloudWidgets\<close>, the iframes inside \<open>#video-player-container\<close>, and the number of
  live stream reloads that wait for their timer.
\<close>

record page =
  has_section :: "string \<Rightarrow> bool"
  live :: stream_page
  audio_container :: bool
  no_audio_message :: bool
  year_sections :: "year_section list"
  globalArchivesByYear :: "year_map option"
  mixcloudWidgets :: widgets
  video_player :: "iframe list option"
  live_reloads :: nat

text \<open>
  \<open>createAudioArchiveItemPlaceholder\<close>: the item with its data, not loaded, with an
  empty placeholder for the embed.
\<close>

definition createAudioArchiveItemPlaceholder :: "archive_item \<Rightarrow> item_div" where
  "createAudioArchiveItemPlaceholder archiveItem =
     \<lparr>audioKey = (if truthy (key archiveItem) then Some (key archiveItem) else None),
      archiveData = Some archiveItem,
      embedLoaded = ''false'',
      highlighted = False,
      item_placeholder = True,
      embedDiv = Some \<lparr>ed_id = [], ed_placeholder = True, ed_iframes = []\<rparr>\<rparr>"

text \<open>
  \<^verbatim>\<open>
  function loadArchiveItemEmbed(itemDiv) {
      if (itemDiv.dataset.embedLoaded === 'true') return;
      const archiveDataStr = itemDiv.dataset.archiveData;
      if (!archiveDataStr) return;
      try {
          const archiveItem = JSON.parse(archiveDataStr);
          const embedDiv = itemDiv.querySelector('.archive-embed');
          if (!embedDiv) return;
          embedDiv.innerHTML = '';
          embedDiv.className = 'archive-embed';
          ...
          const uniqueId = `audio-${archiveItem.platform}-${Date.now()}-${Math.random()...}`;
          embedDiv.id = uniqueId;
          if (archiveItem.platform === 'mixcloud') {
              initMixcloudWidget(archiveItem.url, uniqueId, uniqueId);
          } else if (archiveItem.platform === 'hearthis') {
              createIframeEmbed(archiveItem.embedUrl, uniqueId, { height: '150', title: archiveItem.title });
          } else { console.warn(...); }
          itemDiv.dataset.embedLoaded = 'true';
          itemDiv.classList.remove('archive-item-placeholder');
      } catch (error) { console.error(...); }
  }
  \<close>
  \<open>uniqueId\<close> is a parameter; it is taken to be the id of no other element, so that
  \<open>getElementById(uniqueId)\<close> finds this item's embed element.
\<close>

definition loadArchiveItemEmbed :: "browser \<Rightarrow> string \<Rightarrow> item_div \<Rightarrow> widgets \<Rightarrow> item_div \<times> widgets" where
  "loadArchiveItemEmbed b uniqueId itemDiv ws =
     (if embedLoaded itemDiv = ''true'' then (itemDiv, ws)
      else case archiveData itemDiv of
        None \<Rightarrow> (itemDiv, ws)
      | Some archiveItem \<Rightarrow>
          (case embedDiv itemDiv of
             None \<Rightarrow> (itemDiv, ws)
           | Some embedDiv0 \<Rightarrow>
               (let cleared = embedDiv0\<lparr>ed_iframes := [], ed_placeholder := False, ed_id := uniqueId\<rparr>;
                    (children, ws1) =
                      (if platform archiveItem = ''mixcloud'' then
                         initMixcloudWidget b (url archiveItem) uniqueId (Some (ed_iframes cleared)) ws
                       else if platform archiveItem = ''hearthis'' then
                         (createIframeEmbed (embedUrl archiveItem)
                            \<lparr>opt_width = [], opt_height = ''150'', opt_title = title archiveItem\<rparr>
                            (Some (ed_iframes cleared)), ws)
                       else (Some (ed_iframes cleared), ws));
                    loaded = (case children of None \<Rightarrow> cleared | Some fs \<Rightarrow> cleared\<lparr>ed_iframes := fs\<rparr>)
                in (itemDiv\<lparr>embedDiv := Some loaded, embedLoaded := ''true'', item_placeholder := False\<rparr>,
                    ws1))))"

text \<open>
  Halting an iframe, as \<open>unloadArchiveItemEmbed\<close> and the audio and video branches of
  \<open>unloadSectionMedia\<close> do it:
  \<^verbatim>\<open>
  const currentSrc = iframe.src;
  if (currentSrc && currentSrc !== 'about:blank' && currentSrc !== window.location.href) {
      // Store original src in data attribute (only if not already stored)
      if (!iframe.getAttribute('data-original-src')) {
          iframe.setAttribute('data-original-src', currentSrc);
      }
      iframe.src = 'about:blank';
  }
  \<close>
\<close>

definition blank_iframe :: "browser \<Rightarrow> iframe \<Rightarrow> iframe" where
  "blank_iframe b iframe =
     (let currentSrc = src_of b iframe in
      if truthy currentSrc \<and> currentSrc \<noteq> ''about:blank'' \<and> currentSrc \<noteq> href b then
        iframe\<lparr>original_src := (if \<not> truthy_attr (original_src iframe) then Some currentSrc
                                  else original_src iframe),
               src_attr := Some ''about:blank''\<rparr>
      else iframe)"

text \<open>
  \<^verbatim>\<open>
  if (mixcloudWidgets.has(widgetId)) {
      try {
          const widget = mixcloudWidgets.get(widgetId);
          if (widget && typeof widget.pause === 'function') widget.pause();
          mixcloudWidgets.delete(widgetId);
      } catch (error) { console.warn(...); }
  }
  \<close>
  When \<open>pause\<close> throws, the entry is not deleted.
\<close>

definition cleanup_widget :: "string \<Rightarrow> widgets \<Rightarrow> widgets" where
  "cleanup_widget widgetId ws =
     (case map_of ws widgetId of
        None \<Rightarrow> ws
      | Some w \<Rightarrow> (case w_pause w of PauseThrows \<Rightarrow> ws | _ \<Rightarrow> AList.delete widgetId ws))"

text \<open>
  \<^verbatim>\<open>
  function unloadArchiveItemEmbed(itemDiv) {
      if (itemDiv.dataset.embedLoaded !== 'true') return; // Not loaded, nothing to unload
      const embedDiv = itemDiv.querySelector('.archive-embed');
      if (embedDiv && embedDiv.id) {
          const widgetId = embedDiv.id;
          ... clean up the widget widgetId ...
          const iframe = embedDiv.querySelector('iframe');
          if (iframe && iframe.id && iframe.id.startsWith('mixcloud-iframe-')) {
              const iframeWidgetId = iframe.id.replace('mixcloud-iframe-', '');
              ... clean up the widget iframeWidgetId ...
          }
      }
      const iframes = itemDiv.querySelectorAll('iframe');
      iframes.forEach(iframe => { ... halt it ... });
      if (embedDiv) {
          embedDiv.innerHTML = '';
          embedDiv.className = 'archive-embed archive-embed-placeholder';
          ...
          embedDiv.removeAttribute('id');
      }
      itemDiv.dataset.embedLoaded = 'false';
      itemDiv.classList.add('archive-item-placeholder');
  }
  \<close>
\<close>

definition cleanup_item_widgets :: "embed_div option \<Rightarrow> widgets \<Rightarrow> widgets" where
  "cleanup_item_widgets embedDiv0 ws =
     (case embedDiv0 of
        None \<Rightarrow> ws
      | Some ed \<Rightarrow>
          if \<not> truthy (ed_id ed) then ws
          else
            (let ws1 = cleanup_widget (ed_id ed) ws in
             case ed_iframes ed of
               [] \<Rightarrow> ws1
             | iframe # rest \<Rightarrow>
                 if truthy (ifr_id iframe) \<and> prefix ''mixcloud-iframe-'' (ifr_id iframe)
                 then cleanup_widget (drop (length ''mixcloud-iframe-'') (ifr_id iframe)) ws1
                 else ws1))"

definition unloadArchiveItemEmbed :: "browser \<Rightarrow> item_div \<Rightarrow> widgets \<Rightarrow> item_div \<times> widgets" where
  "unloadArchiveItemEmbed b itemDiv ws =
     (if embedLoaded itemDiv \<noteq> ''true'' then (itemDiv, ws)
      else
        (let ws1 = cleanup_item_widgets (embedDiv itemDiv) ws;
             halted = map_option (\<lambda>ed. ed\<lparr>ed_iframes := map (blank_iframe b) (ed_iframes ed)\<rparr>)
                        (embedDiv itemDiv);
             reset = map_option (\<lambda>ed. ed\<lparr>ed_iframes := [], ed_placeholder := True, ed_id := []\<rparr>) halted
         in (itemDiv\<lparr>embedDiv := reset, embedLoaded := ''false'', item_placeholder := True\<rparr>, ws1)))"

text \<open>
  \<^verbatim>\<open>
  function unloadYearContent(yearContent) {
      if (!yearContent) return;
      const archiveItems = yearContent.querySelectorAll('.archive-item');
      archiveItems.forEach(item => { unloadArchiveItemEmbed(item); });
      yearContent.innerHTML = '';
      yearContent.dataset.loaded = 'false';
  }
  \<close>
\<close>

fun unload_items :: "browser \<Rightarrow> item_div list \<Rightarrow> widgets \<Rightarrow> widgets" where
  "unload_items b [] ws = ws"
| "unload_items b (item # items) ws = unload_items b items (snd (unloadArchiveItemEmbed b item ws))"

definition unloadYearContent :: "browser \<Rightarrow> year_section \<Rightarrow> widgets \<Rightarrow> year_section \<times> widgets" where
  "unloadYearContent b yearSection ws =
     (yearSection\<lparr>ys_items := [], ys_loaded := ''false''\<rparr>, unload_items b (ys_items yearSection) ws)"

text \<open>
  \<^verbatim>\<open>
  function loadYearContent(yearSection, yearContent, year) {
      if (!globalArchivesByYear) return;
      const loaded = yearContent.dataset.loaded === 'true';
      if (loaded) return; // Already loaded
      const yearArchives = globalArchivesByYear.get(year === 'Unknown' ? 'Unknown' : parseInt(year));
      if (!yearArchives) return;
      yearArchives.forEach((item) => {
          const itemDiv = createAudioArchiveItemPlaceholder(item);
          yearContent.appendChild(itemDiv);
          ... observe itemDiv ...
      });
      yearContent.dataset.loaded = 'true';
      yearSection.classList.add('loaded');
  }
  \<close>
\<close>

definition loadYearContent :: "year_map option \<Rightarrow> year_section \<Rightarrow> year_section" where
  "loadYearContent archives yearSection =
     (case archives of
        None \<Rightarrow> yearSection
      | Some byYear \<Rightarrow>
          if ys_loaded yearSection = ''true'' then yearSection
          else (case map_of byYear (ys_year yearSection) of
                  None \<Rightarrow> yearSection
                | Some yearArchives \<Rightarrow>
                    yearSection\<lparr>ys_items := ys_items yearSection
                                   @ map createAudioArchiveItemPlaceholder yearArchives,
                                 ys_loaded := ''true'', ys_loaded_class := True\<rparr>))"

text \<open>
  \<open>loadAudioArchives\<close>, up to the first year loaded at once. The two observers it
  registers are the functions that follow; the timer it sets for a deep link runs later.
  \<^verbatim>\<open>
  const container = document.getElementById('audio-archives-container');
  if (!container) { console.warn(...); return; }
  container.innerHTML = '';
  if (audioArchives.length === 0) {
      container.innerHTML = '<div class="loading">No audio archives available</div>';
      return;
  }
  ... sortedArchives, globalArchivesByYear, years ...
  years.forEach((year, yearIndex) => { ... container.appendChild(yearSection); });
  ...
  if (yearSections.length > 0) { ... loadYearContent(firstSection, firstYearContent, firstYear); }
  \<close>
\<close>

definition new_year_section :: "nat \<Rightarrow> year_key \<Rightarrow> year_section" where
  "new_year_section yearIndex year =
     \<lparr>ys_year = year, ys_index = yearIndex, ys_loaded_class = False, ys_loaded = ''false'', ys_items = []\<rparr>"

definition load_first :: "year_map option \<Rightarrow> year_section list \<Rightarrow> year_section list" where
  "load_first archives yearSections =
     (case yearSections of [] \<Rightarrow> [] | firstSection # rest \<Rightarrow> loadYearContent archives firstSection # rest)"

definition loadAudioArchives :: "(int \<Rightarrow> int) \<Rightarrow> archive_item list \<Rightarrow> page \<Rightarrow> page" where
  "loadAudioArchives year_of audioArchives pg =
     (if \<not> audio_container pg then pg
      else if audioArchives = [] then pg\<lparr>year_sections := [], no_audio_message := True\<rparr>
      else
        (let byYear = archivesByYear year_of (sortedArchives audioArchives);
             years = yearOrder byYear;
             yearSections = map (\<lambda>(yearIndex, year). new_year_section yearIndex year) (enumerate 0 years)
         in pg\<lparr>globalArchivesByYear := Some byYear,
                no_audio_message := False,
                year_sections := load_first (Some byYear) yearSections\<rparr>))"

text \<open>
  An observer is called with entries, each naming a year group (by its place in the
  container) and saying whether it intersects the observer's zone.
  \<^verbatim>\<open>
  const loadObserver = new IntersectionObserver((entries) => {
      entries.forEach(entry => {
          if (entry.isIntersecting) { ... loadYearContent(yearSection, yearContent, year); }
      });
  }, loadObserverOptions);
  const unloadObserver = new IntersectionObserver((entries) => {
      entries.forEach(entry => {
          if (!entry.isIntersecting) {
              const yearSection = entry.target;
              const yearContent = yearSection.querySelector('.audio-year-content');
              const loaded = yearContent.dataset.loaded === 'true';
              if (loaded) {
                  const highlightedItem = document.querySelector('.archive-item.highlighted');
                  const shouldKeepLoaded = highlightedItem &&
                      highlightedItem.closest('.audio-year-section') === yearSection;
                  if (!shouldKeepLoaded) {
                      unloadYearContent(yearContent);
                      yearSection.classList.remove('loaded');
                  }
              }
          }
      });
  }, unloadObserverOptions);
  \<close>
  \<open>document.querySelector\<close> returns the first highlighted archive item of the document;
  \<open>highlighted_section\<close> is the place of the year group that holds it.
\<close>

record entry =
  target :: nat
  isIntersecting :: bool

fun highlighted_section :: "year_section list \<Rightarrow> nat option" where
  "highlighted_section [] = None"
| "highlighted_section (yearSection # rest) =
     (if list_ex highlighted (ys_items yearSection) then Some 0
      else map_option Suc (highlighted_section rest))"

definition loadObserver_entry :: "entry \<Rightarrow> page \<Rightarrow> page" where
  "loadObserver_entry e pg =
     (if isIntersecting e \<and> target e < length (year_sections pg) then
        pg\<lparr>year_sections := (year_sections pg)
             [target e := loadYearContent (globalArchivesByYear pg) (year_sections pg ! target e)]\<rparr>
      else pg)"

definition unloadObserver_entry :: "browser \<Rightarrow> entry \<Rightarrow> page \<Rightarrow> page" where
  "unloadObserver_entry b e pg =
     (if isIntersecting e \<or> length (year_sections pg) \<le> target e then pg
      else
        (let yearSection = year_sections pg ! target e in
         if ys_loaded yearSection = ''true'' then
           (let shouldKeepLoaded = (highlighted_section (year_sections pg) = Some (target e)) in
            if \<not> shouldKeepLoaded then
              (let (emptied, ws) = unloadYearContent b yearSection (mixcloudWidgets pg) in
               pg\<lparr>year_sections := (year_sections pg)[target e := emptied\<lparr>ys_loaded_class := False\<rparr>],
                  mixcloudWidgets := ws\<rparr>)
            else pg)
         else pg))"

definition unloadObserver :: "browser \<Rightarrow> entry list \<Rightarrow> page \<Rightarrow> page" where
  "unloadObserver b entries pg = foldl (\<lambda>q e. unloadObserver_entry b e q) pg entries"

text \<open>Any number of firings of the unload observer, one after the other.\<close>

definition unloadObserver_firings :: "browser \<Rightarrow> entry list list \<Rightarrow> page \<Rightarrow> page" where
  "unloadObserver_firings b firings pg = foldl (\<lambda>q entries. unloadObserver b entries q) pg firings"

text \<open>
  Highlighting an archive item. \<open>highlightAudioSet\<close>, run when an item is clicked or
  scrolled to, takes the class from every item first:
  \<^verbatim>\<open>
  function highlightAudioSet(audioKey) {
      const existingHighlighted = document.querySelectorAll('.archive-item.highlighted');
      existingHighlighted.forEach(item => item.classList.remove('highlighted'));
      const item = document.querySelector(`[data-audio-key="${audioKey}"]`);
      if (item) { item.classList.add('highlighted'); item.scrollIntoView(...); }
  }
  \<close>
  The timers that \<open>switchSection\<close> sets when it shows the audio archive section without
  animation (on load and on history navigation) for a URL with an \<open>audio\<close> parameter
  take it from none:
  \<^verbatim>\<open>
  setTimeout(() => {
      const item = document.querySelector(`[data-audio-key="${audioKey}"]`);
      if (item) {
          ... scroll its year group into view if it is not loaded ...
          setTimeout(() => { item.scrollIntoView(...); item.classList.add('highlighted'); }, 500);
      }
  }, 300);
  \<close>
  \<open>deep_link_timers\<close> is both timers, with nothing running between them. Only archive
  items carry \<open>data-audio-key\<close>, and \<open>querySelector\<close> finds the first one with the key.
\<close>

fun mark_first :: "string \<Rightarrow> item_div list \<Rightarrow> item_div list" where
  "mark_first audioKeyParam [] = []"
| "mark_first audioKeyParam (item # items) =
     (if audioKey item = Some audioKeyParam then item\<lparr>highlighted := True\<rparr> # items
      else item # mark_first audioKeyParam items)"

fun highlight_item :: "string \<Rightarrow> year_section list \<Rightarrow> year_section list" where
  "highlight_item audioKeyParam [] = []"
| "highlight_item audioKeyParam (yearSection # rest) =
     (if list_ex (\<lambda>item. audioKey item = Some audioKeyParam) (ys_items yearSection)
      then yearSection\<lparr>ys_items := mark_first audioKeyParam (ys_items yearSection)\<rparr> # rest
      else yearSection # highlight_item audioKeyParam rest)"

definition clear_highlights :: "year_section list \<Rightarrow> year_section list" where
  "clear_highlights yearSections =
     map (\<lambda>yearSection. yearSection\<lparr>ys_items := map (\<lambda>item. item\<lparr>highlighted := False\<rparr>)
                                                      (ys_items yearSection)\<rparr>) yearSections"

definition highlightAudioSet :: "string \<Rightarrow> page \<Rightarrow> page" where
  "highlightAudioSet audioKeyParam pg =
     pg\<lparr>year_sections := highlight_item audioKeyParam (clear_highlights (year_sections pg))\<rparr>"

definition deep_link_timers :: "string \<Rightarrow> page \<Rightarrow> page" where
  "deep_link_timers audioKeyParam pg =
     pg\<lparr>year_sections := highlight_item audioKeyParam (year_sections pg)\<rparr>"

text \<open>A year function, a page and three items to run the archive page on.\<close>

definition example_year :: "int \<Rightarrow> int" where
  "example_year ms = 1970 + ms div 31556952000"

definition example_page :: page where
  "example_page =
     \<lparr>has_section = (\<lambda>sectionId. sectionId = ''live-streams'' \<or> sectionId = ''audio-archives''
                        \<or> sectionId = ''video-archives''),
      live = example_stream_page,
      audio_container = True,
      no_audio_message = False,
      year_sections = [],
      globalArchivesByYear = None,
      mixcloudWidgets = [],
      video_player = Some [],
      live_reloads = 0\<rparr>"

definition undated_item :: archive_item where
  "undated_item = example_item ''undated'' None"

definition item_2020 :: archive_item where
  "item_2020 = example_item ''set-2020'' (Some 1600000000000)"

definition item_2023 :: archive_item where
  "item_2023 = example_item ''set-2023'' (Some 1700000000000)"

text \<open>
  The archive page with the groups of 2023 and 2020 loaded, the item of 2020 highlighted.
\<close>

definition example_archive_page :: page where
  "example_archive_page =
     example_page
       \<lparr>globalArchivesByYear :=
          Some [(Year 2023, [item_2023]), (Year 2020, [item_2020]), (Unknown, [undated_item])],
        year_sections :=
          [\<lparr>ys_year = Year 2023, ys_index = 0, ys_loaded_class = True, ys_loaded = ''true'',
            ys_items = [createAudioArchiveItemPlaceholder item_2023]\<rparr>,
           \<lparr>ys_year = Year 2020, ys_index = 1, ys_loaded_class = True, ys_loaded = ''true'',
            ys_items = [(createAudioArchiveItemPlaceholder item_2020)\<lparr>highlighted := True\<rparr>]\<rparr>,
           new_year_section 2 Unknown]\<rparr>"

section \<open>embeds.js: unloading and reloading the media of a section\<close>

text \<open>
  \<open>section.querySelectorAll('iframe')\<close> in the audio archive section: the iframes of the
  items of its year groups, in document order. \<open>map_section_iframes\<close> changes each of
  them in place.
\<close>

definition item_iframes :: "item_div \<Rightarrow> iframe list" where
  "item_iframes itemDiv = (case embedDiv itemDiv of None \<Rightarrow> [] | Some ed \<Rightarrow> ed_iframes ed)"

definition section_iframes :: "year_section list \<Rightarrow> iframe list" where
  "section_iframes yearSections =
     concat (map (\<lambda>yearSection. concat (map item_iframes (ys_items yearSection))) yearSections)"

definition map_item_iframes :: "(iframe \<Rightarrow> iframe) \<Rightarrow> item_div \<Rightarrow> item_div" where
  "map_item_iframes f itemDiv =
     itemDiv\<lparr>embedDiv := map_option (\<lambda>ed. ed\<lparr>ed_iframes := map f (ed_iframes ed)\<rparr>) (embedDiv itemDiv)\<rparr>"

definition map_section_iframes :: "(iframe \<Rightarrow> iframe) \<Rightarrow> year_section list \<Rightarrow> year_section list" where
  "map_section_iframes f yearSections =
     map (\<lambda>yearSection. yearSection\<lparr>ys_items := map (map_item_iframes f) (ys_items yearSection)\<rparr>)
       yearSections"

text \<open>Changing the first iframe of a container, when the container and the iframe exist.\<close>

definition map_first :: "(iframe \<Rightarrow> iframe) \<Rightarrow> iframe list option \<Rightarrow> iframe list option" where
  "map_first f container =
     (case container of None \<Rightarrow> None | Some [] \<Rightarrow> Some [] | Some (iframe # rest) \<Rightarrow> Some (f iframe # rest))"

text \<open>
  The live stream branch of \<open>unloadSectionMedia\<close> halts an iframe so:
  \<^verbatim>\<open>
  if (kickIframe && kickIframe.src) {
      // Store original src before clearing (only if not already stored)
      if (!kickIframe.getAttribute('data-original-src')) {
          kickIframe.setAttribute('data-original-src', kickIframe.src);
      }
      kickIframe.src = '';
  }
  \<close>
\<close>

definition blank_stream_iframe :: "browser \<Rightarrow> iframe \<Rightarrow> iframe" where
  "blank_stream_iframe b iframe =
     (if truthy (src_of b iframe) then
        iframe\<lparr>original_src := (if \<not> truthy_attr (original_src iframe) then Some (src_of b iframe)
                                  else original_src iframe),
               src_attr := Some []\<rparr>
      else iframe)"

text \<open>
  \<^verbatim>\<open>
  mixcloudWidgets.forEach((widget, widgetId) => {
      try { widget.pause(); } catch (error) { console.warn(...); }
  });
  \<close>
\<close>

definition pause_all :: "widgets \<Rightarrow> widgets" where
  "pause_all ws = map (\<lambda>(widgetId, w). (widgetId, if w_pause w = PauseOk then w\<lparr>w_paused := True\<rparr> else w)) ws"

text \<open>
  \<^verbatim>\<open>
  export function unloadSectionMedia(sectionId) {
      const section = document.getElementById(sectionId);
      if (!section) return;
      if (sectionId === 'live-streams') {
          pauseTwitchEmbed();
          ... halt the iframe of #kick-embed, halt the iframe of #twitch-embed ...
          return;
      }
      if (sectionId === 'audio-archives') {
          ... pause all Mixcloud widgets ...
          const iframes = section.querySelectorAll('iframe');
          iframes.forEach(iframe => { ... halt it ... });
          return;
      }
      if (sectionId === 'video-archives') {
          const mainPlayerContainer = document.getElementById('video-player-container');
          if (mainPlayerContainer) {
              const iframe = mainPlayerContainer.querySelector('iframe');
              if (iframe) { ... halt it ... }
          }
          return;
      }
  }
  \<close>
\<close>

definition unloadSectionMedia :: "browser \<Rightarrow> string \<Rightarrow> page \<Rightarrow> page" where
  "unloadSectionMedia b sectionId pg =
     (if \<not> has_section pg sectionId then pg
      else if sectionId = ''live-streams'' then
        (let p = pauseTwitchEmbed b (live pg) in
         pg\<lparr>live := p\<lparr>kickEmbed := map_first (blank_stream_iframe b) (kickEmbed p),
                        twitchEmbedDiv := map_first (blank_stream_iframe b) (twitchEmbedDiv p)\<rparr>\<rparr>)
      else if sectionId = ''audio-archives'' then
        pg\<lparr>mixcloudWidgets := pause_all (mixcloudWidgets pg),
           year_sections := map_section_iframes (blank_iframe b) (year_sections pg)\<rparr>
      else if sectionId = ''video-archives'' then
        pg\<lparr>video_player := map_first (blank_iframe b) (video_player pg)\<rparr>
      else pg)"

text \<open>
  Restoring an iframe, as the audio and video branches of \<open>reloadSectionMedia\<close> do it
  (\<open>defaultHeight\<close> is \<open>'120'\<close> for audio and \<open>'100%'\<close> for video):
  \<^verbatim>\<open>
  const originalSrc = iframe.getAttribute('data-original-src');
  const currentSrc = iframe.src;
  if (originalSrc) {
      const needsReload = !currentSrc || currentSrc === '' || currentSrc === 'about:blank' ||
                          currentSrc === window.location.href;
      if (needsReload) {
          const width = iframe.width || iframe.getAttribute('width') || '100%';
          const height = iframe.height || iframe.getAttribute('height') || '120';
          const frameBorder = iframe.frameBorder || iframe.getAttribute('frameborder') || '0';
          const allow = iframe.allow || iframe.getAttribute('allow') || '';
          const title = iframe.title || iframe.getAttribute('title') || '';
          const id = iframe.id || '';
          const style = iframe.getAttribute('style') || '';
          const newIframe = document.createElement('iframe');
          newIframe.width = width; newIframe.height = height; newIframe.frameBorder = frameBorder;
          if (allow) newIframe.allow = allow;
          if (title) newIframe.title = title;
          if (id) newIframe.id = id;
          if (style) newIframe.setAttribute('style', style);
          newIframe.setAttribute('data-original-src', originalSrc);
          const parent = iframe.parentNode;
          if (parent) {
              parent.replaceChild(newIframe, iframe);
              setTimeout(() => { newIframe.src = originalSrc; }, 10);
          }
      } else if (currentSrc !== originalSrc) {
          iframe.src = originalSrc;
      }
  } else if (!currentSrc || currentSrc === '' || currentSrc === 'about:blank') {
      console.warn(...);
  }
  \<close>
  An iframe found by \<open>querySelectorAll\<close> has a parent. The new element has no source
  yet; the timer is its \<open>pending_src\<close>.
\<close>

definition reload_iframe :: "browser \<Rightarrow> string \<Rightarrow> iframe \<Rightarrow> iframe" where
  "reload_iframe b defaultHeight iframe =
     (let originalSrc = original_src iframe; currentSrc = src_of b iframe in
      if truthy_attr originalSrc then
        (let needsReload = (\<not> truthy currentSrc \<or> currentSrc = [] \<or> currentSrc = ''about:blank''
                             \<or> currentSrc = href b) in
         if needsReload then
           \<lparr>src_attr = None, original_src = originalSrc, ifr_id = ifr_id iframe,
            ifr_width = or_else (ifr_width iframe) ''100%'',
            ifr_height = or_else (ifr_height iframe) defaultHeight,
            ifr_frameBorder = or_else (ifr_frameBorder iframe) ''0'',
            ifr_allow = ifr_allow iframe, ifr_title = ifr_title iframe, ifr_style = ifr_style iframe,
            ifr_scrolling = [], ifr_allowFullscreen = False, pending_src = originalSrc\<rparr>
         else if Some currentSrc \<noteq> originalSrc then iframe\<lparr>src_attr := originalSrc\<rparr>
         else iframe)
      else iframe)"

text \<open>
  The live stream branch of \<open>reloadSectionMedia\<close> only sets a timer of 100 ms; what the
  timer then does (once the import of the stream controls has resolved):
  \<^verbatim>\<open>
  const activeStream = getActiveStream();
  if (activeStream === 'kick') {
      const kickContainer = document.getElementById('kick-embed');
      if (kickContainer) {
          const kickIframe = kickContainer.querySelector('iframe');
          let originalSrc = null;
          if (kickIframe) {
              originalSrc = kickIframe.getAttribute('data-original-src');
              if (!originalSrc && kickIframe.src && kickIframe.src !== '' &&
                  kickIframe.src !== 'about:blank' && kickIframe.src.includes('kick.com')) {
                  originalSrc = kickIframe.src;
              }
          }
          if (!originalSrc) { originalSrc = `https://player.kick.com/${kickChannel}`; }
          kickContainer.innerHTML = '';
          ... a new iframe with src and data-original-src originalSrc, 1280 by 720 ...
          kickContainer.appendChild(newIframe);
      }
  } else if (activeStream === 'twitch') {
      const twitchContainer = document.getElementById('twitch-embed');
      if (twitchContainer) {
          twitchContainer.innerHTML = '';
          twitchEmbed = null;
          initTwitchEmbed(twitchChannel, 'twitch-embed', { width: 1280, height: 720 });
      }
  }
  \<close>
  The new Kick iframe has the attributes \<open>createIframeEmbed\<close> gives with the Kick options.
\<close>

definition kick_original_src :: "browser \<Rightarrow> iframe option \<Rightarrow> string" where
  "kick_original_src b kickIframe =
     (let found =
        (case kickIframe of
           None \<Rightarrow> None
         | Some f \<Rightarrow>
             if \<not> truthy_attr (original_src f) \<and> truthy (src_of b f) \<and> src_of b f \<noteq> []
                \<and> src_of b f \<noteq> ''about:blank'' \<and> str_includes (src_of b f) ''kick.com''
             then Some (src_of b f) else original_src f)
      in case found of
           None \<Rightarrow> ''https://player.kick.com/flukie''
         | Some s \<Rightarrow> if truthy s then s else ''https://player.kick.com/flukie'')"

definition reload_live_streams :: "browser \<Rightarrow> stream_page \<Rightarrow> stream_page" where
  "reload_live_streams b p =
     (if getActiveStream p = ''kick'' then
        (case kickEmbed p of
           None \<Rightarrow> p
         | Some children \<Rightarrow>
             p\<lparr>kickEmbed := Some [new_iframe (kick_original_src b (first_iframe (kickEmbed p))) kick_options]\<rparr>)
      else if getActiveStream p = ''twitch'' then
        (case twitchEmbedDiv p of
           None \<Rightarrow> p
         | Some children \<Rightarrow> initTwitchEmbed b ''flukie'' (p\<lparr>twitchEmbedDiv := Some [], twitchEmbed := None\<rparr>))
      else p)"

text \<open>
  \<^verbatim>\<open>
  export function reloadSectionMedia(sectionId) {
      const section = document.getElementById(sectionId);
      if (!section) return;
      if (sectionId === 'live-streams') { setTimeout(() => { ... }, 100); return; }
      if (sectionId === 'audio-archives') {
          const iframes = Array.from(section.querySelectorAll('iframe'));
          iframes.forEach((iframe) => { ... restore it ... });
          return;
      }
      if (sectionId === 'video-archives') {
          ... restore the iframe of #video-player-container ...
          return;
      }
  }
  \<close>
\<close>

definition reloadSectionMedia :: "browser \<Rightarrow> string \<Rightarrow> page \<Rightarrow> page" where
  "reloadSectionMedia b sectionId pg =
     (if \<not> has_section pg sectionId then pg
      else if sectionId = ''live-streams'' then pg\<lparr>live_reloads := Suc (live_reloads pg)\<rparr>
      else if sectionId = ''audio-archives'' then
        pg\<lparr>year_sections := map_section_iframes (reload_iframe b ''120'') (year_sections pg)\<rparr>
      else if sectionId = ''video-archives'' then
        pg\<lparr>video_player := map_first (reload_iframe b ''100%'') (video_player pg)\<rparr>
      else pg)"

text \<open>
  The timers, once they fire: each waiting iframe gets its source, and each waiting live
  stream reload runs.
\<close>

definition fire_iframe :: "iframe \<Rightarrow> iframe" where
  "fire_iframe iframe =
     (case pending_src iframe of
        None \<Rightarrow> iframe
      | Some s \<Rightarrow> iframe\<lparr>src_attr := Some s, pending_src := None\<rparr>)"

definition fire_live_reloads :: "browser \<Rightarrow> page \<Rightarrow> page" where
  "fire_live_reloads b pg =
     pg\<lparr>live := ((reload_live_streams b) ^^ live_reloads pg) (live pg), live_reloads := 0\<rparr>"

definition fire_timers :: "browser \<Rightarrow> page \<Rightarrow> page" where
  "fire_timers b pg =
     fire_live_reloads b
       (pg\<lparr>year_sections := map_section_iframes fire_iframe (year_sections pg),
           video_player := map_option (map fire_iframe) (video_player pg)\<rparr>)"

text \<open>
  The iframe \<open>loadVideoInPlayer\<close> puts into \<open>#video-player-container\<close> (the playlist
  markers and the URL it also updates are left out):
  \<^verbatim>\<open>
  mainPlayerContainer.innerHTML = '';
  if (videoItem.platform === 'vk') {
      const iframe = document.createElement('iframe');
      const embedUrl = videoItem.embedUrl || videoItem.url;
      iframe.src = addVkLanguageParam(embedUrl);
      iframe.width = '100%'; iframe.height = '100%'; iframe.frameBorder = '0';
      iframe.allowFullscreen = true;
      iframe.title = videoItem.title || 'Video Player';
      ... iframe.style ...
      mainPlayerContainer.appendChild(iframe);
  } else {
      mainPlayerContainer.innerHTML = '<div class="video-placeholder">Unsupported video platform</div>';
  }
  \<close>
\<close>

definition vk_src :: "archive_item \<Rightarrow> string" where
  "vk_src videoItem =
     (case addVkLanguageParam (JString (or_else (embedUrl videoItem) (url videoItem))) of
        JString s \<Rightarrow> s
      | JOther \<Rightarrow> or_else (embedUrl videoItem) (url videoItem))"

definition video_iframe :: "archive_item \<Rightarrow> iframe" where
  "video_iframe videoItem =
     \<lparr>src_attr = Some (vk_src videoItem), original_src = None, ifr_id = [],
      ifr_width = ''100%'', ifr_height = ''100%'', ifr_frameBorder = ''0'', ifr_allow = [],
      ifr_title = or_else (title videoItem) ''Video Player'',
      ifr_style = ''position: absolute; top: 0px; left: 0px; width: 100%; height: 100%; border: none;'',
      ifr_scrolling = [], ifr_allowFullscreen = True, pending_src = None\<rparr>"

definition loadVideoInPlayer :: "archive_item \<Rightarrow> page \<Rightarrow> page" where
  "loadVideoInPlayer videoItem pg =
     (case video_player pg of
        None \<Rightarrow> pg
      | Some children \<Rightarrow>
          if platform videoItem = ''vk'' then pg\<lparr>video_player := Some [video_iframe videoItem]\<rparr>
          else pg\<lparr>video_player := Some []\<rparr>)"

text \<open>All iframes of the page that unloading and reloading a section can reach.\<close>

definition container_iframes :: "iframe list option \<Rightarrow> iframe list" where
  "container_iframes container = (case container of None \<Rightarrow> [] | Some children \<Rightarrow> children)"

definition page_iframes :: "page \<Rightarrow> iframe list" where
  "page_iframes pg =
     section_iframes (year_sections pg) @ container_iframes (video_player pg)
       @ container_iframes (kickEmbed (live pg)) @ container_iframes (twitchEmbedDiv (live pg))"

text \<open>The archive page after the embed of the 2023 item has been loaded.\<close>

definition example_loaded_page :: page where
  "example_loaded_page =
     example_archive_page
       \<lparr>year_sections :=
          [(year_sections example_archive_page ! 0)
             \<lparr>ys_items := [fst (loadArchiveItemEmbed example_browser ''audio-hearthis-1''
                                    (createAudioArchiveItemPlaceholder item_2023) [])]\<rparr>,
           year_sections example_archive_page ! 1,
           year_sections example_archive_page ! 2]\<rparr>"

section \<open>navigation.js: switching sections\<close>

text \<open>
  The elements of the document that have an id, in document order, with what the
  navigation reads and writes of them: the class \<open>section\<close> and the classes \<open>active\<close>
  and \<open>fade-out\<close>. The navigation buttons (\<open>.nav-button\<close>) are kept apart, each with
  its \<open>data-section\<close> attribute and its class \<open>active\<close>; they are reached through the
  module variable \<open>navButtons\<close> only.
\<close>

record element =
  el_id :: string
  is_section :: bool
  el_active :: bool
  fade_out :: bool

record nav_button =
  data_section :: "string option"
  btn_active :: bool

text \<open>
  What \<open>switchSection\<close> does outside the class lists is recorded, newest first: the
  calls into the media functions (they change iframes and widgets, no class of a section
  or button), a query parameter deleted from the URL, the highlight taken off all archive
  items, the scroll to the top, and the timers set for a deep-linked item.
\<close>

datatype effect =
    UnloadSectionMedia string
  | ReloadSectionMedia string
  | DeleteParam string
  | ClearHighlights
  | ScrollToTop
  | DeepLinkTimer string

text \<open>
  The module variables \<open>activeSection\<close> and \<open>navButtons\<close> (whether it has been
  assigned), the page, the \<open>audio\<close> parameter of the URL, the display of the chat
  wrapper (\<open>None\<close>: no such element), the class \<open>live-streams-active\<close> of the body, and
  the fade-out timers that wait, oldest first: each names the element from which it will
  remove \<open>active\<close> and \<open>fade-out\<close>. All of them wait the same 300 ms, so they fire in
  the order they were set.
\<close>

record nav_page =
  elements :: "element list"
  buttons :: "nav_button list"
  activeSection :: "string option"
  navButtons :: bool
  fade_timers :: "string list"
  audio_param :: "string option"
  chat_wrapper :: "string option"
  live_streams_active :: bool
  effects :: "effect list"

text \<open>
  \<open>document.getElementById\<close>: the first element with that id; no element has the empty
  id. A change to the element found changes that element where it stands.
\<close>

definition getElementById :: "string \<Rightarrow> element list \<Rightarrow> element option" where
  "getElementById x es = (if x = [] then None else find (\<lambda>e. el_id e = x) es)"

fun update_first :: "string \<Rightarrow> (element \<Rightarrow> element) \<Rightarrow> element list \<Rightarrow> element list" where
  "update_first x f [] = []"
| "update_first x f (e # es) = (if el_id e = x then f e # es else e # update_first x f es)"

text \<open>
  \<^verbatim>\<open>
  function updateActiveButton(sectionId) {
      if (!navButtons) return;
      navButtons.forEach(button => {
          const buttonSection = button.getAttribute('data-section');
          if (buttonSection === sectionId) button.classList.add('active');
          else button.classList.remove('active');
      });
  }
  \<close>
\<close>

definition updateActiveButton :: "string \<Rightarrow> nav_page \<Rightarrow> nav_page" where
  "updateActiveButton sectionId st =
     (if \<not> navButtons st then st
      else st\<lparr>buttons := map (\<lambda>button. button\<lparr>btn_active := (data_section button = Some sectionId)\<rparr>)
                            (buttons st)\<rparr>)"

text \<open>
  \<^verbatim>\<open>
  export function initNavigation() {
      sections = document.querySelectorAll('.section');
      navButtons = document.querySelectorAll('.nav-button');
      if (sections.length === 0 || navButtons.length === 0) { console.warn(...); return; }
      const initialSection = document.querySelector('.section.active');
      if (initialSection) {
          activeSection = initialSection.id;
          updateActiveButton(activeSection);
      }
      ...
  }
  \<close>
\<close>

definition initNavigation :: "nav_page \<Rightarrow> nav_page" where
  "initNavigation st0 =
     (let st = st0\<lparr>navButtons := True\<rparr> in
      if filter is_section (elements st) = [] \<or> buttons st = [] then st
      else case find (\<lambda>e. is_section e \<and> el_active e) (elements st) of
             None \<Rightarrow> st
           | Some initialSection \<Rightarrow>
               updateActiveButton (el_id initialSection) (st\<lparr>activeSection := Some (el_id initialSection)\<rparr>))"

text \<open>
  \<^verbatim>\<open>
  export function switchSection(sectionId, animate = true) {
      const targetSection = document.getElementById(sectionId);
      if (!targetSection) { console.warn(...); return; }
      const isAudioArchivesClick = sectionId === 'audio-archives' && animate && activeSection === sectionId;
      if (isAudioArchivesClick) {
          ... url.searchParams.delete('audio') ... remove 'highlighted' from all items ... scroll to top
          return;
      }
      if (activeSection === sectionId) return; // Already on this section
      if (activeSection) {
          unloadSectionMedia(activeSection);
          if (activeSection === 'video-archives') { ... url.searchParams.delete('video') ... }
          const currentSection = document.getElementById(activeSection);
          if (currentSection && animate) {
              currentSection.classList.add('fade-out');
              setTimeout(() => { currentSection.classList.remove('active', 'fade-out'); }, 300);
          } else if (currentSection) {
              currentSection.classList.remove('active');
          }
      }
      if (animate) { targetSection.style.opacity = '0'; targetSection.classList.add('active'); ... }
      else { targetSection.classList.add('active'); }
      reloadSectionMedia(sectionId);
      activeSection = sectionId;
      updateActiveButton(sectionId);
      const chatWrapper = document.getElementById('chat-wrapper');
      if (chatWrapper) { chatWrapper.style.display = sectionId === 'live-streams' ? 'flex' : 'none'; }
      if (sectionId === 'live-streams') { ... add class live-streams-active to body and html ... }
      else { ... remove it ... }
      if (sectionId === 'audio-archives') {
          if (animate) { ... url.searchParams.delete('audio') ... remove 'highlighted' from all items ... }
          else {
              const audioKey = urlParams.get('audio');
              if (audioKey) { setTimeout(() => { ... scroll to the item, highlight it ... }, 300); return; }
          }
      }
      window.scrollTo({ top: 0, behavior: animate ? 'smooth' : 'auto' });
  }
  \<close>
  The opacity style of the target is not modelled.
\<close>

definition leave_current :: "bool \<Rightarrow> nav_page \<Rightarrow> nav_page" where
  "leave_current animate st =
     (case activeSection st of
        None \<Rightarrow> st
      | Some current \<Rightarrow>
          if \<not> truthy current then st
          else
            (let st1 = st\<lparr>effects := UnloadSectionMedia current # effects st\<rparr>;
                 st2 = (if current = ''video-archives''
                        then st1\<lparr>effects := DeleteParam ''video'' # effects st1\<rparr> else st1)
             in case getElementById current (elements st2) of
                  None \<Rightarrow> st2
                | Some currentSection \<Rightarrow>
                    if animate then
                      st2\<lparr>elements := update_first current (\<lambda>e. e\<lparr>fade_out := True\<rparr>) (elements st2),
                          fade_timers := fade_timers st2 @ [current]\<rparr>
                    else
                      st2\<lparr>elements := update_first current (\<lambda>e. e\<lparr>el_active := False\<rparr>) (elements st2)\<rparr>))"

definition enter_target :: "string \<Rightarrow> nav_page \<Rightarrow> nav_page" where
  "enter_target sectionId st =
     (let st1 = st\<lparr>elements := update_first sectionId (\<lambda>e. e\<lparr>el_active := True\<rparr>) (elements st),
                   effects := ReloadSectionMedia sectionId # effects st\<rparr>;
          st2 = updateActiveButton sectionId (st1\<lparr>activeSection := Some sectionId\<rparr>)
      in st2\<lparr>chat_wrapper := map_option (\<lambda>display. if sectionId = ''live-streams'' then ''flex'' else ''none'')
                                (chat_wrapper st2),
             live_streams_active := (sectionId = ''live-streams'')\<rparr>)"

definition after_switch :: "string \<Rightarrow> bool \<Rightarrow> nav_page \<Rightarrow> nav_page" where
  "after_switch sectionId animate st =
     (if sectionId = ''audio-archives'' \<and> animate then
        st\<lparr>audio_param := None,
           effects := ScrollToTop # ClearHighlights # DeleteParam ''audio'' # effects st\<rparr>
      else if sectionId = ''audio-archives'' then
        (case audio_param st of
           None \<Rightarrow> st\<lparr>effects := ScrollToTop # effects st\<rparr>
         | Some audioKeyParam \<Rightarrow>
             if truthy audioKeyParam then st\<lparr>effects := DeepLinkTimer audioKeyParam # effects st\<rparr>
             else st\<lparr>effects := ScrollToTop # effects st\<rparr>)
      else st\<lparr>effects := ScrollToTop # effects st\<rparr>)"

definition switchSection :: "string \<Rightarrow> bool \<Rightarrow> nav_page \<Rightarrow> nav_page" where
  "switchSection sectionId animate st =
     (case getElementById sectionId (elements st) of
        None \<Rightarrow> st
      | Some targetSection \<Rightarrow>
          if sectionId = ''audio-archives'' \<and> animate \<and> activeSection st = Some sectionId then
            st\<lparr>audio_param := None,
               effects := ScrollToTop # ClearHighlights # DeleteParam ''audio'' # effects st\<rparr>
          else if activeSection st = Some sectionId then st
          else after_switch sectionId animate (enter_target sectionId (leave_current animate st)))"

text \<open>The oldest fade-out timer fires.\<close>

definition fire_fade_timer :: "nav_page \<Rightarrow> nav_page" where
  "fire_fade_timer st =
     (case fade_timers st of
        [] \<Rightarrow> st
      | current # later \<Rightarrow>
          st\<lparr>elements := update_first current (\<lambda>e. e\<lparr>el_active := False, fade_out := False\<rparr>) (elements st),
             fade_timers := later\<rparr>)"

text \<open>
  What happens to the navigation: a call of \<open>switchSection\<close>, or a timer firing. In a
  settled run every fade-out has ended before the next call is made.
\<close>

datatype nav_event = Switch string bool | FadeTimer

fun nav_step :: "nav_event \<Rightarrow> nav_page \<Rightarrow> nav_page" where
  "nav_step (Switch sectionId animate) st = switchSection sectionId animate st"
| "nav_step FadeTimer st = fire_fade_timer st"

definition nav_run :: "nav_event list \<Rightarrow> nav_page \<Rightarrow> nav_page" where
  "nav_run events st = foldl (\<lambda>s e. nav_step e s) st events"

definition settle :: "nav_page \<Rightarrow> nav_page" where
  "settle st = (fire_fade_timer ^^ length (fade_timers st)) st"

definition settled_run :: "(string \<times> bool) list \<Rightarrow> nav_page \<Rightarrow> nav_page" where
  "settled_run switches st =
     foldl (\<lambda>s (sectionId, animate). settle (switchSection sectionId animate s)) st switches"

text \<open>The sections that carry the active marker, by their ids.\<close>

definition active_sections :: "nav_page \<Rightarrow> string list" where
  "active_sections st = map el_id (filter (\<lambda>e. is_section e \<and> el_active e) (elements st))"

text \<open>
  The module before \<open>initNavigation\<close>, on a page with the given elements and buttons.
\<close>

definition page_load :: "element list \<Rightarrow> nav_button list \<Rightarrow> string option \<Rightarrow> nav_page" where
  "page_load es bs audio =
     \<lparr>elements = es, buttons = bs, activeSection = None, navButtons = False, fade_timers = [],
      audio_param = audio, chat_wrapper = Some ''flex'', live_streams_active = False, effects = []\<rparr>"

text \<open>A page with three sections, the live streams showing, and a button for each.\<close>

definition example_elements :: "element list" where
  "example_elements =
     [\<lparr>el_id = ''live-streams'', is_section = True, el_active = True, fade_out = False\<rparr>,
      \<lparr>el_id = ''kick-embed'', is_section = False, el_active = False, fade_out = False\<rparr>,
      \<lparr>el_id = ''audio-archives'', is_section = True, el_active = False, fade_out = False\<rparr>,
      \<lparr>el_id = ''video-archives'', is_section = True, el_active = False, fade_out = False\<rparr>]"

definition example_buttons :: "nav_button list" where
  "example_buttons =
     [\<lparr>data_section = Some ''live-streams'', btn_active = False\<rparr>,
      \<lparr>data_section = Some ''audio-archives'', btn_active = False\<rparr>,
      \<lparr>data_section = Some ''video-archives'', btn_active = False\<rparr>]"

definition example_nav :: nav_page where
  "example_nav = initNavigation (page_load example_elements example_buttons None)"

text \<open>
  \<open>names_section es x\<close>: \<open>x\<close> is the id of a section, or of no element at all.
  \<open>shows_only st a\<close>: no fade-out waits, \<open>a\<close> is the active section of the module and the
  id of a section, the sections marked active are those with id \<open>a\<close>, and the buttons
  marked active are those for \<open>a\<close>.
\<close>

definition names_section :: "element list \<Rightarrow> string \<Rightarrow> bool" where
  "names_section es x = (case getElementById x es of None \<Rightarrow> True | Some e \<Rightarrow> is_section e)"

definition shows_only :: "nav_page \<Rightarrow> string \<Rightarrow> bool" where
  "shows_only st a \<longleftrightarrow>
     fade_timers st = [] \<and> activeSection st = Some a \<and> a \<noteq> [] \<and>
     (\<exists>e\<in>set (elements st). is_section e \<and> el_id e = a) \<and>
     (\<forall>e\<in>set (elements st). is_section e \<longrightarrow> el_active e = (el_id e = a)) \<and>
     navButtons st \<and>
     (\<forall>button\<in>set (buttons st). btn_active button = (data_section button = Some a))"

text \<open>
  A page with the Kick player mounted by \<open>initLiveStreams\<close> and a VK video in the player.
\<close>

definition example_video_item :: archive_item where
  "example_video_item =
     \<lparr>platform = ''vk'', title = ''Stream replay'', url = ''https://vk.com/video-1_2'',
      embedUrl = ''https://vk.com/video_ext.php?oid=-1&id=2'', key = ''replay'',
      created_time = Some 1700000000000\<rparr>"

definition example_mounted_page :: page where
  "example_mounted_page =
     loadVideoInPlayer example_video_item
       (example_page\<lparr>live := initLiveStreams example_browser ''flukie'' ''flukie'' example_stream_page\<rparr>)"

section \<open>Facts about substrings\<close>











section \<open>The language parameter is present exactly once\<close>











text \<open>
  What is appended to a URL with a fragment becomes part of the fragment, and the
  query has no language parameter afterwards.
\<close>

lemma addVkLanguageParam_fragment:
  "isVkEmbedUrl ''https://vk.com/video_ext.php#t=1'' \<and>
   addVkLanguageParam (JString ''https://vk.com/video_ext.php#t=1'')
     = JString ''https://vk.com/video_ext.php#t=1?lang=en'' \<and>
   language_params ''https://vk.com/video_ext.php#t=1?lang=en'' = []"
  by code_simp

section \<open>The stream tabs\<close>

lemma activeStream_unloadStream: "activeStream (unloadStream b s p) = activeStream p"
  by (simp add: unloadStream_def pauseTwitchEmbed_def Let_def split: option.splits)

lemma switchStream_activeStream:
  "activeStream (switchStream b stream p) = activeStream p \<or>
   (activeStream (switchStream b stream p) = stream \<and> (stream = ''kick'' \<or> stream = ''twitch''))"
  by (simp add: switchStream_def Let_def)

lemma switchStream_keeps_valid:
  assumes "activeStream p = ''kick'' \<or> activeStream p = ''twitch''"
  shows "activeStream (switchStream b stream p) = ''kick'' \<or>
         activeStream (switchStream b stream p) = ''twitch''"
  using assms switchStream_activeStream [of b stream p] by auto

lemma switchStream_run_keeps_valid:
  "activeStream p = ''kick'' \<or> activeStream p = ''twitch'' \<Longrightarrow>
   activeStream (switchStream_run b streams p) = ''kick'' \<or>
   activeStream (switchStream_run b streams p) = ''twitch''"
  unfolding switchStream_run_def
proof (induction streams arbitrary: p)
  case Nil
  then show ?case by simp
next
  case (Cons stream streams)
  have "activeStream (switchStream b stream p) = ''kick'' \<or>
        activeStream (switchStream b stream p) = ''twitch''"
    by (rule switchStream_keeps_valid) (rule Cons.prems)
  then show ?case using Cons.IH [of "switchStream b stream p"] by simp
qed

text \<open>
  C9. \<open>switchStream(s)\<close> with \<open>s\<close> the active stream, or with \<open>s\<close> neither \<open>'kick'\<close> nor
  \<open>'twitch'\<close>, returns the page as it was: tab and player markers, the chat panel, the
  iframes, the embed object, the active stream, and the record of \<open>unloadStream\<close> and
  \<open>initTwitchEmbed\<close> calls (none was made).
\<close>

theorem switchStream_noop:
  "stream = activeStream p \<or> (stream \<noteq> ''kick'' \<and> stream \<noteq> ''twitch'') \<Longrightarrow>
   switchStream b stream p = p"
  by (auto simp: switchStream_def)

text \<open>
  C10. The active stream starts as \<open>'kick'\<close>, and after any calls of \<open>switchStream\<close>
  with any strings \<open>getActiveStream\<close> returns \<open>'kick'\<close> or \<open>'twitch'\<close>.
\<close>

theorem getActiveStream_valid:
  "getActiveStream (module_start p) = ''kick'' \<and>
   (getActiveStream (switchStream_run b streams (module_start p)) = ''kick'' \<or>
    getActiveStream (switchStream_run b streams (module_start p)) = ''twitch'')"
proof -
  have start: "activeStream (module_start p) = ''kick''"
    by (simp add: module_start_def)
  then have "activeStream (switchStream_run b streams (module_start p)) = ''kick'' \<or>
      activeStream (switchStream_run b streams (module_start p)) = ''twitch''"
    using switchStream_run_keeps_valid [of "module_start p" b streams] by blast
  with start show ?thesis by (simp add: getActiveStream_def)
qed

theorem switchStream_noop_witness:
  "switchStream example_browser ''kick'' example_stream_page = example_stream_page \<and>
   switchStream example_browser ''youtube'' example_stream_page = example_stream_page \<and>
   switchStream example_browser ''twitch'' example_stream_page \<noteq> example_stream_page"
proof -
  have "switchStream example_browser ''kick'' example_stream_page = example_stream_page"
    by (rule switchStream_noop) (simp add: example_stream_page_def)
  moreover have "switchStream example_browser ''youtube'' example_stream_page = example_stream_page"
    by (rule switchStream_noop) simp
  moreover have "activeStream (switchStream example_browser ''twitch'' example_stream_page) = ''twitch''"
    by (simp add: switchStream_def example_stream_page_def Let_def)
  then have "switchStream example_browser ''twitch'' example_stream_page \<noteq> example_stream_page"
    by (auto simp: example_stream_page_def)
  ultimately show ?thesis by simp
qed

section \<open>The configuration loader\<close>

lemma fetch_and_validate_truthy: "fetch_and_validate r = Inr d \<Longrightarrow> json_truthy d"
  by (auto simp: fetch_and_validate_def split: fetch_result.splits if_splits option.splits)

text \<open>The three tests let through the valid configuration documents, and no other.\<close>

lemma validate_document:
  "fetch_and_validate (FetchResponse True status (Some data))
     = (if valid_configuration data then Inr data
        else if data = JNull \<or> (\<exists>v. data = JBool v) \<or> (\<exists>n. data = JNum n) \<or> (\<exists>t. data = JStr t)
          then Inl (InvalidFormat ''expected an object'')
        else if isArray (property data ''audio'')
          then Inl (InvalidFormat ''video must be an array'')
        else Inl (InvalidFormat ''audio must be an array''))"
proof (cases data)
  case (JObj kvs)
  show ?thesis
  proof (cases "map_of kvs ''audio''")
    case None
    with JObj show ?thesis by (simp add: fetch_and_validate_def)
  next
    case (Some a)
    show ?thesis
    proof (cases "isArray (Some a)")
      case False
      with JObj Some show ?thesis
        by (cases a) (simp_all add: fetch_and_validate_def)
    next
      case True
      then obtain xs where a: "a = JArr xs" by (cases a) simp_all
      show ?thesis
      proof (cases "map_of kvs ''video''")
        case None
        with JObj Some a show ?thesis by (simp add: fetch_and_validate_def)
      next
        case (Some v)
        with JObj \<open>map_of kvs ''audio'' = Some a\<close> a show ?thesis
          by (cases v) (simp_all add: fetch_and_validate_def)
      qed
    qed
  qed
qed (simp_all add: fetch_and_validate_def)

lemma validate_invalid:
  "\<not> valid_configuration data \<Longrightarrow>
   \<exists>msg. fetch_and_validate (FetchResponse True status (Some data)) = Inl (InvalidFormat msg)"
  by (simp add: validate_document)

text \<open>An awaited call is a call and the arrival of its response, one after the other.\<close>

lemma awaited_as_events:
  assumes "fetches (config st) \<notin> set (waiting st)"
  shows "config (config_events net [CallLoadConfig, ResponseArrives (fetches (config st))] st)
       = snd (loadConfig_awaited net (config st))"
  using assms
  by (auto simp: config_events_def config_step_def loadConfig_awaited_def loadConfig_def
      split: option.splits prod.splits)

lemma loadConfig_cached_data:
  "cached_data m = Some d \<Longrightarrow> loadConfig_awaited net m = (Inr d, m)"
  by (simp add: loadConfig_awaited_def loadConfig_def)

lemma loadConfig_cached_error:
  "cached_data m = None \<Longrightarrow> configError m = Some e \<Longrightarrow> loadConfig_awaited net m = (Inl e, m)"
  by (simp add: loadConfig_awaited_def loadConfig_def)

lemma loadConfig_first:
  assumes "cached_data m = None" and "configError m = None"
  shows "fst (loadConfig_awaited net m) = fetch_and_validate (net (fetches m))"
    and "fetches (snd (loadConfig_awaited net m)) = Suc (fetches m)"
    and "fst (loadConfig_awaited net m) = Inr d \<Longrightarrow> cached_data (snd (loadConfig_awaited net m)) = Some d"
    and "fst (loadConfig_awaited net m) = Inl e \<Longrightarrow>
           cached_data (snd (loadConfig_awaited net m)) = None \<and>
           configError (snd (loadConfig_awaited net m)) = Some e"
  using assms fetch_and_validate_truthy [of "net (fetches m)"]
  by (auto simp: loadConfig_awaited_def loadConfig_def loadConfig_resume_def cached_data_def
      split: sum.splits)

lemma loadConfig_settled:
  assumes "cached_data m = None" and "configError m = None"
  shows "loadConfig_awaited net' (snd (loadConfig_awaited net m)) = loadConfig_awaited net m"
proof (cases "fst (loadConfig_awaited net m)")
  case (Inl e)
  with loadConfig_first(4) [OF assms, of net e]
  have "loadConfig_awaited net' (snd (loadConfig_awaited net m)) = (Inl e, snd (loadConfig_awaited net m))"
    by (simp add: loadConfig_cached_error)
  with Inl show ?thesis by (simp add: prod_eq_iff)
next
  case (Inr d)
  with loadConfig_first(3) [OF assms, of net d]
  have "loadConfig_awaited net' (snd (loadConfig_awaited net m)) = (Inr d, snd (loadConfig_awaited net m))"
    by (simp add: loadConfig_cached_data)
  with Inr show ?thesis by (simp add: prod_eq_iff)
qed

lemma loadConfig_calls_settled:
  "loadConfig_awaited net' m = (r, m) \<Longrightarrow> loadConfig_calls net' k m = (replicate k r, m)"
  by (induction k) simp_all

lemma resetConfig_clears: "cached_data (resetConfig m) = None \<and> configError (resetConfig m) = None"
  by (simp add: resetConfig_def cached_data_def)

text \<open>Once a document is cached, no run of calls and responses fetches or empties the cache.\<close>

lemma config_step_cached:
  assumes "cached_data (config st) \<noteq> None" and "ev \<noteq> CallResetConfig"
  shows "cached_data (config (config_step net st ev)) \<noteq> None \<and>
         fetches (config (config_step net st ev)) = fetches (config st)"
proof (cases ev)
  case CallLoadConfig
  with assms show ?thesis
    by (auto simp: config_step_def loadConfig_def)
next
  case (ResponseArrives n)
  show ?thesis
  proof (cases "fetch_and_validate (net n)")
    case (Inl e)
    with assms ResponseArrives show ?thesis
      by (auto simp: config_step_def loadConfig_resume_def cached_data_def)
  next
    case (Inr data)
    with fetch_and_validate_truthy [OF Inr] ResponseArrives show ?thesis
      using assms by (auto simp: config_step_def loadConfig_resume_def cached_data_def)
  qed
next
  case CallResetConfig
  with assms show ?thesis by simp
qed

lemma config_events_cached:
  "cached_data (config st) \<noteq> None \<Longrightarrow> CallResetConfig \<notin> set evs \<Longrightarrow>
   cached_data (config (config_events net evs st)) \<noteq> None \<and>
   fetches (config (config_events net evs st)) = fetches (config st)"
  unfolding config_events_def
proof (induction evs arbitrary: st)
  case Nil
  then show ?case by simp
next
  case (Cons ev evs)
  from Cons.prems have "ev \<noteq> CallResetConfig" by auto
  with config_step_cached [OF Cons.prems(1), of ev net]
  have step: "cached_data (config (config_step net st ev)) \<noteq> None"
    and same: "fetches (config (config_step net st ev)) = fetches (config st)"
    by simp_all
  from Cons.IH [OF step] Cons.prems(2) same show ?case by simp
qed

lemma cached_data_iff: "cached_data m \<noteq> None \<longleftrightarrow> (\<exists>d. configData m = Some d \<and> json_truthy d)"
  by (auto simp: cached_data_def split: option.splits)

lemma loadConfig_sequence:
  assumes call: "loadConfig_awaited net (resetConfig m) = (r, m1)"
  shows "r = fetch_and_validate (net (fetches m)) \<and>
     fetches m1 = Suc (fetches m) \<and>
     (\<forall>d. r = Inr d \<longrightarrow> configData m1 = Some d \<and> configError m1 = None) \<and>
     (\<forall>e. r = Inl e \<longrightarrow> configError m1 = Some e \<and> configData m1 = None) \<and>
     (\<forall>net' k. loadConfig_calls net' k m1 = (replicate k r, m1))"
proof -
  note empty = resetConfig_clears [of m]
  have e1: "cached_data (resetConfig m) = None" and e2: "configError (resetConfig m) = None"
    using empty by simp_all
  have f: "fetches (resetConfig m) = fetches m" by (simp add: resetConfig_def)
  have r: "r = fetch_and_validate (net (fetches m))"
    using loadConfig_first(1) [OF e1 e2, of net] call f by simp
  have n: "fetches m1 = Suc (fetches m)"
    using loadConfig_first(2) [OF e1 e2, of net] call f by simp
  have ok: "configData m1 = Some d \<and> configError m1 = None" if "r = Inr d" for d
    using that call
    by (auto simp: loadConfig_awaited_def loadConfig_def loadConfig_resume_def cached_data_def
        resetConfig_def split: sum.splits)
  have bad: "configError m1 = Some e \<and> configData m1 = None" if "r = Inl e" for e
    using that call
    by (auto simp: loadConfig_awaited_def loadConfig_def loadConfig_resume_def cached_data_def
        resetConfig_def split: sum.splits)
  have again: "loadConfig_awaited net' m1 = (r, m1)" for net'
    using loadConfig_settled [OF e1 e2, of net' net] call by simp
  have later: "loadConfig_calls net' k m1 = (replicate k r, m1)" for net' k
    by (rule loadConfig_calls_settled) (rule again)
  from r n ok bad later show ?thesis by simp
qed

text \<open>
  C5. A call of \<open>loadConfig\<close> that begins while a document is cached returns it, and one
  that begins while an error and no document is cached throws that error; neither
  fetches nor changes the module. A call that begins while both caches are empty issues
  one fetch. When the response arrives, the call returns the document and caches it if
  the status is a success and the body parses to a valid configuration document; it
  throws and caches the error if the fetch fails, the status is no success, the body is
  no JSON, or the document is not valid. Once a document is cached, no calls and
  responses, in whatever order, fetch again or empty the cache, until \<open>resetConfig\<close> is
  called. So when every call has settled before the next
  one begins, the first call after \<open>resetConfig\<close> issues the only fetch, and each
  further call returns the same document or throws the same error, whatever the network
  would answer. \<open>resetConfig\<close> empties both caches.
\<close>

theorem loadConfig_caches:
  "(configData m = Some d \<and> json_truthy d \<longrightarrow> loadConfig m = (Settled (Inr d), m)) \<and>
   (configData m = None \<and> configError m = Some e \<longrightarrow> loadConfig m = (Settled (Inl e), m)) \<and>
   (configData m = None \<and> configError m = None \<longrightarrow>
      loadConfig m = (AwaitsFetch (fetches m), m\<lparr>fetches := Suc (fetches m)\<rparr>)) \<and>
   loadConfig_resume FetchRejected m = (Inl NetworkError, m\<lparr>configError := Some NetworkError\<rparr>) \<and>
   loadConfig_resume (FetchResponse False status body) m
     = (Inl (FailedToLoad status), m\<lparr>configError := Some (FailedToLoad status)\<rparr>) \<and>
   loadConfig_resume (FetchResponse True status None) m
     = (Inl MalformedJson, m\<lparr>configError := Some MalformedJson\<rparr>) \<and>
   (valid_configuration data \<longrightarrow>
      loadConfig_resume (FetchResponse True status (Some data)) m = (Inr data, m\<lparr>configData := Some data\<rparr>)) \<and>
   (\<not> valid_configuration data \<longrightarrow>
      (\<exists>msg. loadConfig_resume (FetchResponse True status (Some data)) m
         = (Inl (InvalidFormat msg), m\<lparr>configError := Some (InvalidFormat msg)\<rparr>))) \<and>
   (loadConfig_awaited net (resetConfig m) = (r, m1) \<longrightarrow>
      r = fetch_and_validate (net (fetches m)) \<and>
      fetches m1 = Suc (fetches m) \<and>
      (\<forall>d. r = Inr d \<longrightarrow> configData m1 = Some d \<and> configError m1 = None) \<and>
      (\<forall>e. r = Inl e \<longrightarrow> configError m1 = Some e \<and> configData m1 = None) \<and>
      (\<forall>net' k. loadConfig_calls net' k m1 = (replicate k r, m1))) \<and>
   (configData (config st) = Some d \<and> json_truthy d \<and> CallResetConfig \<notin> set evs \<longrightarrow>
      fetches (config (config_events net evs st)) = fetches (config st) \<and>
      (\<exists>d'. configData (config (config_events net evs st)) = Some d' \<and> json_truthy d')) \<and>
   configData (resetConfig m) = None \<and> configError (resetConfig m) = None"
proof (intro conjI impI)
  show "loadConfig m = (Settled (Inr d), m)" if "configData m = Some d \<and> json_truthy d"
    using that by (simp add: loadConfig_def cached_data_def)
  show "loadConfig m = (Settled (Inl e), m)" if "configData m = None \<and> configError m = Some e"
    using that by (simp add: loadConfig_def cached_data_def)
  show "loadConfig m = (AwaitsFetch (fetches m), m\<lparr>fetches := Suc (fetches m)\<rparr>)"
    if "configData m = None \<and> configError m = None"
    using that by (simp add: loadConfig_def cached_data_def)
  show "loadConfig_resume FetchRejected m = (Inl NetworkError, m\<lparr>configError := Some NetworkError\<rparr>)"
    by (simp add: loadConfig_resume_def fetch_and_validate_def)
  show "loadConfig_resume (FetchResponse False status body) m
      = (Inl (FailedToLoad status), m\<lparr>configError := Some (FailedToLoad status)\<rparr>)"
    by (simp add: loadConfig_resume_def fetch_and_validate_def)
  show "loadConfig_resume (FetchResponse True status None) m
      = (Inl MalformedJson, m\<lparr>configError := Some MalformedJson\<rparr>)"
    by (simp add: loadConfig_resume_def fetch_and_validate_def)
  show "loadConfig_resume (FetchResponse True status (Some data)) m = (Inr data, m\<lparr>configData := Some data\<rparr>)"
    if "valid_configuration data"
    using that by (simp add: loadConfig_resume_def validate_document)
  show "\<exists>msg. loadConfig_resume (FetchResponse True status (Some data)) m
      = (Inl (InvalidFormat msg), m\<lparr>configError := Some (InvalidFormat msg)\<rparr>)"
    if "\<not> valid_configuration data"
    using validate_invalid [OF that, of status] by (auto simp: loadConfig_resume_def)
  show "configData (resetConfig m) = None" "configError (resetConfig m) = None"
    by (simp_all add: resetConfig_def)
  have stays: "cached_data (config (config_events net evs st)) \<noteq> None \<and>
      fetches (config (config_events net evs st)) = fetches (config st)"
    if "configData (config st) = Some d \<and> json_truthy d \<and> CallResetConfig \<notin> set evs"
  proof (rule config_events_cached)
    from that show "cached_data (config st) \<noteq> None" by (simp add: cached_data_def)
    from that show "CallResetConfig \<notin> set evs" by simp
  qed
  show "fetches (config (config_events net evs st)) = fetches (config st)"
    if "configData (config st) = Some d \<and> json_truthy d \<and> CallResetConfig \<notin> set evs"
    using stays [OF that] by blast
  show "\<exists>d'. configData (config (config_events net evs st)) = Some d' \<and> json_truthy d'"
    if "configData (config st) = Some d \<and> json_truthy d \<and> CallResetConfig \<notin> set evs"
    using stays [OF that] cached_data_iff [of "config (config_events net evs st)"] by blast
next
  assume "loadConfig_awaited net (resetConfig m) = (r, m1)"
  then have seq: "r = fetch_and_validate (net (fetches m)) \<and>
     fetches m1 = Suc (fetches m) \<and>
     (\<forall>d. r = Inr d \<longrightarrow> configData m1 = Some d \<and> configError m1 = None) \<and>
     (\<forall>e. r = Inl e \<longrightarrow> configError m1 = Some e \<and> configData m1 = None) \<and>
     (\<forall>net' k. loadConfig_calls net' k m1 = (replicate k r, m1))"
    by (rule loadConfig_sequence)
  from seq show "r = fetch_and_validate (net (fetches m))" by blast
  from seq show "fetches m1 = Suc (fetches m)" by blast
  from seq show "\<forall>d. r = Inr d \<longrightarrow> configData m1 = Some d \<and> configError m1 = None" by blast
  from seq show "\<forall>e. r = Inl e \<longrightarrow> configError m1 = Some e \<and> configData m1 = None" by blast
  from seq show "\<forall>net' k. loadConfig_calls net' k m1 = (replicate k r, m1)" by blast
qed

lemma example_config_valid:
  "valid_configuration example_config"
  "\<not> valid_configuration (JObj [(''audio'', JArr [])])"
  "json_truthy example_config"
  by (simp_all add: example_config_def)

lemma example_first_call:
  "loadConfig_awaited example_network
       (resetConfig \<lparr>configData = None, configError = None, fetches = 0\<rparr>)
     = (Inr example_config, \<lparr>configData = Some example_config, configError = None, fetches = 1\<rparr>)"
  "loadConfig_awaited failing_network
       (resetConfig \<lparr>configData = None, configError = None, fetches = 0\<rparr>)
     = (Inl (FailedToLoad ''404 Not Found''),
        \<lparr>configData = None, configError = Some (FailedToLoad ''404 Not Found''), fetches = 1\<rparr>)"
  by (simp_all add: resetConfig_def loadConfig_awaited_def loadConfig_def loadConfig_resume_def
      cached_data_def fetch_and_validate_def example_network_def failing_network_def example_config_def)

theorem loadConfig_caches_witness:
  "loadConfig \<lparr>configData = None, configError = None, fetches = 0\<rparr>
     = (AwaitsFetch 0, \<lparr>configData = None, configError = None, fetches = 1\<rparr>) \<and>
   loadConfig_resume (FetchResponse True ''200 OK'' (Some example_config))
       \<lparr>configData = None, configError = None, fetches = 1\<rparr>
     = (Inr example_config, \<lparr>configData = Some example_config, configError = None, fetches = 1\<rparr>) \<and>
   loadConfig \<lparr>configData = Some example_config, configError = None, fetches = 1\<rparr>
     = (Settled (Inr example_config), \<lparr>configData = Some example_config, configError = None, fetches = 1\<rparr>) \<and>
   loadConfig \<lparr>configData = None, configError = Some (FailedToLoad ''404 Not Found''), fetches = 1\<rparr>
     = (Settled (Inl (FailedToLoad ''404 Not Found'')),
        \<lparr>configData = None, configError = Some (FailedToLoad ''404 Not Found''), fetches = 1\<rparr>) \<and>
   (\<exists>msg. loadConfig_resume (FetchResponse True ''200 OK'' (Some (JObj [(''audio'', JArr [])])))
       \<lparr>configData = None, configError = None, fetches = 1\<rparr>
     = (Inl (InvalidFormat msg), \<lparr>configData = None, configError = Some (InvalidFormat msg), fetches = 1\<rparr>)) \<and>
   loadConfig_calls failing_network 3 \<lparr>configData = Some example_config, configError = None, fetches = 1\<rparr>
     = ([Inr example_config, Inr example_config, Inr example_config],
        \<lparr>configData = Some example_config, configError = None, fetches = 1\<rparr>) \<and>
   loadConfig_calls failing_network 2
       \<lparr>configData = None, configError = Some (FailedToLoad ''404 Not Found''), fetches = 1\<rparr>
     = ([Inl (FailedToLoad ''404 Not Found''), Inl (FailedToLoad ''404 Not Found'')],
        \<lparr>configData = None, configError = Some (FailedToLoad ''404 Not Found''), fetches = 1\<rparr>) \<and>
   fetches (config (config_events failing_network [CallLoadConfig, ResponseArrives 0, CallLoadConfig]
       \<lparr>config = \<lparr>configData = Some example_config, configError = None, fetches = 1\<rparr>,
        waiting = [0], outcomes = []\<rparr>)) = 1"
proof -
  let ?m0 = "\<lparr>configData = None, configError = None, fetches = 0\<rparr>"
  let ?m1 = "\<lparr>configData = None, configError = None, fetches = 1\<rparr>"
  let ?ok = "\<lparr>configData = Some example_config, configError = None, fetches = 1\<rparr>"
  let ?bad = "\<lparr>configData = None, configError = Some (FailedToLoad ''404 Not Found''), fetches = 1\<rparr>"
  let ?half = "JObj [(''audio'', JArr [])]"
  from loadConfig_caches [of ?m0]
  have "loadConfig ?m0 = (AwaitsFetch (fetches ?m0), ?m0\<lparr>fetches := Suc (fetches ?m0)\<rparr>)"
    by simp
  then have begun: "loadConfig ?m0 = (AwaitsFetch 0, ?m1)"
    by simp
  from loadConfig_caches [of ?m1 _ _ "''200 OK''" _ example_config] example_config_valid(1)
  have "loadConfig_resume (FetchResponse True ''200 OK'' (Some example_config)) ?m1
      = (Inr example_config, ?m1\<lparr>configData := Some example_config\<rparr>)"
    by blast
  then have arrived: "loadConfig_resume (FetchResponse True ''200 OK'' (Some example_config)) ?m1
      = (Inr example_config, ?ok)"
    by simp
  from loadConfig_caches [of ?ok example_config] example_config_valid(3)
  have cached: "loadConfig ?ok = (Settled (Inr example_config), ?ok)"
    by simp
  from loadConfig_caches [of ?bad _ "FailedToLoad ''404 Not Found''"]
  have thrown: "loadConfig ?bad = (Settled (Inl (FailedToLoad ''404 Not Found'')), ?bad)"
    by simp
  from loadConfig_caches [of ?m1 _ _ "''200 OK''" _ ?half] example_config_valid(2)
  have "\<exists>msg. loadConfig_resume (FetchResponse True ''200 OK'' (Some ?half)) ?m1
      = (Inl (InvalidFormat msg), ?m1\<lparr>configError := Some (InvalidFormat msg)\<rparr>)"
    by blast
  then have invalid: "\<exists>msg. loadConfig_resume (FetchResponse True ''200 OK'' (Some ?half)) ?m1
      = (Inl (InvalidFormat msg), \<lparr>configData = None, configError = Some (InvalidFormat msg), fetches = 1\<rparr>)"
    by simp
  from loadConfig_caches [of ?m0 _ _ _ _ _ example_network "Inr example_config" ?ok] example_first_call(1)
  have "\<forall>net' k. loadConfig_calls net' k ?ok = (replicate k (Inr example_config), ?ok)"
    by blast
  then have "loadConfig_calls failing_network 3 ?ok = (replicate 3 (Inr example_config), ?ok)"
    by blast
  then have later_ok: "loadConfig_calls failing_network 3 ?ok
      = ([Inr example_config, Inr example_config, Inr example_config], ?ok)"
    by (simp only: numeral_3_eq_3 replicate.simps)
  from loadConfig_caches [of ?m0 _ _ _ _ _ failing_network "Inl (FailedToLoad ''404 Not Found'')" ?bad]
    example_first_call(2)
  have "\<forall>net' k. loadConfig_calls net' k ?bad = (replicate k (Inl (FailedToLoad ''404 Not Found'')), ?bad)"
    by blast
  then have "loadConfig_calls failing_network 2 ?bad = (replicate 2 (Inl (FailedToLoad ''404 Not Found'')), ?bad)"
    by blast
  then have later_bad: "loadConfig_calls failing_network 2 ?bad
      = ([Inl (FailedToLoad ''404 Not Found''), Inl (FailedToLoad ''404 Not Found'')], ?bad)"
    by (simp only: numeral_2_eq_2 replicate.simps)
  let ?run = "\<lparr>config = ?ok, waiting = [0], outcomes = []\<rparr>"
  from loadConfig_caches [of _ example_config _ _ _ _ failing_network _ _ ?run
      "[CallLoadConfig, ResponseArrives 0, CallLoadConfig]"] example_config_valid(3)
  have "fetches (config (config_events failing_network
        [CallLoadConfig, ResponseArrives 0, CallLoadConfig] ?run)) = fetches (config ?run)"
    by simp
  then have overlapped: "fetches (config (config_events failing_network
        [CallLoadConfig, ResponseArrives 0, CallLoadConfig] ?run)) = 1"
    by simp
  show ?thesis
    by (intro conjI) (fact begun, fact arrived, fact cached, fact thrown, fact invalid,
        fact later_ok, fact later_bad, fact overlapped)
qed

text \<open>
  Two calls that both begin before the response to the first has arrived both fetch.
  Here the first fetch fails and the second succeeds: the first call throws, the second
  returns the document, both caches are set, and a third call returns the document.
\<close>

theorem loadConfig_overlapping_counterexample:
  "outcomes (config_events failing_network
       [CallLoadConfig, CallLoadConfig, ResponseArrives 0, ResponseArrives 1, CallLoadConfig]
       module_loaded)
     = [Inl (FailedToLoad ''404 Not Found''), Inr example_config, Inr example_config] \<and>
   fetches (config (config_events failing_network
       [CallLoadConfig, CallLoadConfig, ResponseArrives 0, ResponseArrives 1, CallLoadConfig]
       module_loaded)) = 2 \<and>
   configData (config (config_events failing_network
       [CallLoadConfig, CallLoadConfig, ResponseArrives 0, ResponseArrives 1, CallLoadConfig]
       module_loaded)) = Some example_config \<and>
   configError (config (config_events failing_network
       [CallLoadConfig, CallLoadConfig, ResponseArrives 0, ResponseArrives 1, CallLoadConfig]
       module_loaded)) = Some (FailedToLoad ''404 Not Found'')"
  by code_simp

text \<open>Awaited one after the other, the same three calls fetch once and all throw.\<close>

lemma loadConfig_awaited_run:
  "outcomes (config_events failing_network
       [CallLoadConfig, ResponseArrives 0, CallLoadConfig, CallLoadConfig] module_loaded)
     = [Inl (FailedToLoad ''404 Not Found''), Inl (FailedToLoad ''404 Not Found''),
        Inl (FailedToLoad ''404 Not Found'')] \<and>
   fetches (config (config_events failing_network
       [CallLoadConfig, ResponseArrives 0, CallLoadConfig, CallLoadConfig] module_loaded)) = 1"
  by code_simp

section \<open>The order of the archive items\<close>

lemma insert_sorted_newest_first:
  "insert_sorted newest_first x ys = insort_key (\<lambda>a. - date_of a) x ys"
  by (induction ys) (auto simp: newest_first_def)

lemma sortedArchives_sort_key: "sortedArchives xs = sort_key (\<lambda>a. - date_of a) xs"
  by (induction xs) (auto simp: sortedArchives_def js_sort_def insert_sorted_newest_first sort_key_def)

lemma sortedArchives_descending:
  "sorted_wrt (\<lambda>a b. date_of b \<le> date_of a) (sortedArchives xs)"
proof -
  have "sorted (map (\<lambda>a. - date_of a) (sortedArchives xs))"
    unfolding sortedArchives_sort_key by (rule sorted_sort_key)
  then show ?thesis by (simp add: sorted_map)
qed

lemma placed_before_sorted_wrt:
  "sorted_wrt R xs \<Longrightarrow> placed_before xs a b \<Longrightarrow> R a b"
  by (induction xs) auto

lemma placed_before_later:
  assumes "sorted_wrt (\<lambda>a b. date_of b \<le> date_of a) xs"
    and "a \<in> set xs" and "b \<in> set xs" and "date_of b < date_of a"
  shows "placed_before xs a b"
  using assms
proof (induction xs)
  case Nil
  then show ?case by simp
next
  case (Cons x xs)
  show ?case
  proof (cases "x = a")
    case True
    with Cons.prems have "b \<in> set xs" by auto
    with True show ?thesis by simp
  next
    case False
    with Cons.prems have a: "a \<in> set xs" by simp
    have "b \<noteq> x"
    proof
      assume "b = x"
      with Cons.prems(1) a have "date_of a \<le> date_of b" by auto
      with Cons.prems(4) show False by simp
    qed
    with Cons.prems have b: "b \<in> set xs" by simp
    from Cons.prems(1) have "sorted_wrt (\<lambda>a b. date_of b \<le> date_of a) xs" by simp
    from Cons.IH [OF this a b Cons.prems(4)] show ?thesis by simp
  qed
qed

text \<open>
  C4, as the code has it. The sorted list is a rearrangement of the archive array. An
  item placed before another has a timestamp at least as late, an undated item counting
  as the epoch (0). Of two items with different timestamps the later one is placed first,
  so an undated item comes after every item dated later than the epoch. Items with equal
  timestamps keep the order they have in the array.
\<close>

theorem sortedArchives_order:
  "mset (sortedArchives xs) = mset xs \<and>
   (placed_before (sortedArchives xs) a b \<longrightarrow> date_of b \<le> date_of a) \<and>
   (a \<in> set xs \<and> b \<in> set xs \<and> date_of b < date_of a \<longrightarrow>
      placed_before (sortedArchives xs) a b \<and> \<not> placed_before (sortedArchives xs) b a) \<and>
   (a \<in> set xs \<and> b \<in> set xs \<and> created_time a = Some t \<and> 0 < t \<and> created_time b = None \<longrightarrow>
      placed_before (sortedArchives xs) a b \<and> \<not> placed_before (sortedArchives xs) b a) \<and>
   filter (\<lambda>x. date_of x = d) (sortedArchives xs) = filter (\<lambda>x. date_of x = d) xs"
proof -
  note desc = sortedArchives_descending [of xs]
  have perm: "mset (sortedArchives xs) = mset xs"
    by (simp add: sortedArchives_sort_key)
  have before: "date_of b \<le> date_of a" if "placed_before (sortedArchives xs) a b" for a b
    using placed_before_sorted_wrt [OF desc that] .
  have later: "placed_before (sortedArchives xs) a b \<and> \<not> placed_before (sortedArchives xs) b a"
    if "a \<in> set xs" "b \<in> set xs" "date_of b < date_of a" for a b
  proof
    from that have "a \<in> set (sortedArchives xs)" "b \<in> set (sortedArchives xs)"
      by (simp_all add: sortedArchives_sort_key)
    then show "placed_before (sortedArchives xs) a b"
      using placed_before_later [OF desc] that(3) by blast
    show "\<not> placed_before (sortedArchives xs) b a"
      using before [of b a] that(3) by auto
  qed
  have undated: "placed_before (sortedArchives xs) a b \<and> \<not> placed_before (sortedArchives xs) b a"
    if "a \<in> set xs" "b \<in> set xs" "created_time a = Some t" "0 < t" "created_time b = None"
  proof -
    from that have "date_of b < date_of a" by (simp add: date_of_def)
    with that show ?thesis using later by blast
  qed
  have "filter (\<lambda>x. - date_of x = - d) (sortedArchives xs) = filter (\<lambda>x. - date_of x = - d) xs"
    unfolding sortedArchives_sort_key by (rule sort_key_stable)
  then have stable: "filter (\<lambda>x. date_of x = d) (sortedArchives xs) = filter (\<lambda>x. date_of x = d) xs"
    by simp
  from perm before [of a b] later [of a b] undated stable show ?thesis by blast
qed

lemma sortedArchives_example: "sortedArchives [example_item ''a'' (Some (- 86400000)), example_item ''b'' (Some (- 86400000)),
                      example_item ''u'' None] = 
  [example_item ''u'' None, example_item ''a'' (Some (- 86400000)), example_item ''b'' (Some (- 86400000))]"
  by (simp add: sortedArchives_def js_sort_def newest_first_def date_of_def example_item_def)

text \<open>
  Two items of the same date, both before the epoch, and an undated item: the undated
  item is placed first, and neither of the two dated items is placed before the other in
  both directions, although each has a timestamp at least as late as the other.
\<close>

theorem sortedArchives_undated_first_counterexample:
  "placed_before
     (sortedArchives [example_item ''a'' (Some (- 86400000)), example_item ''b'' (Some (- 86400000)),
                      example_item ''u'' None])
     (example_item ''u'' None) (example_item ''a'' (Some (- 86400000))) \<and>
   created_time (example_item ''u'' None) = None \<and>
   created_time (example_item ''a'' (Some (- 86400000))) = Some (- 86400000) \<and>
   \<not> placed_before
     (sortedArchives [example_item ''a'' (Some (- 86400000)), example_item ''b'' (Some (- 86400000)),
                      example_item ''u'' None])
     (example_item ''b'' (Some (- 86400000))) (example_item ''a'' (Some (- 86400000))) \<and>
   created_time (example_item ''b'' (Some (- 86400000))) = Some (- 86400000)"
  by (simp add: sortedArchives_example) (simp add: example_item_def)

theorem sortedArchives_order_witness:
  "sortedArchives [example_item ''u'' None, example_item ''old'' (Some 1000), example_item ''new'' (Some 2000)]
     = [example_item ''new'' (Some 2000), example_item ''old'' (Some 1000), example_item ''u'' None] \<and>
   placed_before
     (sortedArchives [example_item ''u'' None, example_item ''old'' (Some 1000), example_item ''new'' (Some 2000)])
     (example_item ''new'' (Some 2000)) (example_item ''old'' (Some 1000)) \<and>
   placed_before
     (sortedArchives [example_item ''u'' None, example_item ''old'' (Some 1000), example_item ''new'' (Some 2000)])
     (example_item ''old'' (Some 1000)) (example_item ''u'' None)"
proof -
  let ?u = "example_item ''u'' None" and ?o = "example_item ''old'' (Some 1000)"
    and ?n = "example_item ''new'' (Some 2000)"
  have dates: "date_of ?u = 0" "date_of ?o = 1000" "date_of ?n = 2000"
    by (simp_all add: date_of_def example_item_def)
  have "placed_before (sortedArchives [?u, ?o, ?n]) ?n ?o"
    using sortedArchives_order [of "[?u, ?o, ?n]" ?n ?o 0 0] dates by simp
  moreover have "placed_before (sortedArchives [?u, ?o, ?n]) ?o ?u"
    using sortedArchives_order [of "[?u, ?o, ?n]" ?o ?u 1000 0] by (simp add: example_item_def)
  moreover have "sortedArchives [?u, ?o, ?n] = [?n, ?o, ?u]"
    by (simp add: sortedArchives_def js_sort_def newest_first_def dates)
  ultimately show ?thesis by simp
qed

section \<open>The year groups\<close>

lemma keys_push_item:
  "map fst (push_item y v m) = (if y \<in> fst ` set m then map fst m else map fst m @ [y])"
proof (induction m)
  case Nil
  then show ?case by simp
next
  case (Cons p m)
  obtain y' vs where p: "p = (y', vs)" by (cases p)
  show ?case
  proof (cases "y' = y")
    case True
    with p show ?thesis by simp
  next
    case False
    with p Cons.IH show ?thesis by (auto simp: image_iff)
  qed
qed

lemma distinct_push_item: "distinct (map fst m) \<Longrightarrow> distinct (map fst (push_item y v m))"
  by (simp add: keys_push_item)

lemma map_of_push_item:
  "map_of (push_item y v m) k =
     (if k = y then Some ((case map_of m y of None \<Rightarrow> [] | Some vs \<Rightarrow> vs) @ [v]) else map_of m k)"
  by (induction m) auto

lemma mset_push_item:
  "mset (concat (map snd (push_item y v m))) = add_mset v (mset (concat (map snd m)))"
  by (induction m) auto

lemma distinct_fold_groups:
  "distinct (map fst m) \<Longrightarrow>
   distinct (map fst (foldl (\<lambda>m item. push_item (yearOf year_of item) item m) m xs))"
  by (induction xs arbitrary: m) (simp_all add: distinct_push_item)

lemma mset_fold_groups:
  "mset (concat (map snd (foldl (\<lambda>m item. push_item (yearOf year_of item) item m) m xs)))
     = mset (concat (map snd m)) + mset xs"
  by (induction xs arbitrary: m) (simp_all add: mset_push_item)

lemma map_of_fold_groups:
  "map_of (foldl (\<lambda>m item. push_item (yearOf year_of item) item m) m xs) k =
     (case map_of m k of
        Some vs \<Rightarrow> Some (vs @ filter (\<lambda>v. yearOf year_of v = k) xs)
      | None \<Rightarrow> (if filter (\<lambda>v. yearOf year_of v = k) xs = [] then None
                else Some (filter (\<lambda>v. yearOf year_of v = k) xs)))"
proof (induction xs arbitrary: m)
  case Nil
  then show ?case by (simp split: option.splits)
next
  case (Cons x xs)
  show ?case
    by (simp add: Cons.IH map_of_push_item split: option.splits)
qed

lemma map_of_archivesByYear:
  "map_of (archivesByYear year_of xs) k =
     (if filter (\<lambda>v. yearOf year_of v = k) xs = [] then None
      else Some (filter (\<lambda>v. yearOf year_of v = k) xs))"
  by (simp add: archivesByYear_def map_of_fold_groups)

lemma distinct_archivesByYear: "distinct (map fst (archivesByYear year_of xs))"
  by (simp add: archivesByYear_def distinct_fold_groups)

lemma mset_archivesByYear: "mset (concat (map snd (archivesByYear year_of xs))) = mset xs"
  by (simp add: archivesByYear_def mset_fold_groups)

lemma group_of_archivesByYear:
  "(year, items) \<in> set (archivesByYear year_of xs) \<longleftrightarrow>
     items \<noteq> [] \<and> items = filter (\<lambda>v. yearOf year_of v = year) xs"
proof -
  have "(year, items) \<in> set (archivesByYear year_of xs) \<longleftrightarrow>
      map_of (archivesByYear year_of xs) year = Some items"
    using distinct_archivesByYear [of year_of xs] by simp
  then show ?thesis by (auto simp: map_of_archivesByYear)
qed

lemma keys_archivesByYear: "fst ` set (archivesByYear year_of xs) = yearOf year_of ` set xs"
proof -
  have "k \<in> fst ` set (archivesByYear year_of xs) \<longleftrightarrow> k \<in> yearOf year_of ` set xs" for k
  proof -
    have "k \<in> fst ` set (archivesByYear year_of xs) \<longleftrightarrow> map_of (archivesByYear year_of xs) k \<noteq> None"
      by (simp add: map_of_eq_None_iff)
    also have "\<dots> \<longleftrightarrow> filter (\<lambda>v. yearOf year_of v = k) xs \<noteq> []"
      by (simp add: map_of_archivesByYear)
    also have "\<dots> \<longleftrightarrow> k \<in> yearOf year_of ` set xs"
      by (auto simp: filter_empty_conv)
    finally show ?thesis .
  qed
  then show ?thesis by blast
qed

lemma set_insert_sorted: "set (insert_sorted cmp x ys) = insert x (set ys)"
  by (induction ys) auto

lemma set_js_sort: "set (js_sort cmp xs) = set xs"
  by (induction xs) (simp_all add: js_sort_def set_insert_sorted)

lemma distinct_insert_sorted: "distinct (insert_sorted cmp x ys) \<longleftrightarrow> x \<notin> set ys \<and> distinct ys"
  by (induction ys) (auto simp: set_insert_sorted)

lemma distinct_js_sort: "distinct (js_sort cmp xs) \<longleftrightarrow> distinct xs"
  by (induction xs) (simp_all add: js_sort_def distinct_insert_sorted set_js_sort [unfolded js_sort_def])

lemma year_before_trans: "year_before a b \<Longrightarrow> year_before b c \<Longrightarrow> year_before a c"
  by (cases a; cases b; cases c) auto

lemma newest_year_first_before: "a \<noteq> b \<Longrightarrow> newest_year_first a b \<le> 0 \<Longrightarrow> year_before a b"
  by (cases a; cases b) auto

lemma newest_year_first_after: "a \<noteq> b \<Longrightarrow> \<not> newest_year_first a b \<le> 0 \<Longrightarrow> year_before b a"
  by (cases a; cases b) auto

lemma sorted_insert_year:
  "x \<notin> set ys \<Longrightarrow> sorted_wrt year_before ys \<Longrightarrow>
   sorted_wrt year_before (insert_sorted newest_year_first x ys)"
proof (induction ys)
  case Nil
  then show ?case by simp
next
  case (Cons y ys)
  from Cons.prems have ne: "x \<noteq> y" and notin: "x \<notin> set ys"
    and y: "\<forall>z\<in>set ys. year_before y z" and sorted: "sorted_wrt year_before ys"
    by auto
  show ?case
  proof (cases "newest_year_first x y \<le> 0")
    case True
    with ne have xy: "year_before x y" by (rule newest_year_first_before)
    with y have "\<forall>z\<in>set ys. year_before x z" using year_before_trans by blast
    with True xy y sorted show ?thesis by simp
  next
    case False
    with ne have "year_before y x" by (rule newest_year_first_after)
    with False y Cons.IH [OF notin sorted] show ?thesis
      by (simp add: set_insert_sorted)
  qed
qed

lemma sorted_year_sort:
  "distinct ys \<Longrightarrow> sorted_wrt year_before (js_sort newest_year_first ys)"
proof (induction ys)
  case Nil
  then show ?case by (simp add: js_sort_def)
next
  case (Cons y ys)
  then have "y \<notin> set (js_sort newest_year_first ys)"
    and "sorted_wrt year_before (js_sort newest_year_first ys)"
    by (simp_all add: set_js_sort)
  then have "sorted_wrt year_before (insert_sorted newest_year_first y (js_sort newest_year_first ys))"
    by (rule sorted_insert_year)
  then show ?case by (simp add: js_sort_def)
qed

lemma year_before_irrefl: "\<not> year_before a a"
  by (cases a) auto

lemma year_before_asym: "year_before a b \<Longrightarrow> \<not> year_before b a"
  by (cases a; cases b) auto

lemma year_order_unique:
  "sorted_wrt year_before xs \<Longrightarrow> sorted_wrt year_before ys \<Longrightarrow> set xs = set ys \<Longrightarrow> xs = ys"
proof (induction xs arbitrary: ys)
  case Nil
  then show ?case by simp
next
  case (Cons x xs)
  then obtain y ys' where ys: "ys = y # ys'" by (cases ys) auto
  from Cons.prems ys have xs_after: "\<forall>z\<in>set xs. year_before x z" and ys_after: "\<forall>z\<in>set ys'. year_before y z"
    and sx: "sorted_wrt year_before xs" and sy: "sorted_wrt year_before ys'"
    by simp_all
  have head: "x = y"
  proof (rule ccontr)
    assume ne: "x \<noteq> y"
    with Cons.prems(3) ys have "x \<in> set ys'" and "y \<in> set xs" by auto
    with xs_after ys_after have "year_before y x" and "year_before x y" by auto
    then show False using year_before_asym by blast
  qed
  have "x \<notin> set xs" using xs_after year_before_irrefl by blast
  moreover have "y \<notin> set ys'" using ys_after year_before_irrefl by blast
  ultimately have "set xs = set ys'" using Cons.prems(3) ys head by auto
  with Cons.IH [OF sx sy] head ys show ?case by simp
qed

lemma yearOrder_sorted:
  "sorted_wrt year_before (yearOrder (archivesByYear year_of xs))"
  "set (yearOrder (archivesByYear year_of xs)) = yearOf year_of ` set xs"
  using distinct_archivesByYear [of year_of xs]
  by (simp_all add: yearOrder_def set_js_sort sorted_year_sort keys_archivesByYear)

lemma yearOrder_any_order:
  assumes "mset other = mset audioArchives"
  shows "yearOrder (archivesByYear year_of (sortedArchives other))
       = yearOrder (archivesByYear year_of (sortedArchives audioArchives))"
proof (rule year_order_unique)
  have "set other = set audioArchives" using assms by (rule mset_eq_setD)
  then show "set (yearOrder (archivesByYear year_of (sortedArchives other)))
      = set (yearOrder (archivesByYear year_of (sortedArchives audioArchives)))"
    by (simp add: yearOrder_sorted sortedArchives_def set_js_sort)
qed (rule yearOrder_sorted)+

lemma ys_year_loadYearContent: "ys_year (loadYearContent a s) = ys_year s"
  by (simp add: loadYearContent_def split: option.splits)

lemma years_load_first: "map ys_year (load_first a ss) = map ys_year ss"
  by (cases ss) (simp_all add: load_first_def ys_year_loadYearContent)

lemma years_new_sections:
  "map (ys_year \<circ> (\<lambda>(yearIndex, year). new_year_section yearIndex year)) (enumerate n years) = years"
proof -
  have "ys_year \<circ> (\<lambda>(yearIndex, year). new_year_section yearIndex year) = snd"
    by (auto simp: fun_eq_iff new_year_section_def)
  then show ?thesis by simp
qed

text \<open>
  C3. On a page that has the archive container, for every archive array, in whatever
  order: an empty array creates no year group; otherwise \<open>loadAudioArchives\<close> stores
  year groups with distinct years; an item of the array is in the group of its own year
  and in no other, and that group exists; each group is the sorted array restricted to
  its year, so that all groups together hold the items of the array, each as often as the
  array does. The year groups of the page are created in the order of \<open>yearOrder\<close>:
  every year once, later years first, \<open>Unknown\<close> after all of them; any rearrangement
  of the array gives the same order of years.
\<close>

theorem year_groups_partition:
  assumes "audio_container pg"
  shows "(audioArchives = [] \<longrightarrow>
            year_sections (loadAudioArchives year_of audioArchives pg) = []) \<and>
         (audioArchives \<noteq> [] \<longrightarrow>
            (\<exists>byYear. globalArchivesByYear (loadAudioArchives year_of audioArchives pg) = Some byYear \<and>
               distinct (map fst byYear) \<and>
               (\<forall>item\<in>set audioArchives. \<forall>(year, items)\<in>set byYear.
                   item \<in> set items \<longleftrightarrow> year = yearOf year_of item) \<and>
               (\<forall>item\<in>set audioArchives. yearOf year_of item \<in> fst ` set byYear) \<and>
               (\<forall>(year, items)\<in>set byYear.
                   items = filter (\<lambda>item. yearOf year_of item = year) (sortedArchives audioArchives)) \<and>
               mset (concat (map snd byYear)) = mset audioArchives \<and>
               map ys_year (year_sections (loadAudioArchives year_of audioArchives pg)) = yearOrder byYear \<and>
               set (yearOrder byYear) = fst ` set byYear \<and>
               distinct (yearOrder byYear) \<and>
               sorted_wrt year_before (yearOrder byYear) \<and>
               (\<forall>other. mset other = mset audioArchives \<longrightarrow>
                   yearOrder (archivesByYear year_of (sortedArchives other)) = yearOrder byYear)))"
proof (intro conjI impI)
  assume "audioArchives = []"
  with assms show "year_sections (loadAudioArchives year_of audioArchives pg) = []"
    by (simp add: loadAudioArchives_def)
next
  assume filled: "audioArchives \<noteq> []"
  let ?sorted = "sortedArchives audioArchives"
  let ?byYear = "archivesByYear year_of ?sorted"
  have set_sorted: "set ?sorted = set audioArchives"
    by (simp add: sortedArchives_def set_js_sort)
  have stored: "globalArchivesByYear (loadAudioArchives year_of audioArchives pg) = Some ?byYear"
    using assms filled by (simp add: loadAudioArchives_def Let_def)
  have keys: "distinct (map fst ?byYear)"
    by (rule distinct_archivesByYear)
  have own: "item \<in> set items \<longleftrightarrow> year = yearOf year_of item"
    if "item \<in> set audioArchives" and "(year, items) \<in> set ?byYear" for item year items
    using that set_sorted by (auto simp: group_of_archivesByYear)
  have total: "yearOf year_of item \<in> fst ` set ?byYear" if "item \<in> set audioArchives" for item
    using that set_sorted by (simp add: keys_archivesByYear)
  have content: "items = filter (\<lambda>item. yearOf year_of item = year) ?sorted"
    if "(year, items) \<in> set ?byYear" for year items
    using that by (simp add: group_of_archivesByYear)
  have all: "mset (concat (map snd ?byYear)) = mset audioArchives"
    by (simp add: mset_archivesByYear sortedArchives_sort_key)
  have sections: "map ys_year (year_sections (loadAudioArchives year_of audioArchives pg)) = yearOrder ?byYear"
    using assms filled by (simp add: loadAudioArchives_def Let_def years_load_first years_new_sections)
  have order: "set (yearOrder ?byYear) = fst ` set ?byYear" "distinct (yearOrder ?byYear)"
    "sorted_wrt year_before (yearOrder ?byYear)"
    using keys by (simp_all add: yearOrder_def set_js_sort distinct_js_sort sorted_year_sort)
  have any: "\<forall>other. mset other = mset audioArchives \<longrightarrow>
      yearOrder (archivesByYear year_of (sortedArchives other)) = yearOrder ?byYear"
    using yearOrder_any_order by blast
  show "\<exists>byYear. globalArchivesByYear (loadAudioArchives year_of audioArchives pg) = Some byYear \<and>
               distinct (map fst byYear) \<and>
               (\<forall>item\<in>set audioArchives. \<forall>(year, items)\<in>set byYear.
                   item \<in> set items \<longleftrightarrow> year = yearOf year_of item) \<and>
               (\<forall>item\<in>set audioArchives. yearOf year_of item \<in> fst ` set byYear) \<and>
               (\<forall>(year, items)\<in>set byYear.
                   items = filter (\<lambda>item. yearOf year_of item = year) (sortedArchives audioArchives)) \<and>
               mset (concat (map snd byYear)) = mset audioArchives \<and>
               map ys_year (year_sections (loadAudioArchives year_of audioArchives pg)) = yearOrder byYear \<and>
               set (yearOrder byYear) = fst ` set byYear \<and>
               distinct (yearOrder byYear) \<and>
               sorted_wrt year_before (yearOrder byYear) \<and>
               (\<forall>other. mset other = mset audioArchives \<longrightarrow>
                   yearOrder (archivesByYear year_of (sortedArchives other)) = yearOrder byYear)"
  proof (intro exI [of _ ?byYear] conjI)
    show "\<forall>other. mset other = mset audioArchives \<longrightarrow>
        yearOrder (archivesByYear year_of (sortedArchives other)) = yearOrder ?byYear"
      by (rule any)
  qed (use stored keys own total content all sections order in \<open>auto simp del: set_map\<close>)
qed

lemma example_groups:
  "archivesByYear example_year (sortedArchives [undated_item, item_2020, item_2023])
     = [(Year 2023, [item_2023]), (Year 2020, [item_2020]), (Unknown, [undated_item])]"
  by (simp add: archivesByYear_def sortedArchives_def js_sort_def newest_first_def date_of_def
      yearOf_def example_year_def undated_item_def item_2020_def item_2023_def example_item_def)

lemma example_years:
  "yearOrder [(Year 2023, [item_2023]), (Year 2020, [item_2020]), (Unknown, [undated_item])]
     = [Year 2023, Year 2020, Unknown]"
  by (simp add: yearOrder_def js_sort_def)

theorem year_groups_partition_witness:
  "audio_container example_page \<and>
   globalArchivesByYear (loadAudioArchives example_year [undated_item, item_2020, item_2023] example_page)
     = Some [(Year 2023, [item_2023]), (Year 2020, [item_2020]), (Unknown, [undated_item])] \<and>
   map ys_year (year_sections
       (loadAudioArchives example_year [undated_item, item_2020, item_2023] example_page))
     = [Year 2023, Year 2020, Unknown] \<and>
   sorted_wrt year_before (map ys_year (year_sections
       (loadAudioArchives example_year [undated_item, item_2020, item_2023] example_page))) \<and>
   yearOrder (archivesByYear example_year (sortedArchives [item_2023, undated_item, item_2020]))
     = [Year 2023, Year 2020, Unknown]"
proof -
  let ?xs = "[undated_item, item_2020, item_2023]"
  let ?pg = "loadAudioArchives example_year ?xs example_page"
  have c: "audio_container example_page" by (simp add: example_page_def)
  have n: "?xs \<noteq> []" by simp
  from year_groups_partition [OF c, of ?xs example_year] n obtain byYear where
    g: "globalArchivesByYear ?pg = Some byYear"
    and secs: "map ys_year (year_sections ?pg) = yearOrder byYear"
    and srt: "sorted_wrt year_before (yearOrder byYear)"
    and any: "\<forall>other. mset other = mset ?xs \<longrightarrow>
        yearOrder (archivesByYear example_year (sortedArchives other)) = yearOrder byYear"
    by blast
  have stored: "globalArchivesByYear ?pg
      = Some [(Year 2023, [item_2023]), (Year 2020, [item_2020]), (Unknown, [undated_item])]"
    using c by (simp add: loadAudioArchives_def Let_def example_groups)
  with g have groups: "byYear = [(Year 2023, [item_2023]), (Year 2020, [item_2020]), (Unknown, [undated_item])]"
    by simp
  have "mset [item_2023, undated_item, item_2020] = mset ?xs"
    by simp
  with any have "yearOrder (archivesByYear example_year (sortedArchives [item_2023, undated_item, item_2020]))
      = yearOrder byYear"
    by blast
  with groups have rearranged:
    "yearOrder (archivesByYear example_year (sortedArchives [item_2023, undated_item, item_2020]))
      = [Year 2023, Year 2020, Unknown]"
    by (simp add: example_years)
  from groups secs have years: "map ys_year (year_sections ?pg) = [Year 2023, Year 2020, Unknown]"
    by (simp add: example_years)
  from secs srt have ordered: "sorted_wrt year_before (map ys_year (year_sections ?pg))"
    by simp
  show ?thesis
    by (intro conjI) (fact c, fact stored, fact years, fact ordered, fact rearranged)
qed

section \<open>The unload observer and the highlighted item\<close>

lemma highlighted_section_Some:
  "highlighted_section ss = Some g \<longleftrightarrow>
     g < length ss \<and> list_ex highlighted (ys_items (ss ! g)) \<and>
     (\<forall>i<g. \<not> list_ex highlighted (ys_items (ss ! i)))"
proof (induction ss arbitrary: g)
  case Nil
  then show ?case by simp
next
  case (Cons s ss)
  show ?case
  proof (cases "list_ex highlighted (ys_items s)")
    case True
    then show ?thesis by (cases g) auto
  next
    case False
    show ?thesis
    proof (cases g)
      case 0
      with False show ?thesis by simp
    next
      case (Suc h)
      have "(\<forall>i<Suc h. \<not> list_ex highlighted (ys_items ((s # ss) ! i)))
          \<longleftrightarrow> (\<forall>i<h. \<not> list_ex highlighted (ys_items (ss ! i)))"
        using False by (auto simp: less_Suc_eq_0_disj)
      with False Suc Cons.IH [of h] show ?thesis by auto
    qed
  qed
qed

lemma highlighted_section_update:
  assumes "highlighted_section ss = Some g" and "i \<noteq> g" and "\<not> list_ex highlighted (ys_items s)"
  shows "highlighted_section (ss[i := s]) = Some g"
proof (cases "i < length ss")
  case True
  have "ss[i := s] ! j = (if j = i then s else ss ! j)" for j
    using True by (simp add: nth_list_update)
  with assms show ?thesis unfolding highlighted_section_Some by auto
next
  case False
  then have "length ss \<le> i" by simp
  then have "ss[i := s] = ss" by (rule list_update_beyond)
  with assms(1) show ?thesis by simp
qed

lemma unloadYearContent_items: "ys_items (fst (unloadYearContent b s ws)) = []"
  by (simp add: unloadYearContent_def)

lemma unloadObserver_entry_highlighted:
  "highlighted_section (year_sections pg) = Some (target e) \<Longrightarrow> unloadObserver_entry b e pg = pg"
  by (simp add: unloadObserver_entry_def Let_def)

lemma unloadObserver_entry_keeps:
  assumes "highlighted_section (year_sections pg) = Some g"
  shows "year_sections (unloadObserver_entry b e pg) ! g = year_sections pg ! g \<and>
         highlighted_section (year_sections (unloadObserver_entry b e pg)) = Some g"
proof (cases "target e = g")
  case True
  with assms show ?thesis by (simp add: unloadObserver_entry_def Let_def)
next
  case False
  have "highlighted_section ((year_sections pg)[target e := fst (unloadYearContent b s ws)\<lparr>ys_loaded_class := False\<rparr>]) = Some g"
    for s ws
    using assms False by (intro highlighted_section_update) (simp_all add: unloadYearContent_items)
  with False assms show ?thesis
    by (auto simp: unloadObserver_entry_def Let_def case_prod_unfold)
qed

lemma unloadObserver_keeps:
  "highlighted_section (year_sections pg) = Some g \<Longrightarrow>
   year_sections (unloadObserver b entries pg) ! g = year_sections pg ! g \<and>
   highlighted_section (year_sections (unloadObserver b entries pg)) = Some g"
  unfolding unloadObserver_def
proof (induction entries arbitrary: pg)
  case Nil
  then show ?case by simp
next
  case (Cons e entries)
  from unloadObserver_entry_keeps [OF Cons.prems, of b e]
  have same: "year_sections (unloadObserver_entry b e pg) ! g = year_sections pg ! g"
    and still: "highlighted_section (year_sections (unloadObserver_entry b e pg)) = Some g"
    by simp_all
  from Cons.IH [OF still] same show ?case by simp
qed

text \<open>
  Let the first highlighted archive item of the document lie in the year group at
  place \<open>g\<close>: that is the group that contains the highlighted item when only one item
  is highlighted. Then after any number of firings of the unload observer, whatever
  their entries say, that group is as it was (its items, its flags) and still holds the
  first highlighted item.
\<close>

lemma unloadObserver_spares_first_highlighted:
  "highlighted_section (year_sections pg) = Some g \<Longrightarrow>
   year_sections (unloadObserver_firings b firings pg) ! g = year_sections pg ! g \<and>
   highlighted_section (year_sections (unloadObserver_firings b firings pg)) = Some g"
  unfolding unloadObserver_firings_def
proof (induction firings arbitrary: pg)
  case Nil
  then show ?case by simp
next
  case (Cons entries firings)
  from unloadObserver_keeps [OF Cons.prems, of b entries]
  have same: "year_sections (unloadObserver b entries pg) ! g = year_sections pg ! g"
    and still: "highlighted_section (year_sections (unloadObserver b entries pg)) = Some g"
    by simp_all
  from Cons.IH [OF still] same show ?case by simp
qed

lemma only_highlighted_group:
  assumes "g < length ss" and "list_ex highlighted (ys_items (ss ! g))"
    and "\<forall>i<length ss. i \<noteq> g \<longrightarrow> \<not> list_ex highlighted (ys_items (ss ! i))"
  shows "highlighted_section ss = Some g"
  using assms unfolding highlighted_section_Some by auto

lemma unloadObserver_spares_first_highlighted_example:
  "highlighted_section (year_sections example_archive_page) = Some 1 \<and>
   year_sections (unloadObserver_firings example_browser
       [[\<lparr>target = 0, isIntersecting = False\<rparr>, \<lparr>target = 1, isIntersecting = False\<rparr>]]
       example_archive_page) ! 1
     = year_sections example_archive_page ! 1 \<and>
   ys_items (year_sections example_archive_page ! 0) \<noteq> [] \<and>
   ys_items (year_sections (unloadObserver_firings example_browser
       [[\<lparr>target = 0, isIntersecting = False\<rparr>, \<lparr>target = 1, isIntersecting = False\<rparr>]]
       example_archive_page) ! 0) = []"
proof -
  let ?firings = "[[\<lparr>target = 0, isIntersecting = False\<rparr>, \<lparr>target = 1, isIntersecting = False\<rparr>]]"
  have h: "highlighted_section (year_sections example_archive_page) = Some 1"
    by (simp add: example_archive_page_def createAudioArchiveItemPlaceholder_def)
  from unloadObserver_spares_first_highlighted [OF h, of example_browser ?firings]
  have kept: "year_sections (unloadObserver_firings example_browser ?firings example_archive_page) ! 1
      = year_sections example_archive_page ! 1"
    by simp
  have before: "ys_items (year_sections example_archive_page ! 0) \<noteq> []"
    by (simp add: example_archive_page_def)
  let ?p1 = "example_archive_page\<lparr>year_sections :=
          (year_sections example_archive_page)
            [0 := (year_sections example_archive_page ! 0)
                    \<lparr>ys_items := [], ys_loaded := ''false'', ys_loaded_class := False\<rparr>]\<rparr>"
  have first: "unloadObserver_entry example_browser \<lparr>target = 0, isIntersecting = False\<rparr> example_archive_page
      = ?p1"
    using h
    by (simp add: unloadObserver_entry_def unloadYearContent_def unloadArchiveItemEmbed_def
        example_archive_page_def createAudioArchiveItemPlaceholder_def example_page_def)
  have h1: "highlighted_section (year_sections ?p1) = Some 1"
    by (simp add: example_archive_page_def createAudioArchiveItemPlaceholder_def)
  have second: "unloadObserver_entry example_browser \<lparr>target = 1, isIntersecting = False\<rparr> ?p1 = ?p1"
  proof (rule unloadObserver_entry_highlighted)
    show "highlighted_section (year_sections ?p1) = Some (target \<lparr>target = 1, isIntersecting = False\<rparr>)"
      using h1 by simp
  qed
  have "unloadObserver_firings example_browser ?firings example_archive_page = ?p1"
    by (simp only: unloadObserver_firings_def unloadObserver_def foldl.simps first second)
  then have torn: "ys_items (year_sections (unloadObserver_firings example_browser ?firings example_archive_page) ! 0) = []"
    by (simp add: example_archive_page_def)
  show ?thesis
    by (intro conjI) (fact h, fact kept, fact before, fact torn)
qed

text \<open>
  C8. The observer looks for the first highlighted item of the document only, and two
  items can be highlighted. On the archive page with the groups of 2023 and 2020 loaded,
  a click on the item \<open>set-2023\<close> highlights it (\<open>highlightAudioSet\<close>); history
  navigation to \<open>?audio=set-2020#audio-archives\<close> then highlights the deep-linked item
  \<open>set-2020\<close> as well (the timers of \<open>switchSection\<close>). A firing of the unload observer
  for the group of 2020 now empties that group, with the highlighted, deep-linked item
  in it.
\<close>

theorem unloadObserver_unloads_deep_linked:
  "map (map highlighted \<circ> ys_items)
     (year_sections (highlightAudioSet ''set-2023'' example_archive_page)) = [[True], [False], []] \<and>
   map (map highlighted \<circ> ys_items)
     (year_sections (deep_link_timers ''set-2020'' (highlightAudioSet ''set-2023'' example_archive_page)))
     = [[True], [True], []] \<and>
   map (map audioKey \<circ> ys_items)
     (year_sections (deep_link_timers ''set-2020'' (highlightAudioSet ''set-2023'' example_archive_page)))
     = [[Some ''set-2023''], [Some ''set-2020''], []] \<and>
   map ys_loaded
     (year_sections (deep_link_timers ''set-2020'' (highlightAudioSet ''set-2023'' example_archive_page)))
     = [''true'', ''true'', ''false''] \<and>
   map (map highlighted \<circ> ys_items)
     (year_sections (unloadObserver example_browser [\<lparr>target = 1, isIntersecting = False\<rparr>]
        (deep_link_timers ''set-2020'' (highlightAudioSet ''set-2023'' example_archive_page))))
     = [[True], [], []] \<and>
   map ys_loaded
     (year_sections (unloadObserver example_browser [\<lparr>target = 1, isIntersecting = False\<rparr>]
        (deep_link_timers ''set-2020'' (highlightAudioSet ''set-2023'' example_archive_page))))
     = [''true'', ''false'', ''false'']"
  by code_simp

text \<open>
  Had the deep-linked item been highlighted by \<open>highlightAudioSet\<close>, which takes the
  class from the other item, the same firing would have spared its group.
\<close>

lemma unloadObserver_spares_after_highlightAudioSet:
  "map (map highlighted \<circ> ys_items)
     (year_sections (unloadObserver example_browser [\<lparr>target = 1, isIntersecting = False\<rparr>]
        (highlightAudioSet ''set-2020'' (highlightAudioSet ''set-2023'' example_archive_page))))
     = [[False], [True], []]"
  by code_simp

section \<open>Unloading what is already unloaded\<close>

lemma blank_iframe_idem: "blank_iframe b (blank_iframe b f) = blank_iframe b f"
  by (simp add: blank_iframe_def Let_def src_of_def truthy_attr_def truthy_def)

lemma blank_iframe_keeps_original:
  "truthy_attr (original_src f) \<Longrightarrow> original_src (blank_iframe b f) = original_src f"
  by (simp add: blank_iframe_def Let_def)

lemma blank_stream_iframe_idem: "blank_stream_iframe b (blank_stream_iframe b f) = blank_stream_iframe b f"
  by (simp add: blank_stream_iframe_def src_of_def truthy_attr_def truthy_def)

lemma map_item_iframes_comp:
  "map_item_iframes f (map_item_iframes g itemDiv) = map_item_iframes (f \<circ> g) itemDiv"
  by (cases "embedDiv itemDiv") (simp_all add: map_item_iframes_def)

lemma map_section_iframes_comp:
  "map_section_iframes f (map_section_iframes g ss) = map_section_iframes (f \<circ> g) ss"
  by (simp add: map_section_iframes_def map_item_iframes_comp comp_def)

lemma item_iframes_map: "item_iframes (map_item_iframes f itemDiv) = map f (item_iframes itemDiv)"
  by (cases "embedDiv itemDiv") (simp_all add: item_iframes_def map_item_iframes_def)

lemma section_iframes_map: "section_iframes (map_section_iframes f ss) = map f (section_iframes ss)"
  by (simp add: section_iframes_def map_section_iframes_def map_concat comp_def item_iframes_map)

lemma map_first_comp: "map_first f (map_first g c) = map_first (f \<circ> g) c"
  by (simp add: map_first_def split: option.splits list.splits)

lemma pause_all_idem: "pause_all (pause_all ws) = pause_all ws"
  by (induction ws) (auto simp: pause_all_def)

lemma blank_comp: "blank_iframe b \<circ> blank_iframe b = blank_iframe b"
  by (simp add: fun_eq_iff blank_iframe_idem)

lemma blank_stream_comp: "blank_stream_iframe b \<circ> blank_stream_iframe b = blank_stream_iframe b"
  by (simp add: fun_eq_iff blank_stream_iframe_idem)

lemma unload_audio_twice:
  "unloadSectionMedia b ''audio-archives'' (unloadSectionMedia b ''audio-archives'' pg)
     = unloadSectionMedia b ''audio-archives'' pg"
  by (simp add: unloadSectionMedia_def map_section_iframes_comp blank_comp pause_all_idem)

lemma unload_video_twice:
  "unloadSectionMedia b ''video-archives'' (unloadSectionMedia b ''video-archives'' pg)
     = unloadSectionMedia b ''video-archives'' pg"
  by (simp add: unloadSectionMedia_def map_first_comp blank_comp)

lemma live_after_unload:
  "kickEmbed (live (unloadSectionMedia b ''live-streams'' pg))
     = (if has_section pg ''live-streams'' then map_first (blank_stream_iframe b) (kickEmbed (live pg))
        else kickEmbed (live pg))"
  "twitchEmbedDiv (live (unloadSectionMedia b ''live-streams'' pg))
     = (if has_section pg ''live-streams'' then map_first (blank_stream_iframe b) (twitchEmbedDiv (live pg))
        else twitchEmbedDiv (live pg))"
  "year_sections (unloadSectionMedia b ''live-streams'' pg) = year_sections pg"
  "video_player (unloadSectionMedia b ''live-streams'' pg) = video_player pg"
  "has_section (unloadSectionMedia b ''live-streams'' pg) = has_section pg"
  by (simp_all add: unloadSectionMedia_def Let_def pauseTwitchEmbed_def)

lemma unload_live_twice:
  "page_iframes (unloadSectionMedia b ''live-streams'' (unloadSectionMedia b ''live-streams'' pg))
     = page_iframes (unloadSectionMedia b ''live-streams'' pg)"
  by (simp add: page_iframes_def live_after_unload map_first_comp blank_stream_comp)

lemma unload_other:
  "sectionId \<noteq> ''live-streams'' \<Longrightarrow> sectionId \<noteq> ''audio-archives'' \<Longrightarrow>
   sectionId \<noteq> ''video-archives'' \<Longrightarrow> unloadSectionMedia b sectionId pg = pg"
  by (simp add: unloadSectionMedia_def)

lemma unloadArchiveItemEmbed_twice:
  "unloadArchiveItemEmbed b (fst (unloadArchiveItemEmbed b itemDiv ws)) (snd (unloadArchiveItemEmbed b itemDiv ws))
     = unloadArchiveItemEmbed b itemDiv ws"
  by (simp add: unloadArchiveItemEmbed_def Let_def)

text \<open>
  C2. Unloading a section a second time leaves the \<open>data-original-src\<close> attribute of
  every iframe of the page as the first unloading left it; for the audio and the video
  section the second call changes nothing at all. \<open>unloadArchiveItemEmbed\<close> on an item
  it has already unloaded changes nothing. Halting an iframe never replaces a stored
  source that is not blank.
\<close>

theorem unload_twice:
  "map original_src (page_iframes (unloadSectionMedia b sectionId (unloadSectionMedia b sectionId pg)))
     = map original_src (page_iframes (unloadSectionMedia b sectionId pg)) \<and>
   (sectionId = ''audio-archives'' \<or> sectionId = ''video-archives'' \<longrightarrow>
      unloadSectionMedia b sectionId (unloadSectionMedia b sectionId pg) = unloadSectionMedia b sectionId pg) \<and>
   unloadArchiveItemEmbed b (fst (unloadArchiveItemEmbed b itemDiv ws))
       (snd (unloadArchiveItemEmbed b itemDiv ws))
     = unloadArchiveItemEmbed b itemDiv ws \<and>
   (truthy_attr (original_src iframe) \<longrightarrow> original_src (blank_iframe b iframe) = original_src iframe)"
proof -
  have pages: "page_iframes (unloadSectionMedia b sectionId (unloadSectionMedia b sectionId pg))
      = page_iframes (unloadSectionMedia b sectionId pg)"
  proof -
    consider "sectionId = ''live-streams''" | "sectionId = ''audio-archives''"
      | "sectionId = ''video-archives''"
      | "sectionId \<noteq> ''live-streams''" "sectionId \<noteq> ''audio-archives''" "sectionId \<noteq> ''video-archives''"
      by blast
    then show ?thesis
    proof cases
      case 1
      then show ?thesis by (simp add: unload_live_twice)
    next
      case 2
      then show ?thesis by (simp add: unload_audio_twice)
    next
      case 3
      then show ?thesis by (simp add: unload_video_twice)
    next
      case 4
      then show ?thesis by (simp add: unload_other)
    qed
  qed
  have same: "unloadSectionMedia b sectionId (unloadSectionMedia b sectionId pg) = unloadSectionMedia b sectionId pg"
    if "sectionId = ''audio-archives'' \<or> sectionId = ''video-archives''"
    using that unload_audio_twice unload_video_twice by blast
  from pages same show ?thesis
    by (simp add: unloadArchiveItemEmbed_twice blank_iframe_keeps_original)
qed

section \<open>Mounting, unloading and reloading\<close>

lemma truthy_attr_Some [simp]: "truthy_attr (Some s) = (s \<noteq> [])"
  by (simp add: truthy_attr_def truthy_def)

lemma round_trip_created:
  assumes about: "resolve b ''about:blank'' = ''about:blank''"
    and idem: "\<And>s. resolve b (resolve b s) = resolve b s"
  shows "src_of b (fire_iframe (reload_iframe b h (blank_iframe b (new_iframe S options)))) = resolve b S"
proof (cases "S = []")
  case True
  show ?thesis
  proof (cases "truthy (resolve b []) \<and> resolve b [] \<noteq> ''about:blank'' \<and> resolve b [] \<noteq> href b")
    case halted: True
    then have "blank_iframe b (new_iframe S options)
        = (new_iframe S options)\<lparr>original_src := Some (resolve b []), src_attr := Some ''about:blank''\<rparr>"
      using True by (simp add: blank_iframe_def Let_def src_of_def new_iframe_def)
    then show ?thesis
      using True halted about idem [of "[]"]
      by (simp add: reload_iframe_def Let_def src_of_def fire_iframe_def truthy_def new_iframe_def)
  next
    case False
    then have "blank_iframe b (new_iframe S options) = new_iframe S options"
      using True by (auto simp: blank_iframe_def Let_def src_of_def new_iframe_def)
    then show ?thesis
      using True by (simp add: reload_iframe_def Let_def src_of_def fire_iframe_def new_iframe_def)
  qed
next
  case False
  show ?thesis
  proof (cases "truthy (resolve b S) \<and> resolve b S \<noteq> ''about:blank'' \<and> resolve b S \<noteq> href b")
    case halted: True
    then have "blank_iframe b (new_iframe S options)
        = (new_iframe S options)\<lparr>src_attr := Some ''about:blank''\<rparr>"
      using False by (simp add: blank_iframe_def Let_def src_of_def new_iframe_def)
    then show ?thesis
      using False about
      by (simp add: reload_iframe_def Let_def src_of_def fire_iframe_def truthy_def new_iframe_def)
  next
    case skipped: False
    then have "blank_iframe b (new_iframe S options) = new_iframe S options"
      by (auto simp: blank_iframe_def Let_def src_of_def new_iframe_def)
    then show ?thesis
      using False skipped
      by (auto simp: reload_iframe_def Let_def src_of_def fire_iframe_def truthy_def new_iframe_def)
  qed
qed

lemma round_trip_video:
  assumes about: "resolve b ''about:blank'' = ''about:blank''"
    and idem: "\<And>s. resolve b (resolve b s) = resolve b s"
  shows "src_of b (fire_iframe (reload_iframe b h (blank_iframe b (video_iframe item)))) = resolve b (vk_src item)"
proof (cases "truthy (resolve b (vk_src item)) \<and> resolve b (vk_src item) \<noteq> ''about:blank''
    \<and> resolve b (vk_src item) \<noteq> href b")
  case True
  then have "blank_iframe b (video_iframe item)
      = (video_iframe item)\<lparr>original_src := Some (resolve b (vk_src item)), src_attr := Some ''about:blank''\<rparr>"
    by (simp add: blank_iframe_def Let_def src_of_def video_iframe_def truthy_attr_def)
  then show ?thesis
    using True about idem [of "vk_src item"]
    by (simp add: reload_iframe_def Let_def src_of_def fire_iframe_def truthy_def video_iframe_def)
next
  case False
  then have "blank_iframe b (video_iframe item) = video_iframe item"
    by (auto simp: blank_iframe_def Let_def src_of_def video_iframe_def)
  then show ?thesis
    by (simp add: reload_iframe_def Let_def src_of_def fire_iframe_def video_iframe_def truthy_attr_def)
qed

lemma fire_new_iframe: "fire_iframe (new_iframe S options) = new_iframe S options"
  by (simp add: fire_iframe_def new_iframe_def)

lemma audio_round_trip_iframes:
  "section_iframes (year_sections (fire_timers b
       (reloadSectionMedia b ''audio-archives'' (unloadSectionMedia b ''audio-archives'' pg))))
     = (if has_section pg ''audio-archives''
        then map (fire_iframe \<circ> reload_iframe b ''120'' \<circ> blank_iframe b) (section_iframes (year_sections pg))
        else map fire_iframe (section_iframes (year_sections pg)))"
  by (simp add: fire_timers_def fire_live_reloads_def reloadSectionMedia_def unloadSectionMedia_def
      section_iframes_map)

lemma video_round_trip_iframes:
  "video_player (fire_timers b
       (reloadSectionMedia b ''video-archives'' (unloadSectionMedia b ''video-archives'' pg)))
     = (if has_section pg ''video-archives''
        then map_option (map fire_iframe)
               (map_first (reload_iframe b ''100%'' \<circ> blank_iframe b) (video_player pg))
        else map_option (map fire_iframe) (video_player pg))"
  by (simp add: fire_timers_def fire_live_reloads_def reloadSectionMedia_def unloadSectionMedia_def
      map_first_comp)

lemma reload_live_kick:
  assumes "getActiveStream p = ''kick''" and "kickEmbed p = Some [f]"
    and "original_src f = Some S" and "S \<noteq> []"
  shows "reload_live_streams b p = p\<lparr>kickEmbed := Some [new_iframe S kick_options]\<rparr>"
  using assms
  by (simp add: reload_live_streams_def kick_original_src_def first_iframe_def truthy_def)

lemma reload_live_kick_again:
  assumes "getActiveStream p = ''kick''" and "kickEmbed p = Some [f]"
    and "original_src f = Some S" and "S \<noteq> []"
  shows "((reload_live_streams b) ^^ Suc n) p = p\<lparr>kickEmbed := Some [new_iframe S kick_options]\<rparr>"
proof (induction n)
  case 0
  with assms show ?case by (simp add: reload_live_kick)
next
  case (Suc n)
  let ?q = "p\<lparr>kickEmbed := Some [new_iframe S kick_options]\<rparr>"
  have "reload_live_streams b ?q = ?q\<lparr>kickEmbed := Some [new_iframe S kick_options]\<rparr>"
    using assms reload_live_kick [of ?q "new_iframe S kick_options" S b]
    by (simp add: getActiveStream_def new_iframe_def)
  with Suc show ?case by simp
qed

lemma kick_round_trip:
  assumes "S \<noteq> []" and "has_section pg ''live-streams''"
    and "getActiveStream (live pg) = ''kick''"
    and "kickEmbed (live pg) = Some [new_iframe S kick_options]"
  shows "kickEmbed (live (fire_timers b
            (reloadSectionMedia b ''live-streams'' (unloadSectionMedia b ''live-streams'' pg))))
       = Some [new_iframe S kick_options]"
proof -
  let ?un = "unloadSectionMedia b ''live-streams'' pg"
  let ?f = "blank_stream_iframe b (new_iframe S kick_options)"
  have kick: "kickEmbed (live ?un) = Some [?f]"
    using assms by (simp add: live_after_unload map_first_def)
  have orig: "original_src ?f = Some S"
    using assms(1) by (simp add: blank_stream_iframe_def new_iframe_def)
  have act: "getActiveStream (live ?un) = ''kick''"
    using assms by (simp add: unloadSectionMedia_def Let_def pauseTwitchEmbed_def getActiveStream_def)
  have sec: "has_section ?un ''live-streams''"
    using assms by (simp add: live_after_unload)
  let ?re = "reloadSectionMedia b ''live-streams'' ?un"
  have re: "live ?re = live ?un" "live_reloads ?re = Suc (live_reloads ?un)"
    using sec by (simp_all add: reloadSectionMedia_def)
  have "live (fire_timers b ?re) = ((reload_live_streams b) ^^ Suc (live_reloads ?un)) (live ?un)"
    by (simp add: fire_timers_def fire_live_reloads_def re del: funpow.simps)
  also have "\<dots> = (live ?un)\<lparr>kickEmbed := Some [new_iframe S kick_options]\<rparr>"
    using act kick orig assms(1) by (rule reload_live_kick_again)
  finally show ?thesis by simp
qed

text \<open>
  Only the active stream is reloaded: while Twitch is the active stream, the Kick iframe
  stays as \<open>unloadSectionMedia\<close> left it, until \<open>switchStream\<close> brings Kick back.
\<close>

lemma reload_live_twitch_keeps_kick:
  "getActiveStream p = ''twitch'' \<Longrightarrow> kickEmbed (reload_live_streams b p) = kickEmbed p"
  by (simp add: reload_live_streams_def initTwitchEmbed_def Let_def split: option.splits sdk.splits)

lemma reload_live_twitch_active:
  "getActiveStream p = ''twitch'' \<Longrightarrow> getActiveStream (reload_live_streams b p) = ''twitch''"
  by (simp add: reload_live_streams_def initTwitchEmbed_def Let_def getActiveStream_def
      split: option.splits sdk.splits)

lemma reload_live_twitch_again:
  "getActiveStream p = ''twitch'' \<Longrightarrow>
   kickEmbed (((reload_live_streams b) ^^ n) p) = kickEmbed p \<and>
   getActiveStream (((reload_live_streams b) ^^ n) p) = ''twitch''"
  by (induction n) (simp_all add: reload_live_twitch_keeps_kick reload_live_twitch_active)

lemma kick_halted_while_twitch_active:
  assumes "has_section pg ''live-streams''"
    and "getActiveStream (live pg) = ''twitch''"
    and "kickEmbed (live pg) = Some [f]"
  shows "kickEmbed (live (fire_timers b
            (reloadSectionMedia b ''live-streams'' (unloadSectionMedia b ''live-streams'' pg))))
       = Some [blank_stream_iframe b f]"
proof -
  let ?un = "unloadSectionMedia b ''live-streams'' pg"
  have kick: "kickEmbed (live ?un) = Some [blank_stream_iframe b f]"
    using assms by (simp add: live_after_unload map_first_def)
  have act: "getActiveStream (live ?un) = ''twitch''"
    using assms by (simp add: unloadSectionMedia_def Let_def pauseTwitchEmbed_def getActiveStream_def)
  have sec: "has_section ?un ''live-streams''"
    using assms by (simp add: live_after_unload)
  let ?re = "reloadSectionMedia b ''live-streams'' ?un"
  have re: "live ?re = live ?un"
    using sec by (simp_all add: reloadSectionMedia_def)
  have "live (fire_timers b ?re) = ((reload_live_streams b) ^^ live_reloads ?re) (live ?un)"
    by (simp add: fire_timers_def fire_live_reloads_def re del: funpow.simps)
  then show ?thesis
    using reload_live_twitch_again [OF act, where b = b and n = "live_reloads ?re"] kick by simp
qed

lemma createIframeEmbed_mounts:
  "createIframeEmbed S options (Some children) = Some [new_iframe S options]"
  by (simp add: createIframeEmbed_def)

lemma loadArchiveItemEmbed_mounts:
  assumes "embedLoaded itemDiv \<noteq> ''true''" and "archiveData itemDiv = Some archiveItem"
    and "embedDiv itemDiv \<noteq> None" and "platform archiveItem = ''hearthis''"
  shows "item_iframes (fst (loadArchiveItemEmbed b uniqueId itemDiv ws))
     = [new_iframe (embedUrl archiveItem)
          \<lparr>opt_width = [], opt_height = ''150'', opt_title = title archiveItem\<rparr>]"
  using assms
  by (auto simp: loadArchiveItemEmbed_def item_iframes_def createIframeEmbed_def Let_def)

lemma loadVideoInPlayer_mounts:
  "video_player pg \<noteq> None \<Longrightarrow> platform videoItem = ''vk'' \<Longrightarrow>
   video_player (loadVideoInPlayer videoItem pg) = Some [video_iframe videoItem]"
  by (auto simp: loadVideoInPlayer_def)

text \<open>
  C1. Let the browser leave \<open>about:blank\<close> as it is and resolve a resolved URL to
  itself. Unloading the audio archive section, reloading it and letting the timers of the
  reload fire keeps the number of iframes of the section, and every iframe that
  \<open>createIframeEmbed\<close> mounted with source \<open>S\<close> shows the source of the mount again.
  The iframe \<open>loadVideoInPlayer\<close> mounted comes back from unloading and reloading the
  video section with the source of its mount, the embed URL with the language parameter
  as \<open>addVkLanguageParam\<close> left it. And while Kick is the active stream, unloading and
  reloading the live stream section puts the Kick iframe back as \<open>initLiveStreams\<close>
  mounted it.
\<close>

theorem mount_unload_reload:
  assumes about: "resolve b ''about:blank'' = ''about:blank''"
    and idem: "\<forall>s. resolve b (resolve b s) = resolve b s"
  shows "(let pg' = fire_timers b
             (reloadSectionMedia b ''audio-archives'' (unloadSectionMedia b ''audio-archives'' pg)) in
          length (section_iframes (year_sections pg')) = length (section_iframes (year_sections pg)) \<and>
          (\<forall>i S options.
              i < length (section_iframes (year_sections pg)) \<and>
              section_iframes (year_sections pg) ! i = new_iframe S options \<longrightarrow>
              src_of b (section_iframes (year_sections pg') ! i) = src_of b (new_iframe S options))) \<and>
         (\<forall>videoItem. video_player pg = Some [video_iframe videoItem] \<longrightarrow>
            (\<exists>f. video_player (fire_timers b
                     (reloadSectionMedia b ''video-archives'' (unloadSectionMedia b ''video-archives'' pg)))
                   = Some [f] \<and>
                 src_of b f = src_of b (video_iframe videoItem))) \<and>
         (\<forall>S. S \<noteq> [] \<and> has_section pg ''live-streams'' \<and> getActiveStream (live pg) = ''kick'' \<and>
              kickEmbed (live pg) = Some [new_iframe S kick_options] \<longrightarrow>
              kickEmbed (live (fire_timers b
                  (reloadSectionMedia b ''live-streams'' (unloadSectionMedia b ''live-streams'' pg))))
                = Some [new_iframe S kick_options])"
proof -
  let ?audio = "fire_timers b
      (reloadSectionMedia b ''audio-archives'' (unloadSectionMedia b ''audio-archives'' pg))"
  let ?video = "fire_timers b
      (reloadSectionMedia b ''video-archives'' (unloadSectionMedia b ''video-archives'' pg))"
  let ?before = "section_iframes (year_sections pg)"
  from idem have idem': "\<And>s. resolve b (resolve b s) = resolve b s" by simp
  have len: "length (section_iframes (year_sections ?audio)) = length ?before"
    by (simp add: audio_round_trip_iframes)
  have mounted: "src_of b (section_iframes (year_sections ?audio) ! i) = src_of b (new_iframe S options)"
    if i: "i < length ?before" and at: "?before ! i = new_iframe S options" for i S options
  proof (cases "has_section pg ''audio-archives''")
    case True
    with i at have "section_iframes (year_sections ?audio) ! i
        = fire_iframe (reload_iframe b ''120'' (blank_iframe b (new_iframe S options)))"
      by (simp add: audio_round_trip_iframes)
    then show ?thesis
      using round_trip_created [OF about idem', of "''120''" S options]
      by (simp add: src_of_def new_iframe_def)
  next
    case False
    with i at have "section_iframes (year_sections ?audio) ! i = new_iframe S options"
      by (simp add: audio_round_trip_iframes fire_new_iframe)
    then show ?thesis by simp
  qed
  have video: "\<exists>f. video_player ?video = Some [f] \<and> src_of b f = src_of b (video_iframe videoItem)"
    if "video_player pg = Some [video_iframe videoItem]" for videoItem
  proof (cases "has_section pg ''video-archives''")
    case True
    with that have "video_player ?video
        = Some [fire_iframe (reload_iframe b ''100%'' (blank_iframe b (video_iframe videoItem)))]"
      by (simp add: video_round_trip_iframes map_first_def)
    then show ?thesis
      using round_trip_video [OF about idem', of "''100%''" videoItem]
      by (simp add: src_of_def video_iframe_def)
  next
    case False
    with that have "video_player ?video = Some [video_iframe videoItem]"
      by (simp add: video_round_trip_iframes fire_iframe_def video_iframe_def)
    then show ?thesis by simp
  qed
  have kick: "kickEmbed (live (fire_timers b
        (reloadSectionMedia b ''live-streams'' (unloadSectionMedia b ''live-streams'' pg))))
      = Some [new_iframe S kick_options]"
    if "S \<noteq> []" "has_section pg ''live-streams''" "getActiveStream (live pg) = ''kick''"
      "kickEmbed (live pg) = Some [new_iframe S kick_options]" for S
    using that by (rule kick_round_trip)
  from len mounted video kick show ?thesis by (simp add: Let_def)
qed

lemma example_browser_resolve:
  "resolve example_browser ''about:blank'' = ''about:blank''"
  "\<forall>s. resolve example_browser (resolve example_browser s) = resolve example_browser s"
  by (simp_all add: example_browser_def)

lemma example_loaded_iframes:
  "section_iframes (year_sections example_loaded_page)
     = [new_iframe ''https://app.hearthis.at/embed/set-2023''
          \<lparr>opt_width = [], opt_height = ''150'', opt_title = ''set-2023''\<rparr>]"
  by (simp add: example_loaded_page_def example_archive_page_def section_iframes_def item_iframes_def
      loadArchiveItemEmbed_def createAudioArchiveItemPlaceholder_def createIframeEmbed_def
      item_2023_def item_2020_def example_item_def new_year_section_def Let_def)

lemma example_mounted:
  "video_player example_mounted_page = Some [video_iframe example_video_item]"
  "has_section example_mounted_page ''live-streams''"
  "getActiveStream (live example_mounted_page) = ''kick''"
  "kickEmbed (live example_mounted_page) = Some [new_iframe ''https://player.kick.com/flukie'' kick_options]"
  by (simp_all add: example_mounted_page_def loadVideoInPlayer_def example_page_def
      example_video_item_def initLiveStreams_def initTwitchEmbed_def example_stream_page_def
      example_browser_def getActiveStream_def createIframeEmbed_def Let_def)

lemma example_vk_src:
  "src_of example_browser (video_iframe example_video_item)
     = ''https://vk.com/video_ext.php?oid=-1&id=2&lang=en''"
  by code_simp

theorem mount_unload_reload_witness:
  "section_iframes (year_sections example_loaded_page)
     = [new_iframe ''https://app.hearthis.at/embed/set-2023''
          \<lparr>opt_width = [], opt_height = ''150'', opt_title = ''set-2023''\<rparr>] \<and>
   map src_attr (section_iframes (year_sections
       (unloadSectionMedia example_browser ''audio-archives'' example_loaded_page)))
     = [Some ''about:blank''] \<and>
   src_of example_browser
     (section_iframes (year_sections (fire_timers example_browser
        (reloadSectionMedia example_browser ''audio-archives''
           (unloadSectionMedia example_browser ''audio-archives'' example_loaded_page)))) ! 0)
     = ''https://app.hearthis.at/embed/set-2023'' \<and>
   (\<exists>f. video_player (fire_timers example_browser
        (reloadSectionMedia example_browser ''video-archives''
           (unloadSectionMedia example_browser ''video-archives'' example_mounted_page))) = Some [f] \<and>
        src_of example_browser f = ''https://vk.com/video_ext.php?oid=-1&id=2&lang=en'') \<and>
   kickEmbed (live (fire_timers example_browser
        (reloadSectionMedia example_browser ''live-streams''
           (unloadSectionMedia example_browser ''live-streams'' example_mounted_page))))
     = Some [new_iframe ''https://player.kick.com/flukie'' kick_options]"
proof -
  let ?S = "''https://app.hearthis.at/embed/set-2023''"
  let ?o = "\<lparr>opt_width = [], opt_height = ''150'', opt_title = ''set-2023''\<rparr>"
  note mounted = example_loaded_iframes
  have halted: "map src_attr (section_iframes (year_sections
       (unloadSectionMedia example_browser ''audio-archives'' example_loaded_page)))
     = [Some ''about:blank'']"
    by (simp add: unloadSectionMedia_def section_iframes_map mounted)
      (simp add: example_loaded_page_def example_archive_page_def example_page_def blank_iframe_def
        src_of_def new_iframe_def example_browser_def truthy_def Let_def)
  from mount_unload_reload [OF example_browser_resolve, of example_loaded_page]
  have "src_of example_browser
     (section_iframes (year_sections (fire_timers example_browser
        (reloadSectionMedia example_browser ''audio-archives''
           (unloadSectionMedia example_browser ''audio-archives'' example_loaded_page)))) ! 0)
     = src_of example_browser (new_iframe ?S ?o)"
    using mounted by (simp add: Let_def)
  then have restored: "src_of example_browser
     (section_iframes (year_sections (fire_timers example_browser
        (reloadSectionMedia example_browser ''audio-archives''
           (unloadSectionMedia example_browser ''audio-archives'' example_loaded_page)))) ! 0)
     = ?S"
    by (simp add: src_of_def new_iframe_def example_browser_def)
  note all = mount_unload_reload [OF example_browser_resolve, of example_mounted_page]
  from all have "\<exists>f. video_player (fire_timers example_browser
        (reloadSectionMedia example_browser ''video-archives''
           (unloadSectionMedia example_browser ''video-archives'' example_mounted_page))) = Some [f] \<and>
        src_of example_browser f = src_of example_browser (video_iframe example_video_item)"
    using example_mounted(1) by blast
  then have video: "\<exists>f. video_player (fire_timers example_browser
        (reloadSectionMedia example_browser ''video-archives''
           (unloadSectionMedia example_browser ''video-archives'' example_mounted_page))) = Some [f] \<and>
        src_of example_browser f = ''https://vk.com/video_ext.php?oid=-1&id=2&lang=en''"
    by (simp only: example_vk_src)
  from all have kick: "kickEmbed (live (fire_timers example_browser
        (reloadSectionMedia example_browser ''live-streams''
           (unloadSectionMedia example_browser ''live-streams'' example_mounted_page))))
     = Some [new_iframe ''https://player.kick.com/flukie'' kick_options]"
    using example_mounted(2,3,4) by blast
  show ?thesis
    by (intro conjI) (fact mounted, fact halted, fact restored, fact video, fact kick)
qed

theorem unload_twice_witness:
  "original_src (blank_iframe example_browser
      (new_iframe ''https://app.hearthis.at/embed/set-2023''
         \<lparr>opt_width = [], opt_height = ''150'', opt_title = ''set-2023''\<rparr>))
     = Some ''https://app.hearthis.at/embed/set-2023'' \<and>
   unloadSectionMedia example_browser ''audio-archives''
       (unloadSectionMedia example_browser ''audio-archives'' example_loaded_page)
     = unloadSectionMedia example_browser ''audio-archives'' example_loaded_page \<and>
   map original_src (section_iframes (year_sections
       (unloadSectionMedia example_browser ''audio-archives''
          (unloadSectionMedia example_browser ''audio-archives'' example_loaded_page))))
     = [Some ''https://app.hearthis.at/embed/set-2023'']"
proof -
  let ?S = "''https://app.hearthis.at/embed/set-2023''"
  let ?o = "\<lparr>opt_width = [], opt_height = ''150'', opt_title = ''set-2023''\<rparr>"
  let ?once = "unloadSectionMedia example_browser ''audio-archives'' example_loaded_page"
  note fact = unload_twice [of example_browser "''audio-archives''" example_loaded_page _ _ "new_iframe ?S ?o"]
  have stored: "truthy_attr (original_src (new_iframe ?S ?o))"
    by (simp add: new_iframe_def truthy_attr_def truthy_def)
  from fact stored have kept: "original_src (blank_iframe example_browser (new_iframe ?S ?o)) = Some ?S"
    by (simp add: new_iframe_def)
  from fact have twice: "unloadSectionMedia example_browser ''audio-archives'' ?once = ?once"
    by simp
  have "map original_src (section_iframes (year_sections ?once)) = [Some ?S]"
    by (simp add: unloadSectionMedia_def section_iframes_map example_loaded_iframes kept)
      (simp add: example_loaded_page_def example_archive_page_def example_page_def kept)
  with twice have both: "map original_src (section_iframes (year_sections
       (unloadSectionMedia example_browser ''audio-archives'' ?once))) = [Some ?S]"
    by simp
  show ?thesis
    by (intro conjI) (fact kept, fact twice, fact both)
qed

section \<open>Switching sections\<close>

lemma update_first_map:
  "distinct (map el_id es) \<Longrightarrow>
   update_first x f es = map (\<lambda>e. if el_id e = x then f e else e) es"
proof (induction es)
  case Nil
  then show ?case by simp
next
  case (Cons e es)
  show ?case
  proof (cases "el_id e = x")
    case True
    with Cons.prems have "\<forall>e'\<in>set es. el_id e' \<noteq> x" by (auto simp: image_iff)
    then have "map (\<lambda>e. if el_id e = x then f e else e) es = es"
      by (simp add: map_idI)
    with True show ?thesis by simp
  next
    case False
    with Cons show ?thesis by simp
  qed
qed

lemma getElementById_Some:
  "getElementById x es = Some e \<Longrightarrow> e \<in> set es \<and> el_id e = x \<and> x \<noteq> []"
  by (auto simp: getElementById_def find_Some_iff split: if_splits)

lemma getElementById_None:
  "getElementById x es = None \<Longrightarrow> x \<noteq> [] \<Longrightarrow> \<forall>e\<in>set es. el_id e \<noteq> x"
  by (auto simp: getElementById_def find_None_iff)

lemma same_id_same_element:
  "distinct (map el_id es) \<Longrightarrow> e \<in> set es \<Longrightarrow> e' \<in> set es \<Longrightarrow> el_id e = el_id e' \<Longrightarrow> e = e'"
  by (meson distinct_map inj_onD)

lemma fade_timer_once:
  "fade_timers st = [a] \<Longrightarrow> settle st = fire_fade_timer st"
  by (simp add: settle_def)

lemma settle_none: "fade_timers st = [] \<Longrightarrow> settle st = st"
  by (simp add: settle_def)

lemma switch_step:
  assumes ids: "distinct (map el_id (elements st))"
    and inv: "shows_only st a"
    and tgt: "names_section (elements st) x"
  shows "\<exists>a'. shows_only (settle (switchSection x animate st)) a' \<and>
           map el_id (elements (settle (switchSection x animate st))) = map el_id (elements st) \<and>
           map is_section (elements (settle (switchSection x animate st))) = map is_section (elements st)"
proof (cases "getElementById x (elements st)")
  case None
  then have "switchSection x animate st = st" by (simp add: switchSection_def)
  with inv show ?thesis by (auto simp: settle_none shows_only_def)
next
  case (Some t)
  with tgt have t: "is_section t" "t \<in> set (elements st)" "el_id t = x" "x \<noteq> []"
    using getElementById_Some [OF Some] by (simp_all add: names_section_def)
  from inv have timers: "fade_timers st = []" and act: "activeSection st = Some a" and a: "a \<noteq> []"
    and nb: "navButtons st"
    and marks: "\<forall>e\<in>set (elements st). is_section e \<longrightarrow> el_active e = (el_id e = a)"
    by (simp_all add: shows_only_def)
  from inv obtain c where c: "c \<in> set (elements st)" "is_section c" "el_id c = a"
    by (auto simp: shows_only_def)
  show ?thesis
  proof (cases "x = a")
    case True
    then have "switchSection x animate st = st \<or>
        switchSection x animate st
          = st\<lparr>audio_param := None,
               effects := ScrollToTop # ClearHighlights # DeleteParam ''audio'' # effects st\<rparr>"
      using Some act by (simp add: switchSection_def)
    then show ?thesis
    proof
      assume "switchSection x animate st = st"
      with inv show ?thesis by (auto simp: settle_none shows_only_def)
    next
      assume eq: "switchSection x animate st
          = st\<lparr>audio_param := None,
               effects := ScrollToTop # ClearHighlights # DeleteParam ''audio'' # effects st\<rparr>"
      have "settle (switchSection x animate st) = switchSection x animate st"
        by (rule settle_none) (simp add: eq timers)
      with inv eq show ?thesis by (auto simp: shows_only_def)
    qed
  next
    case False
    have cur: "getElementById a (elements st) \<noteq> None"
      using c a by (auto simp: getElementById_def find_None_iff)
    define h1 :: "element \<Rightarrow> element" where "h1 = (\<lambda>e. if el_id e = a
        then (if animate then e\<lparr>fade_out := True\<rparr> else e\<lparr>el_active := False\<rparr>) else e)"
    define h2 :: "element \<Rightarrow> element" where "h2 = (\<lambda>e. if el_id e = x then e\<lparr>el_active := True\<rparr> else e)"
    define h3 :: "element \<Rightarrow> element" where "h3 = (\<lambda>e. if el_id e = a then e\<lparr>el_active := False, fade_out := False\<rparr> else e)"
    define g :: "element \<Rightarrow> element" where "g = (if animate then h3 \<circ> h2 \<circ> h1 else h2 \<circ> h1)"
    have h_id: "el_id (h1 e) = el_id e" "el_id (h2 e) = el_id e" "el_id (h3 e) = el_id e" for e
      by (simp_all add: h1_def h2_def h3_def)
    let ?left = "leave_current animate st"
    have left_els: "elements ?left = map h1 (elements st)"
      and left_timers: "fade_timers ?left = (if animate then [a] else [])"
      and left_rest: "buttons ?left = buttons st" "navButtons ?left = navButtons st"
      using act a cur timers ids
      by (auto simp: leave_current_def Let_def truthy_def update_first_map h1_def split: option.splits)
    have left_ids: "distinct (map el_id (elements ?left))"
      using ids by (simp add: left_els comp_def h_id)
    let ?in = "enter_target x ?left"
    have in_els: "elements ?in = map h2 (elements ?left)"
      and in_timers: "fade_timers ?in = fade_timers ?left"
      and in_act: "activeSection ?in = Some x"
      and in_nb: "navButtons ?in"
      and in_buttons: "buttons ?in = map (\<lambda>button. button\<lparr>btn_active := (data_section button = Some x)\<rparr>) (buttons st)"
      using left_ids nb left_rest
      by (simp_all add: enter_target_def Let_def updateActiveButton_def update_first_map h2_def)
    let ?after = "after_switch x animate ?in"
    have after: "elements ?after = elements ?in" "fade_timers ?after = fade_timers ?in"
      "activeSection ?after = activeSection ?in" "navButtons ?after = navButtons ?in"
      "buttons ?after = buttons ?in"
      by (simp_all add: after_switch_def split: option.splits)
    have sw: "switchSection x animate st = ?after"
      using Some act False by (simp add: switchSection_def)
    let ?end = "settle (switchSection x animate st)"
    have after_els: "elements ?after = map (h2 \<circ> h1) (elements st)"
      by (simp add: after in_els left_els)
    have after_ids: "distinct (map el_id (elements ?after))"
      using ids by (simp add: after_els comp_def h_id)
    have end_state: "elements ?end = map g (elements st) \<and> fade_timers ?end = [] \<and>
        activeSection ?end = Some x \<and> navButtons ?end \<and> buttons ?end = buttons ?in"
    proof (cases animate)
      case True
      have one: "fade_timers ?after = [a]"
        unfolding after in_timers left_timers using True by simp
      then have fired: "?end = fire_fade_timer ?after" unfolding sw by (rule fade_timer_once)
      have "elements (fire_fade_timer ?after) = map h3 (elements ?after)"
        using one after_ids by (simp add: fire_fade_timer_def update_first_map h3_def)
      moreover have "g = h3 \<circ> h2 \<circ> h1" using True by (simp add: g_def)
      ultimately have "elements ?end = map g (elements st)"
        by (simp add: fired after_els)
      moreover have "fade_timers (fire_fade_timer ?after) = []"
        "activeSection (fire_fade_timer ?after) = Some x" "navButtons (fire_fade_timer ?after)"
        "buttons (fire_fade_timer ?after) = buttons ?in"
        using one by (simp_all add: fire_fade_timer_def after in_act in_nb)
      ultimately show ?thesis by (simp add: fired)
    next
      case False
      have none: "fade_timers ?after = []"
        unfolding after in_timers left_timers using False by simp
      then have "?end = ?after" unfolding sw by (rule settle_none)
      moreover have "g = h2 \<circ> h1" using False by (simp add: g_def)
      ultimately show ?thesis
        using none after after_els in_act in_nb by simp
    qed
    have g_id: "el_id (g e) = el_id e" and g_sec: "is_section (g e) = is_section e"
      and g_act: "el_active (g e) = (if el_id e = x then True else if el_id e = a then False else el_active e)"
      for e
      using False by (cases animate; auto simp: g_def h1_def h2_def h3_def)+
    have ids': "map el_id (elements ?end) = map el_id (elements st)"
      and secs': "map is_section (elements ?end) = map is_section (elements st)"
      using end_state g_id g_sec by (simp_all add: comp_def)
    have marks': "\<forall>e\<in>set (elements ?end). is_section e \<longrightarrow> el_active e = (el_id e = x)"
    proof
      fix e' assume "e' \<in> set (elements ?end)"
      with end_state obtain e where e: "e \<in> set (elements st)" "e' = g e" by auto
      show "is_section e' \<longrightarrow> el_active e' = (el_id e' = x)"
      proof
        assume "is_section e'"
        with e have sec: "is_section e" using g_sec [of e] by simp
        with marks e have "el_active e = (el_id e = a)" by blast
        with e False show "el_active e' = (el_id e' = x)"
          using g_act [of e] g_id [of e] by auto
      qed
    qed
    have target': "\<exists>e\<in>set (elements ?end). is_section e \<and> el_id e = x"
    proof -
      from t end_state have "g t \<in> set (elements ?end)" by auto
      moreover have "is_section (g t)" "el_id (g t) = x"
        using t g_sec [of t] g_id [of t] by simp_all
      ultimately show ?thesis by blast
    qed
    have buttons': "\<forall>button\<in>set (buttons ?end). btn_active button = (data_section button = Some x)"
      using end_state by (auto simp: in_buttons)
    from end_state t(4) marks' target' buttons' have "shows_only ?end x"
      unfolding shows_only_def by blast
    with ids' secs' show ?thesis by blast
  qed
qed

lemma find_static:
  "map el_id es' = map el_id es \<Longrightarrow> map is_section es' = map is_section es \<Longrightarrow>
   map_option is_section (find (\<lambda>e. el_id e = x) es') = map_option is_section (find (\<lambda>e. el_id e = x) es)"
proof (induction es arbitrary: es')
  case Nil
  then show ?case by simp
next
  case (Cons e es)
  then obtain e' es'' where es': "es' = e' # es''" by (cases es') auto
  with Cons.prems have same: "el_id e' = el_id e" "is_section e' = is_section e"
    and rest: "map el_id es'' = map el_id es" "map is_section es'' = map is_section es"
    by simp_all
  from Cons.IH [OF rest] same es' show ?case by simp
qed

lemma names_section_static:
  assumes "map el_id es' = map el_id es" and "map is_section es' = map is_section es"
  shows "names_section es' x = names_section es x"
proof -
  have "map_option is_section (getElementById x es') = map_option is_section (getElementById x es)"
    using find_static [OF assms] by (simp add: getElementById_def)
  then show ?thesis
    unfolding names_section_def
    by (cases "getElementById x es'"; cases "getElementById x es") auto
qed

lemma settled_run_shows_only:
  assumes "distinct (map el_id (elements st))" and "shows_only st a"
    and "\<forall>(sectionId, animate)\<in>set switches. names_section (elements st) sectionId"
  shows "\<exists>a'. shows_only (settled_run switches st) a' \<and>
           distinct (map el_id (elements (settled_run switches st)))"
  using assms
proof (induction switches arbitrary: st a)
  case Nil
  then show ?case by (auto simp: settled_run_def)
next
  case (Cons sw switches)
  obtain x animate where sw: "sw = (x, animate)" by (cases sw)
  let ?next = "settle (switchSection x animate st)"
  from Cons.prems(3) sw have tgt: "names_section (elements st) x" by simp
  from switch_step [OF Cons.prems(1) Cons.prems(2) tgt, of animate] obtain a' where
    inv: "shows_only ?next a'"
    and ids: "map el_id (elements ?next) = map el_id (elements st)"
    and secs: "map is_section (elements ?next) = map is_section (elements st)"
    by blast
  from ids Cons.prems(1) have d: "distinct (map el_id (elements ?next))" by simp
  have later: "\<forall>(sectionId, animate)\<in>set switches. names_section (elements ?next) sectionId"
    using Cons.prems(3) names_section_static [OF ids secs] by auto
  from Cons.IH [OF d inv later] sw show ?case by (simp add: settled_run_def)
qed

lemma one_active_section:
  assumes "distinct (map el_id es)" and "\<exists>e\<in>set es. is_section e \<and> el_id e = a"
    and "\<forall>e\<in>set es. is_section e \<longrightarrow> el_active e = (el_id e = a)"
  shows "map el_id (filter (\<lambda>e. is_section e \<and> el_active e) es) = [a]"
  using assms
proof (induction es)
  case Nil
  then show ?case by simp
next
  case (Cons e es)
  show ?case
  proof (cases "el_id e = a")
    case True
    with Cons.prems(1) have none: "\<forall>e'\<in>set es. el_id e' \<noteq> a" by (auto simp: image_iff)
    with Cons.prems(2) True have "is_section e" by auto
    with Cons.prems(3) True have "el_active e" by simp
    moreover have "filter (\<lambda>e. is_section e \<and> el_active e) es = []"
      using none Cons.prems(3) by (auto simp: filter_empty_conv)
    ultimately show ?thesis using True \<open>is_section e\<close> by simp
  next
    case False
    with Cons.prems have "map el_id (filter (\<lambda>e. is_section e \<and> el_active e) es) = [a]"
      by (intro Cons.IH) auto
    moreover from False Cons.prems(3) have "\<not> (is_section e \<and> el_active e)" by auto
    ultimately show ?thesis by simp
  qed
qed

lemma find_only: "filter P es = [s0] \<Longrightarrow> find P es = Some s0"
  by (induction es) (auto split: if_splits)

lemma initNavigation_shows_only:
  assumes ids: "distinct (map el_id es)"
    and one: "filter (\<lambda>e. is_section e \<and> el_active e) es = [s0]"
    and named: "el_id s0 \<noteq> []"
    and bs: "bs \<noteq> []"
  shows "shows_only (initNavigation (page_load es bs audio)) (el_id s0)"
proof -
  from one have "s0 \<in> set (filter (\<lambda>e. is_section e \<and> el_active e) es)" by simp
  then have s0: "s0 \<in> set es" "is_section s0" "el_active s0" by simp_all
  from one have found: "find (\<lambda>e. is_section e \<and> el_active e) es = Some s0"
    by (rule find_only)
  have sections: "filter is_section es \<noteq> []"
    using s0 by (auto simp: filter_empty_conv)
  have marks: "el_active e = (el_id e = el_id s0)" if "e \<in> set es" "is_section e" for e
  proof
    assume "el_active e"
    with that have "e \<in> set (filter (\<lambda>e. is_section e \<and> el_active e) es)" by simp
    with one show "el_id e = el_id s0" by simp
  next
    assume "el_id e = el_id s0"
    with ids that s0 have "e = s0" using same_id_same_element by blast
    with s0 show "el_active e" by simp
  qed
  show ?thesis
    using found sections bs s0 named marks
    by (auto simp: shows_only_def initNavigation_def page_load_def updateActiveButton_def Let_def)
qed

text \<open>
  C7, as the code has it. Let the ids of the page be distinct, let exactly one section
  carry the active marker when the page loads, let that section have an id, and let there
  be a navigation button. After \<open>initNavigation\<close> and any sequence of
  \<open>switchSection\<close> calls, each naming a section or no element at all and each made
  once the fade-out of the call before it has ended, exactly one section carries the
  active marker when the last fade-out has ended: the section named by \<open>activeSection\<close>.
  A navigation button is marked active exactly when its \<open>data-section\<close> names that
  section.
\<close>

theorem settled_switches_one_active:
  assumes "distinct (map el_id es)"
    and "filter (\<lambda>e. is_section e \<and> el_active e) es = [s0]"
    and "el_id s0 \<noteq> []"
    and "bs \<noteq> []"
    and "\<forall>(sectionId, animate)\<in>set switches. names_section es sectionId"
  shows "\<exists>a. activeSection (settled_run switches (initNavigation (page_load es bs audio))) = Some a \<and>
           active_sections (settled_run switches (initNavigation (page_load es bs audio))) = [a] \<and>
           (\<forall>button\<in>set (buttons (settled_run switches (initNavigation (page_load es bs audio)))).
               btn_active button = (data_section button = Some a))"
proof -
  let ?start = "initNavigation (page_load es bs audio)"
  have els: "elements ?start = es"
    by (simp add: initNavigation_def page_load_def updateActiveButton_def Let_def split: option.splits)
  have start: "shows_only ?start (el_id s0)"
    using assms(1-4) by (rule initNavigation_shows_only)
  from settled_run_shows_only [of ?start "el_id s0" switches] assms(1,5) start els
  obtain a where inv: "shows_only (settled_run switches ?start) a"
    and ids: "distinct (map el_id (elements (settled_run switches ?start)))"
    by auto
  from inv have "active_sections (settled_run switches ?start) = [a]"
    unfolding active_sections_def shows_only_def using ids by (intro one_active_section) auto
  with inv show ?thesis by (auto simp: shows_only_def)
qed

lemma example_nav_state:
  "example_nav =
     \<lparr>elements = example_elements,
      buttons =
        [\<lparr>data_section = Some ''live-streams'', btn_active = True\<rparr>,
         \<lparr>data_section = Some ''audio-archives'', btn_active = False\<rparr>,
         \<lparr>data_section = Some ''video-archives'', btn_active = False\<rparr>],
      activeSection = Some ''live-streams'', navButtons = True, fade_timers = [],
      audio_param = None, chat_wrapper = Some ''flex'', live_streams_active = False, effects = []\<rparr>"
  by code_simp

lemma example_switch_to_audio:
  "switchSection ''audio-archives'' True example_nav =
     \<lparr>elements =
        [\<lparr>el_id = ''live-streams'', is_section = True, el_active = True, fade_out = True\<rparr>,
         \<lparr>el_id = ''kick-embed'', is_section = False, el_active = False, fade_out = False\<rparr>,
         \<lparr>el_id = ''audio-archives'', is_section = True, el_active = True, fade_out = False\<rparr>,
         \<lparr>el_id = ''video-archives'', is_section = True, el_active = False, fade_out = False\<rparr>],
      buttons =
        [\<lparr>data_section = Some ''live-streams'', btn_active = False\<rparr>,
         \<lparr>data_section = Some ''audio-archives'', btn_active = True\<rparr>,
         \<lparr>data_section = Some ''video-archives'', btn_active = False\<rparr>],
      activeSection = Some ''audio-archives'', navButtons = True, fade_timers = [''live-streams''],
      audio_param = None, chat_wrapper = Some ''none'', live_streams_active = False,
      effects = [ScrollToTop, ClearHighlights, DeleteParam ''audio'',
                 ReloadSectionMedia ''audio-archives'', UnloadSectionMedia ''live-streams'']\<rparr>"
  by code_simp

text \<open>
  Right after an animated switch, while the fade-out of 300 ms lasts, the section left
  and the section entered both carry the active marker.
\<close>

theorem switchSection_fading_counterexample:
  "active_sections example_nav = [''live-streams''] \<and>
   active_sections (switchSection ''audio-archives'' True example_nav)
     = [''live-streams'', ''audio-archives'']"
proof -
  have "active_sections example_nav = [''live-streams'']"
    by (simp add: example_nav_state active_sections_def example_elements_def)
  moreover have "active_sections (switchSection ''audio-archives'' True example_nav)
      = [''live-streams'', ''audio-archives'']"
    by (simp add: example_switch_to_audio active_sections_def)
  ultimately show ?thesis by simp
qed

text \<open>
  A switch away and back within the 300 ms: the first timer then takes the marker off
  the section that is active again, and no section is left with it.
\<close>

lemma rapid_switch_back_none_active:
  "active_sections (nav_run [Switch ''audio-archives'' True, Switch ''live-streams'' True,
                             FadeTimer, FadeTimer] example_nav) = [] \<and>
   activeSection (nav_run [Switch ''audio-archives'' True, Switch ''live-streams'' True,
                           FadeTimer, FadeTimer] example_nav) = Some ''live-streams'' \<and>
   fade_timers (nav_run [Switch ''audio-archives'' True, Switch ''live-streams'' True,
                         FadeTimer, FadeTimer] example_nav) = []"
  by code_simp

lemma example_settled_run:
  "activeSection (settled_run [(''audio-archives'', True), (''no-such-section'', True),
                               (''video-archives'', False)]
                    (initNavigation (page_load example_elements example_buttons None)))
     = Some ''video-archives''"
  "map data_section (buttons (settled_run [(''audio-archives'', True), (''no-such-section'', True),
                                           (''video-archives'', False)]
                    (initNavigation (page_load example_elements example_buttons None))))
     = [Some ''live-streams'', Some ''audio-archives'', Some ''video-archives'']"
  by code_simp+

theorem settled_switches_one_active_witness:
  "active_sections (settled_run [(''audio-archives'', True), (''no-such-section'', True),
                                 (''video-archives'', False)]
                      (initNavigation (page_load example_elements example_buttons None)))
     = [''video-archives''] \<and>
   map btn_active (buttons (settled_run [(''audio-archives'', True), (''no-such-section'', True),
                                         (''video-archives'', False)]
                      (initNavigation (page_load example_elements example_buttons None))))
     = [False, False, True]"
proof -
  let ?switches = "[(''audio-archives'', True), (''no-such-section'', True), (''video-archives'', False)]"
  let ?end = "settled_run ?switches (initNavigation (page_load example_elements example_buttons None))"
  let ?live = "\<lparr>el_id = ''live-streams'', is_section = True, el_active = True, fade_out = False\<rparr>"
  have ids: "distinct (map el_id example_elements)"
    by (simp add: example_elements_def)
  have one: "filter (\<lambda>e. is_section e \<and> el_active e) example_elements = [?live]"
    by (simp add: example_elements_def)
  have named: "el_id ?live \<noteq> []" by simp
  have bs: "example_buttons \<noteq> []" by (simp add: example_buttons_def)
  have targets: "\<forall>(sectionId, animate)\<in>set ?switches. names_section example_elements sectionId"
    by (simp add: names_section_def getElementById_def example_elements_def)
  from settled_switches_one_active [OF ids one named bs targets, of None]
  obtain a where a: "activeSection ?end = Some a" and act: "active_sections ?end = [a]"
    and marks: "\<forall>button\<in>set (buttons ?end). btn_active button = (data_section button = Some a)"
    by blast
  note run = example_settled_run(1) and data = example_settled_run(2)
  from a run have video: "a = ''video-archives''" by simp
  with act have sections: "active_sections ?end = [''video-archives'']" by simp
  have "map btn_active (buttons ?end) = map (\<lambda>button. data_section button = Some a) (buttons ?end)"
    using marks by simp
  also have "\<dots> = map (\<lambda>d. d = Some a) (map data_section (buttons ?end))"
    by (simp add: comp_def)
  also have "\<dots> = [False, False, True]"
    unfolding data using video by simp
  finally have controls: "map btn_active (buttons ?end) = [False, False, True]" .
  show ?thesis
    by (intro conjI) (fact sections, fact controls)
qed

end
